theory Spec2Isabelle
  imports Main "HOL-Library.Multiset"
begin

section \<open>Common data\<close>

text \<open>
  Go's \<^verbatim>\<open>[]byte\<close> and \<^verbatim>\<open>string\<close> are both sequences of bytes; an Isabelle
  \<open>char\<close> is one byte, so both are \<open>char list\<close>.

  Go's \<^verbatim>\<open>error\<close> values: the packages create two errors of their own with
  \<^verbatim>\<open>fmt.Errorf\<close>; every other error comes from outside (the transport, a codec,
  a user function) and is kept by its message. A nil error is \<open>None\<close>.
\<close>

type_synonym bytes = "char list"

datatype error =
    NotSupported  \<comment> \<open>\<^verbatim>\<open>fmt.Errorf(`response not supported`)\<close>\<close>
  | WhileEncoding error  \<comment> \<open>\<^verbatim>\<open>fmt.Errorf(`%w while encoding response`, err)\<close>\<close>
  | External string  \<comment> \<open>an error made outside the package, with its message\<close>

fun Error :: "error \<Rightarrow> string" where
  "Error NotSupported = ''response not supported''"
| "Error (WhileEncoding e) = Error e @ '' while encoding response''"
| "Error (External m) = m"

text \<open>
  \<^verbatim>\<open>send func(bin []byte) error\<close>: the function a Scope writes its frames with. It acts
  on the world outside the Scope (the transport), of type \<open>'w\<close>, and returns an error or nil.
\<close>

type_synonym 'w send = "bytes \<Rightarrow> 'w \<Rightarrow> error option \<times> 'w"

section \<open>MessagePack primitives used by the binary protocol\<close>

text \<open>
  The functions of \<^verbatim>\<open>github.com/tinylib/msgp\<close> that \<^verbatim>\<open>Response.MarshalMsg\<close> calls, after
  the MessagePack format: each appends one encoded item to a byte slice.
\<close>

definition be16 :: "nat \<Rightarrow> bytes" where
  "be16 n = [char_of (n div 256), char_of n]"

definition be32 :: "nat \<Rightarrow> bytes" where
  "be32 n = [char_of (n div 16777216), char_of (n div 65536), char_of (n div 256), char_of n]"

definition AppendArrayHeader :: "bytes \<Rightarrow> nat \<Rightarrow> bytes" where
  "AppendArrayHeader b sz =
     (if sz \<le> 15 then b @ [char_of (144 + sz)]
      else if sz \<le> 65535 then b @ CHR 0xDC # be16 sz
      else b @ CHR 0xDD # be32 sz)"

definition AppendString :: "bytes \<Rightarrow> string \<Rightarrow> bytes" where
  "AppendString b s =
     (let sz = length s in
      if sz \<le> 31 then b @ char_of (160 + sz) # s
      else if sz \<le> 255 then b @ CHR 0xD9 # char_of sz # s
      else if sz \<le> 65535 then b @ CHR 0xDA # be16 sz @ s
      else b @ CHR 0xDB # be32 sz @ s)"

definition AppendNil :: "bytes \<Rightarrow> bytes" where
  "AppendNil b = b @ [CHR 0xC0]"

definition AppendInt :: "bytes \<Rightarrow> int \<Rightarrow> bytes" where
  "AppendInt b i =
     (if 0 \<le> i then
        (if i \<le> 127 then b @ [char_of i]
         else if i \<le> 32767 then b @ CHR 0xD1 # be16 (nat i)
         else if i \<le> 2147483647 then b @ CHR 0xD2 # be32 (nat i)
         else b @ CHR 0xD3 # be32 (nat (i div 4294967296)) @ be32 (nat (i mod 4294967296)))
      else
        (if - 32 \<le> i then b @ [char_of i]
         else if - 128 \<le> i then b @ [CHR 0xD0, char_of i]
         else if - 32768 \<le> i then b @ CHR 0xD1 # be16 (nat (i mod 65536))
         else if - 2147483648 \<le> i then b @ CHR 0xD2 # be32 (nat (i mod 4294967296))
         else b @ CHR 0xD3 # be32 (nat (i div 4294967296 mod 4294967296))
                @ be32 (nat (i mod 4294967296))))"

section \<open>Package mrpc: the binary protocol\<close>

text \<open>
  \<^verbatim>\<open>msgp.MarshalSizer\<close> is an interface; \<^verbatim>\<open>Respond\<close> calls only its method
  \<^verbatim>\<open>MarshalMsg(b []byte) ([]byte, error)\<close>, so a value of the interface is that method.
  A nil interface value is \<open>None\<close>.
\<close>

type_synonym MarshalSizer = "bytes \<Rightarrow> error + bytes"

record mrpc_Request =
  req_ID :: string
  req_Method :: string
  req_Function :: string
  req_Input :: bytes

record mrpc_Response =
  rsp_ID :: string
  rsp_Method :: string
  rsp_Output :: "MarshalSizer option"

text \<open>
  \<^verbatim>\<open>Code\<close> is a Go \<^verbatim>\<open>int\<close> (64 bits). The packages do no arithmetic on it, so it is an
  \<open>int\<close> here; \<open>AppendInt\<close> above gives the encoding of the values of that range.
\<close>

record mrpc_Fail =
  fail_Code :: int
  fail_Msg :: string

definition Response_MarshalMsg :: "mrpc_Response \<Rightarrow> bytes \<Rightarrow> error + bytes" where
  "Response_MarshalMsg rs b0 =
     (let b1 = AppendArrayHeader b0 3;
          b2 = AppendString b1 (rsp_ID rs);
          b3 = AppendString b2 (rsp_Method rs)
      in case rsp_Output rs of
           None \<Rightarrow> Inr (AppendNil b3)
         | Some output \<Rightarrow> output b3)"

text \<open>
  Modelled from the spec: the marshaller of \<^verbatim>\<open>Fail\<close> is generated code
  (\<^verbatim>\<open>//go:generate go run github.com/tinylib/msgp\<close>, \<^verbatim>\<open>//msgp:tuple Request Fail\<close>) and is
  not among the source files. The spec gives a fail output as the 2-field structure
  of code and message; as a tuple that is an array of two items. It never fails.
\<close>

definition Fail_MarshalMsg :: "mrpc_Fail \<Rightarrow> MarshalSizer" where
  "Fail_MarshalMsg z b = Inr (AppendString (AppendInt (AppendArrayHeader b 2) (fail_Code z)) (fail_Msg z))"

text \<open>The frame of a response whose output encodes without error.\<close>

definition mrpc_frame :: "mrpc_Response \<Rightarrow> bytes" where
  "mrpc_frame rs = (case Response_MarshalMsg rs [] of Inl err \<Rightarrow> [] | Inr msg \<Rightarrow> msg)"

subsection \<open>Scope\<close>

text \<open>
  A Scope is used through a pointer and its \<^verbatim>\<open>send\<close> field is assigned, so every method
  takes the Scope and the world and returns both, with the error it returns in Go.
  The embedded \<^verbatim>\<open>context.Context\<close> carries cancellation and the value by which \<^verbatim>\<open>From\<close>
  finds the Scope; no method below reads it, and it is left out.
\<close>

record 'w mrpc_Scope =
  Request :: mrpc_Request
  send :: "'w send option"

definition mrpc_For :: "mrpc_Request \<Rightarrow> 'w send option \<Rightarrow> 'w mrpc_Scope" where
  "mrpc_For req sendfn = \<lparr>Request = req, send = sendfn\<rparr>"

definition mrpc_Respond ::
  "'w mrpc_Scope \<Rightarrow> string \<Rightarrow> MarshalSizer option \<Rightarrow> 'w \<Rightarrow> error option \<times> 'w mrpc_Scope \<times> 'w" where
  "mrpc_Respond ctx method output w =
     (case send ctx of
        None \<Rightarrow> (Some NotSupported, ctx, w)
      | Some sendfn \<Rightarrow>
          (case Response_MarshalMsg
                  \<lparr>rsp_ID = req_ID (Request ctx), rsp_Method = method, rsp_Output = output\<rparr> [] of
             Inl err \<Rightarrow> (Some (WhileEncoding err), ctx, w)
           | Inr msg \<Rightarrow> (case sendfn msg w of (e, w') \<Rightarrow> (e, ctx, w'))))"

definition mrpc_Succ ::
  "'w mrpc_Scope \<Rightarrow> MarshalSizer option \<Rightarrow> 'w \<Rightarrow> error option \<times> 'w mrpc_Scope \<times> 'w" where
  "mrpc_Succ ctx output w = mrpc_Respond ctx ''succ'' output w"

definition mrpc_Yield ::
  "'w mrpc_Scope \<Rightarrow> MarshalSizer option \<Rightarrow> 'w \<Rightarrow> error option \<times> 'w mrpc_Scope \<times> 'w" where
  "mrpc_Yield ctx output w = mrpc_Respond ctx ''yield'' output w"

definition mrpc_End :: "'w mrpc_Scope \<Rightarrow> 'w \<Rightarrow> error option \<times> 'w mrpc_Scope \<times> 'w" where
  "mrpc_End ctx w =
     (case mrpc_Respond ctx ''end'' None w of
        (err, ctx', w') \<Rightarrow> (err, ctx'\<lparr>send := None\<rparr>, w'))"

definition mrpc_Fail ::
  "'w mrpc_Scope \<Rightarrow> int \<Rightarrow> string \<Rightarrow> 'w \<Rightarrow> error option \<times> 'w mrpc_Scope \<times> 'w" where
  "mrpc_Fail ctx code msg w =
     (case mrpc_Respond ctx ''fail'' (Some (Fail_MarshalMsg \<lparr>fail_Code = code, fail_Msg = msg\<rparr>)) w of
        (err, ctx', w') \<Rightarrow> (err, ctx'\<lparr>send := None\<rparr>, w'))"

subsection \<open>Configuration, middleware and the function tables\<close>

text \<open>
  \<^verbatim>\<open>type Handler func(*Scope)\<close>: a handler runs on a Scope, may assign its \<^verbatim>\<open>send\<close> field
  and may act on the world.

  \<^verbatim>\<open>fmt.Sprintf(`function %q not found`, name)\<close> quotes the name with Go's
  \<^verbatim>\<open>strconv.Quote\<close>, which escapes by Unicode tables of the Go library. The quoting
  function is the parameter \<open>q\<close> of the functions that format with it; \<open>Quote_plain\<close> is
  what it returns for a name of printable ASCII characters other than the double quote
  and the backslash: the name between double quotes.
\<close>

type_synonym 'w mrpc_Handler = "'w mrpc_Scope \<Rightarrow> 'w \<Rightarrow> 'w mrpc_Scope \<times> 'w"

definition Quote_plain :: "string \<Rightarrow> string" where
  "Quote_plain name = CHR 0x22 # name @ [CHR 0x22]"

text \<open>
  \<^verbatim>\<open>cfg.handler = cfg.handleRequest\<close> stores a method value bound to the pointer \<^verbatim>\<open>cfg\<close>:
  when it is called it reads the tables \<^verbatim>\<open>cfg\<close> holds at that moment, also the entries
  registered after it was stored or wrapped. So the field \<open>handler\<close> is a function of
  the two tables (start, call) it will read, and the handler the connection loop takes
  from a configuration is \<open>mrpc_handle\<close>.
\<close>

record 'w mrpc_config =
  handler :: "(string \<rightharpoonup> 'w mrpc_Handler) \<Rightarrow> (string \<rightharpoonup> 'w mrpc_Handler) \<Rightarrow> 'w mrpc_Handler"
  startHandlers :: "string \<rightharpoonup> 'w mrpc_Handler"
  callHandlers :: "string \<rightharpoonup> 'w mrpc_Handler"

type_synonym 'w mrpc_Option = "'w mrpc_config \<Rightarrow> 'w mrpc_config"

definition mrpc_handleRequest ::
  "(string \<Rightarrow> string) \<Rightarrow> (string \<rightharpoonup> 'w mrpc_Handler) \<Rightarrow> (string \<rightharpoonup> 'w mrpc_Handler)
     \<Rightarrow> 'w mrpc_Handler" where
  "mrpc_handleRequest q start call ctx w =
     (case (if req_Method (Request ctx) = ''call'' then Some call
            else if req_Method (Request ctx) = ''start'' then Some start
            else None) of
        None \<Rightarrow> (case mrpc_Fail ctx 404 ''method not found'' w of (_, ctx', w') \<Rightarrow> (ctx', w'))
      | Some table \<Rightarrow>
          (case table (req_Function (Request ctx)) of
             None \<Rightarrow>
               (case mrpc_Fail ctx 404
                       (''function '' @ q (req_Function (Request ctx)) @ '' not found'') w of
                  (_, ctx', w') \<Rightarrow> (ctx', w'))
           | Some h \<Rightarrow> h ctx w))"

definition mrpc_init :: "(string \<Rightarrow> string) \<Rightarrow> 'w mrpc_Option list \<Rightarrow> 'w mrpc_config" where
  "mrpc_init q options =
     fold (\<lambda>opt cfg. opt cfg) options
       \<lparr>handler = mrpc_handleRequest q, startHandlers = Map.empty, callHandlers = Map.empty\<rparr>"

definition mrpc_handle :: "'w mrpc_config \<Rightarrow> 'w mrpc_Handler" where
  "mrpc_handle cfg = handler cfg (startHandlers cfg) (callHandlers cfg)"

definition mrpc_Use :: "('w mrpc_Handler \<Rightarrow> 'w mrpc_Handler) \<Rightarrow> 'w mrpc_Option" where
  "mrpc_Use fn cfg = cfg\<lparr>handler := (\<lambda>start call. fn (handler cfg start call))\<rparr>"

text \<open>
  \<^verbatim>\<open>CallFn\<close> is generic in the input and output types \<open>'i\<close> and \<open>'o\<close>; their methods
  \<^verbatim>\<open>UnmarshalMsg\<close> (of \<^verbatim>\<open>PI\<close>) and \<^verbatim>\<open>MarshalMsg\<close> (of \<^verbatim>\<open>PO\<close>) come with the types and are
  the first two arguments here. The user function gets the Scope pointer: it may
  respond through it, so it returns the Scope and the world with its result.
\<close>

definition mrpc_CallFn_handler ::
  "(bytes \<Rightarrow> error + 'i) \<Rightarrow> ('o \<Rightarrow> MarshalSizer)
     \<Rightarrow> ('w mrpc_Scope \<Rightarrow> 'i \<Rightarrow> 'w \<Rightarrow> (error + 'o) \<times> 'w mrpc_Scope \<times> 'w) \<Rightarrow> 'w mrpc_Handler" where
  "mrpc_CallFn_handler UnmarshalMsg MarshalMsg fn ctx w =
     (case UnmarshalMsg (req_Input (Request ctx)) of
        Inl err \<Rightarrow>
          (case mrpc_Fail ctx 406 (Error err @ '' while decoding input'') w of
             (_, ctx', w') \<Rightarrow> (ctx', w'))
      | Inr inp \<Rightarrow>
          (case fn ctx inp w of
             (Inl err, ctx1, w1) \<Rightarrow>
               (case mrpc_Fail ctx1 500 (Error err) w1 of (_, ctx', w') \<Rightarrow> (ctx', w'))
           | (Inr out, ctx1, w1) \<Rightarrow>
               (case mrpc_Succ ctx1 (Some (MarshalMsg out)) w1 of (_, ctx', w') \<Rightarrow> (ctx', w'))))"

definition mrpc_CallFn ::
  "(bytes \<Rightarrow> error + 'i) \<Rightarrow> ('o \<Rightarrow> MarshalSizer) \<Rightarrow> string
     \<Rightarrow> ('w mrpc_Scope \<Rightarrow> 'i \<Rightarrow> 'w \<Rightarrow> (error + 'o) \<times> 'w mrpc_Scope \<times> 'w) \<Rightarrow> 'w mrpc_Option" where
  "mrpc_CallFn UnmarshalMsg MarshalMsg function fn cfg =
     cfg\<lparr>callHandlers :=
           (callHandlers cfg)(function \<mapsto> mrpc_CallFn_handler UnmarshalMsg MarshalMsg fn)\<rparr>"

definition mrpc_StartFn_handler ::
  "(bytes \<Rightarrow> error + 'i) \<Rightarrow> ('w mrpc_Scope \<Rightarrow> 'w \<Rightarrow> error option \<times> 'w mrpc_Scope \<times> 'w)
     \<Rightarrow> 'w mrpc_Handler" where
  "mrpc_StartFn_handler UnmarshalMsg fn ctx w =
     (case UnmarshalMsg (req_Input (Request ctx)) of
        Inl err \<Rightarrow>
          (case mrpc_Fail ctx 406 (Error err @ '' while decoding input'') w of
             (_, ctx', w') \<Rightarrow> (ctx', w'))
      | Inr inp \<Rightarrow>
          (case fn ctx w of
             (Some err, ctx1, w1) \<Rightarrow>
               (case mrpc_Fail ctx1 500 (Error err) w1 of (_, ctx', w') \<Rightarrow> (ctx', w'))
           | (None, ctx1, w1) \<Rightarrow>
               (case mrpc_End ctx1 w1 of (_, ctx', w') \<Rightarrow> (ctx', w'))))"

definition mrpc_StartFn ::
  "(bytes \<Rightarrow> error + 'i) \<Rightarrow> string
     \<Rightarrow> ('w mrpc_Scope \<Rightarrow> 'w \<Rightarrow> error option \<times> 'w mrpc_Scope \<times> 'w) \<Rightarrow> 'w mrpc_Option" where
  "mrpc_StartFn UnmarshalMsg function fn cfg =
     cfg\<lparr>startHandlers :=
           (startHandlers cfg)(function \<mapsto> mrpc_StartFn_handler UnmarshalMsg fn)\<rparr>"

subsection \<open>The connection loop\<close>

text \<open>
  The loop of \<^verbatim>\<open>serveHTTP\<close>, after \<^verbatim>\<open>websocket.Accept\<close> has succeeded. What \<^verbatim>\<open>c.Read\<close>
  returns is given as a script, one entry per call: a message with its type, or an
  error with the close status \<^verbatim>\<open>websocket.CloseStatus\<close> finds in it (negative when the
  error is not a close). The loop ends \<open>Closed\<close> with the error \<^verbatim>\<open>serveHTTP\<close> returns, or
  is still \<open>Reading\<close> (blocked in \<^verbatim>\<open>c.Read\<close>) when the script is used up.

  \<^verbatim>\<open>c.Write\<close> belongs to the websocket library and is the parameter \<open>Write\<close>; the
  decoder of a request (\<^verbatim>\<open>req.UnmarshalMsg\<close>, generated code) is the parameter
  \<open>UnmarshalMsg\<close>. Each request is handled by a goroutine of its own; the model runs
  the handler to its end at the point where the goroutine is started, which is one of
  the schedules the program has.
\<close>

datatype MessageType = MessageText | MessageBinary

datatype read = Message MessageType bytes | ReadError error int

datatype conn = Reading | Closed "error option"

fun mrpc_serveHTTP ::
  "(bytes \<Rightarrow> error + mrpc_Request) \<Rightarrow> (MessageType \<Rightarrow> bytes \<Rightarrow> 'w \<Rightarrow> error option \<times> 'w)
     \<Rightarrow> 'w mrpc_Handler \<Rightarrow> read list \<Rightarrow> 'w \<Rightarrow> conn \<times> 'w" where
  "mrpc_serveHTTP UnmarshalMsg Write handle [] w = (Reading, w)"
| "mrpc_serveHTTP UnmarshalMsg Write handle (ReadError err status # rest) w =
     (if status < 0 then (Closed (Some err), w) else (Closed None, w))"
| "mrpc_serveHTTP UnmarshalMsg Write handle (Message mt msg # rest) w =
     (if mt \<noteq> MessageBinary then mrpc_serveHTTP UnmarshalMsg Write handle rest w
      else (case UnmarshalMsg msg of
              Inl err \<Rightarrow> (Closed (Some err), w)
            | Inr req \<Rightarrow>
                (case handle (mrpc_For req (Some (Write MessageBinary))) w of
                   (_, w') \<Rightarrow> mrpc_serveHTTP UnmarshalMsg Write handle rest w')))"

section \<open>Package jrpc: the JSON protocol\<close>

text \<open>
  \<^verbatim>\<open>Result any\<close> and \<^verbatim>\<open>Data any\<close> hold a value of any Go type, or nil: \<open>'r option\<close>.
  \<^verbatim>\<open>json.Marshal\<close> and \<^verbatim>\<open>json.Unmarshal\<close> belong to the Go library and are parameters
  (\<open>Marshal\<close>, \<open>Unmarshal\<close>) of the functions that call them. \<^verbatim>\<open>respond\<close> also prints the
  message it sends to the standard error stream, which is outside the model.
\<close>

record jrpc_Request =
  jreq_ID :: string
  jreq_Method :: string
  jreq_Params :: bytes

record 'r jrpc_Error =
  err_Code :: int
  err_Message :: string
  err_Data :: "'r option"

record 'r jrpc_Response =
  jrsp_ID :: string
  jrsp_Result :: "'r option"
  jrsp_Error :: "'r jrpc_Error option"
  jrsp_End :: bool

record 'w jrpc_Scope =
  jRequest :: jrpc_Request
  jsend :: "'w send option"

type_synonym 'w jrpc_Handler = "'w jrpc_Scope \<Rightarrow> 'w \<Rightarrow> 'w jrpc_Scope \<times> 'w"

definition jrpc_For :: "jrpc_Request \<Rightarrow> 'w send option \<Rightarrow> 'w jrpc_Scope" where
  "jrpc_For req sendfn = \<lparr>jRequest = req, jsend = sendfn\<rparr>"

definition jrpc_respond ::
  "('r jrpc_Response \<Rightarrow> error + bytes) \<Rightarrow> 'w jrpc_Scope \<Rightarrow> 'r jrpc_Response \<Rightarrow> 'w
     \<Rightarrow> error option \<times> 'w jrpc_Scope \<times> 'w" where
  "jrpc_respond Marshal ctx ret w =
     (case jsend ctx of
        None \<Rightarrow> (Some NotSupported, ctx, w)
      | Some sendfn \<Rightarrow>
          (case Marshal (ret\<lparr>jrsp_ID := jreq_ID (jRequest ctx)\<rparr>) of
             Inl err \<Rightarrow> (Some (WhileEncoding err), ctx, w)
           | Inr msg \<Rightarrow> (case sendfn msg w of (e, w') \<Rightarrow> (e, ctx, w'))))"

definition jrpc_Succ ::
  "('r jrpc_Response \<Rightarrow> error + bytes) \<Rightarrow> 'w jrpc_Scope \<Rightarrow> 'r option \<Rightarrow> 'w
     \<Rightarrow> error option \<times> 'w jrpc_Scope \<times> 'w" where
  "jrpc_Succ Marshal ctx result w =
     jrpc_respond Marshal ctx
       \<lparr>jrsp_ID = [], jrsp_Result = result, jrsp_Error = None, jrsp_End = False\<rparr> w"

definition jrpc_Fail ::
  "('r jrpc_Response \<Rightarrow> error + bytes) \<Rightarrow> 'w jrpc_Scope \<Rightarrow> int \<Rightarrow> string \<Rightarrow> 'w
     \<Rightarrow> error option \<times> 'w jrpc_Scope \<times> 'w" where
  "jrpc_Fail Marshal ctx code msg w =
     (case jrpc_respond Marshal ctx
             \<lparr>jrsp_ID = [], jrsp_Result = None,
              jrsp_Error = Some \<lparr>err_Code = code, err_Message = msg, err_Data = None\<rparr>,
              jrsp_End = False\<rparr> w of
        (err, ctx', w') \<Rightarrow> (err, ctx'\<lparr>jsend := None\<rparr>, w'))"

text \<open>
  \<^verbatim>\<open>Notify\<close> and \<^verbatim>\<open>Call\<close> write through \<^verbatim>\<open>ctx.send\<close> themselves and do not look whether it is
  nil. Calling a nil function value is a run-time panic in Go; nothing in the packages
  recovers from it, so it ends the process. Their result is \<open>Returned\<close> with what the
  method returns, or \<open>Panicked\<close>. The three encoders they use (of a notification, of the
  parameters, of a request) are parameters.
\<close>

datatype 'a outcome = Returned 'a | Panicked

record 'r jrpc_Notification =
  note_Method :: string
  note_Params :: "'r option"

definition jrpc_Notify ::
  "('r jrpc_Notification \<Rightarrow> error + bytes) \<Rightarrow> 'w jrpc_Scope \<Rightarrow> string \<Rightarrow> 'r option \<Rightarrow> 'w
     \<Rightarrow> (error option \<times> 'w jrpc_Scope \<times> 'w) outcome" where
  "jrpc_Notify Marshal ctx method params w =
     (case Marshal \<lparr>note_Method = method, note_Params = params\<rparr> of
        Inl err \<Rightarrow> Returned (Some err, ctx, w)
      | Inr js \<Rightarrow>
          (case jsend ctx of
             None \<Rightarrow> Panicked
           | Some sendfn \<Rightarrow> (case sendfn js w of (e, w') \<Rightarrow> Returned (e, ctx, w'))))"

definition jrpc_Call ::
  "('r option \<Rightarrow> error + bytes) \<Rightarrow> (jrpc_Request \<Rightarrow> error + bytes) \<Rightarrow> 'w jrpc_Scope
     \<Rightarrow> string \<Rightarrow> 'r option \<Rightarrow> 'w \<Rightarrow> (error option \<times> 'w jrpc_Scope \<times> 'w) outcome" where
  "jrpc_Call MarshalParams MarshalRequest ctx method params w =
     (case MarshalParams params of
        Inl err \<Rightarrow> Returned (Some err, ctx, w)
      | Inr js \<Rightarrow>
          (case MarshalRequest \<lparr>jreq_ID = [], jreq_Method = method, jreq_Params = js\<rparr> of
             Inl err \<Rightarrow> Returned (Some err, ctx, w)
           | Inr js' \<Rightarrow>
               (case jsend ctx of
                  None \<Rightarrow> Panicked
                | Some sendfn \<Rightarrow> (case sendfn js' w of (e, w') \<Rightarrow> Returned (e, ctx, w')))))"

record 'w jrpc_config =
  jhandler :: "(string \<rightharpoonup> 'w jrpc_Handler) \<Rightarrow> (string \<rightharpoonup> 'w jrpc_Handler) \<Rightarrow> 'w jrpc_Handler"
  readLimit :: int
  procHandlers :: "string \<rightharpoonup> 'w jrpc_Handler"
  jcallHandlers :: "string \<rightharpoonup> 'w jrpc_Handler"

type_synonym 'w jrpc_Option = "'w jrpc_config \<Rightarrow> 'w jrpc_config"

definition jrpc_handleRequest ::
  "(string \<Rightarrow> string) \<Rightarrow> ('r jrpc_Response \<Rightarrow> error + bytes)
     \<Rightarrow> (string \<rightharpoonup> 'w jrpc_Handler) \<Rightarrow> (string \<rightharpoonup> 'w jrpc_Handler) \<Rightarrow> 'w jrpc_Handler" where
  "jrpc_handleRequest q Marshal proc call ctx w =
     (let table = (if jreq_ID (jRequest ctx) = [] then proc else call) in
      case table (jreq_Method (jRequest ctx)) of
        None \<Rightarrow>
          (case jrpc_Fail Marshal ctx 404
                  (''function '' @ q (jreq_Method (jRequest ctx)) @ '' not found'') w of
             (_, ctx', w') \<Rightarrow> (ctx', w'))
      | Some h \<Rightarrow> h ctx w)"

definition jrpc_init ::
  "(string \<Rightarrow> string) \<Rightarrow> ('r jrpc_Response \<Rightarrow> error + bytes) \<Rightarrow> 'w jrpc_Option list
     \<Rightarrow> 'w jrpc_config" where
  "jrpc_init q Marshal options =
     fold (\<lambda>opt cfg. opt cfg) options
       \<lparr>jhandler = jrpc_handleRequest q Marshal, readLimit = - 1,
        procHandlers = Map.empty, jcallHandlers = Map.empty\<rparr>"

definition jrpc_handle :: "'w jrpc_config \<Rightarrow> 'w jrpc_Handler" where
  "jrpc_handle cfg = jhandler cfg (procHandlers cfg) (jcallHandlers cfg)"

definition jrpc_ReadLimit :: "int \<Rightarrow> 'w jrpc_Option" where
  "jrpc_ReadLimit limit cfg = cfg\<lparr>readLimit := limit\<rparr>"

definition jrpc_Use :: "('w jrpc_Handler \<Rightarrow> 'w jrpc_Handler) \<Rightarrow> 'w jrpc_Option" where
  "jrpc_Use fn cfg = cfg\<lparr>jhandler := (\<lambda>proc call. fn (jhandler cfg proc call))\<rparr>"

definition jrpc_Proc_handler ::
  "('r jrpc_Response \<Rightarrow> error + bytes) \<Rightarrow> (bytes \<Rightarrow> error + 'i)
     \<Rightarrow> ('w jrpc_Scope \<Rightarrow> 'i \<Rightarrow> 'w \<Rightarrow> 'w jrpc_Scope \<times> 'w) \<Rightarrow> 'w jrpc_Handler" where
  "jrpc_Proc_handler Marshal Unmarshal fn ctx w =
     (case Unmarshal (jreq_Params (jRequest ctx)) of
        Inl err \<Rightarrow>
          (case jrpc_Fail Marshal ctx 406 (Error err @ '' while decoding input'') w of
             (_, ctx', w') \<Rightarrow> (ctx', w'))
      | Inr inp \<Rightarrow> fn ctx inp w)"

definition jrpc_Proc ::
  "('r jrpc_Response \<Rightarrow> error + bytes) \<Rightarrow> (bytes \<Rightarrow> error + 'i) \<Rightarrow> string
     \<Rightarrow> ('w jrpc_Scope \<Rightarrow> 'i \<Rightarrow> 'w \<Rightarrow> 'w jrpc_Scope \<times> 'w) \<Rightarrow> 'w jrpc_Option" where
  "jrpc_Proc Marshal Unmarshal function fn cfg =
     cfg\<lparr>procHandlers :=
           (procHandlers cfg)(function \<mapsto> jrpc_Proc_handler Marshal Unmarshal fn)\<rparr>"

definition jrpc_Fn_handler ::
  "('r jrpc_Response \<Rightarrow> error + bytes) \<Rightarrow> (bytes \<Rightarrow> error + 'i)
     \<Rightarrow> ('w jrpc_Scope \<Rightarrow> 'i \<Rightarrow> 'w \<Rightarrow> (error + 'r) \<times> 'w jrpc_Scope \<times> 'w) \<Rightarrow> 'w jrpc_Handler" where
  "jrpc_Fn_handler Marshal Unmarshal fn ctx w =
     (case Unmarshal (jreq_Params (jRequest ctx)) of
        Inl err \<Rightarrow>
          (case jrpc_Fail Marshal ctx 406 (Error err @ '' while decoding input'') w of
             (_, ctx', w') \<Rightarrow> (ctx', w'))
      | Inr inp \<Rightarrow>
          (case fn ctx inp w of
             (Inl err, ctx1, w1) \<Rightarrow>
               (case jrpc_Fail Marshal ctx1 500 (Error err) w1 of (_, ctx', w') \<Rightarrow> (ctx', w'))
           | (Inr out, ctx1, w1) \<Rightarrow>
               (case jrpc_Succ Marshal ctx1 (Some out) w1 of (_, ctx', w') \<Rightarrow> (ctx', w'))))"

definition jrpc_Fn ::
  "('r jrpc_Response \<Rightarrow> error + bytes) \<Rightarrow> (bytes \<Rightarrow> error + 'i) \<Rightarrow> string
     \<Rightarrow> ('w jrpc_Scope \<Rightarrow> 'i \<Rightarrow> 'w \<Rightarrow> (error + 'r) \<times> 'w jrpc_Scope \<times> 'w) \<Rightarrow> 'w jrpc_Option" where
  "jrpc_Fn Marshal Unmarshal function fn cfg =
     cfg\<lparr>jcallHandlers :=
           (jcallHandlers cfg)(function \<mapsto> jrpc_Fn_handler Marshal Unmarshal fn)\<rparr>"

fun jrpc_serveHTTP ::
  "(bytes \<Rightarrow> error + jrpc_Request) \<Rightarrow> (MessageType \<Rightarrow> bytes \<Rightarrow> 'w \<Rightarrow> error option \<times> 'w)
     \<Rightarrow> 'w jrpc_Handler \<Rightarrow> read list \<Rightarrow> 'w \<Rightarrow> conn \<times> 'w" where
  "jrpc_serveHTTP Unmarshal Write handle [] w = (Reading, w)"
| "jrpc_serveHTTP Unmarshal Write handle (ReadError err status # rest) w =
     (if status < 0 then (Closed (Some err), w) else (Closed None, w))"
| "jrpc_serveHTTP Unmarshal Write handle (Message mt msg # rest) w =
     (if mt \<noteq> MessageText then jrpc_serveHTTP Unmarshal Write handle rest w
      else (case Unmarshal msg of
              Inl err \<Rightarrow> (Closed (Some err), w)
            | Inr req \<Rightarrow>
                (case handle (jrpc_For req (Some (Write MessageText))) w of
                   (_, w') \<Rightarrow> jrpc_serveHTTP Unmarshal Write handle rest w')))"

section \<open>Package hook: ordering hooks by their dependencies\<close>

text \<open>
  A hook is any Go value (\<^verbatim>\<open>interface{}\<close>); \<^verbatim>\<open>Order\<close> asks it by type assertion whether it
  is a \<^verbatim>\<open>Provider\<close> and whether it is a \<^verbatim>\<open>Dependent\<close>. A hook is modelled by the value
  itself (\<open>item\<close>) and what the two methods return, \<open>None\<close> when the hook does not have
  the method.
\<close>

record 'a hook =
  item :: 'a
  Provides :: "string list option"
  DependsOn :: "string list option"

text \<open>
  \<^verbatim>\<open>dependencies\<close> is a \<^verbatim>\<open>map[string][]int\<close>; a name that is not a key reads as the nil
  slice, so the map is a function into lists.
\<close>

definition dependencies :: "'a hook list \<Rightarrow> string \<Rightarrow> nat list" where
  "dependencies hooks =
     fold (\<lambda>(i, h) deps.
             case Provides h of
               None \<Rightarrow> deps
             | Some names \<Rightarrow> fold (\<lambda>name deps. deps(name := deps name @ [i])) names deps)
       (enumerate 0 hooks) (\<lambda>name. [])"

text \<open>
  The closure \<^verbatim>\<open>place\<close> calls itself inside its loop over \<^verbatim>\<open>items\<close>; \<open>place_items\<close> is
  that loop. The variables \<^verbatim>\<open>placed\<close> and \<^verbatim>\<open>order\<close> the closure assigns are the state
  passed through. The argument \<open>fuel\<close> bounds the depth of the nested calls, and a run
  that would go deeper is \<open>None\<close>; \<open>Order\<close> starts with more fuel than there are hooks.
  The theorem on \<open>Order\<close> shows that this is always enough, and more fuel never changes
  a result (lemmas \<open>place_items_more_fuel\<close> and \<open>Order_any_fuel\<close>).

  Every index the code reads \<^verbatim>\<open>placed\<close> and \<^verbatim>\<open>hooks\<close> at comes from \<^verbatim>\<open>range hooks\<close>, directly
  or through \<^verbatim>\<open>dependencies\<close>, so none is out of range (lemma \<open>dependencies_in_range\<close>).
\<close>

fun place ::
  "'a hook list \<Rightarrow> (string \<Rightarrow> nat list) \<Rightarrow> nat \<Rightarrow> nat \<Rightarrow> bool list \<times> 'a hook list
     \<Rightarrow> (bool list \<times> 'a hook list) option"
and place_items ::
  "'a hook list \<Rightarrow> (string \<Rightarrow> nat list) \<Rightarrow> nat \<Rightarrow> nat list \<Rightarrow> bool list \<times> 'a hook list
     \<Rightarrow> (bool list \<times> 'a hook list) option" where
  "place hooks deps 0 i st = None"
| "place hooks deps (Suc fuel) i (placed, order) =
     (if placed ! i then Some (placed, order)
      else (case (case DependsOn (hooks ! i) of
                    None \<Rightarrow> Some (placed[i := True], order)
                  | Some names \<Rightarrow>
                      place_items hooks deps fuel (sort (concat (map deps names)))
                        (placed[i := True], order)) of
              None \<Rightarrow> None
            | Some (placed', order') \<Rightarrow> Some (placed', order' @ [hooks ! i])))"
| "place_items hooks deps fuel [] st = Some st"
| "place_items hooks deps fuel (j # js) st =
     (case place hooks deps fuel j st of
        None \<Rightarrow> None
      | Some st' \<Rightarrow> place_items hooks deps fuel js st')"

definition Order :: "'a hook list \<Rightarrow> 'a hook list option" where
  "Order hooks =
     (case place_items hooks (dependencies hooks) (Suc (length hooks)) [0..<length hooks]
             (replicate (length hooks) False, []) of
        None \<Rightarrow> None
      | Some (placed, order) \<Rightarrow> Some order)"

text \<open>
  What the ordering is about. Hook \<open>i\<close> depends on hook \<open>j\<close> when \<open>i\<close> depends on a name
  that \<open>j\<close> provides; \<open>dep_edges\<close> is this relation on the positions of the list.
  \<open>precedes x y xs\<close>: \<open>x\<close> occurs in \<open>xs\<close> before the first \<open>y\<close>. Two equal hooks cannot be
  told apart in the output, so positions are followed by running \<open>Order\<close> on the hooks
  with their values replaced by their positions: \<open>placement\<close> is the order in
  which the positions are placed.
\<close>

definition provided :: "'a hook \<Rightarrow> string list" where
  "provided h = (case Provides h of None \<Rightarrow> [] | Some names \<Rightarrow> names)"

definition required :: "'a hook \<Rightarrow> string list" where
  "required h = (case DependsOn h of None \<Rightarrow> [] | Some names \<Rightarrow> names)"

definition depends_on :: "'a hook list \<Rightarrow> nat \<Rightarrow> nat \<Rightarrow> bool" where
  "depends_on hooks i j =
     (\<exists>name \<in> set (required (hooks ! i)). name \<in> set (provided (hooks ! j)))"

definition dep_edges :: "'a hook list \<Rightarrow> (nat \<times> nat) set" where
  "dep_edges hooks =
     set (filter (\<lambda>(i, j). depends_on hooks i j)
            (List.product [0..<length hooks] [0..<length hooks]))"

definition precedes :: "'a \<Rightarrow> 'a \<Rightarrow> 'a list \<Rightarrow> bool" where
  "precedes x y xs = (y \<in> set xs \<and> x \<in> set (takeWhile (\<lambda>z. z \<noteq> y) xs))"

definition indexed :: "'a hook list \<Rightarrow> nat hook list" where
  "indexed hooks =
     map (\<lambda>(i, h). \<lparr>item = i, Provides = Provides h, DependsOn = DependsOn h\<rparr>)
       (enumerate 0 hooks)"

definition placement :: "'a hook list \<Rightarrow> nat list" where
  "placement hooks =
     (case Order (indexed hooks) of None \<Rightarrow> [] | Some order \<Rightarrow> map item order)"

subsection \<open>The algorithm in the words of the spec\<close>

text \<open>
  The spec describes \<^verbatim>\<open>Order\<close> as a depth-first placement: for each item in original
  order, recursively place all items that provide any name the item depends on, in
  ascending original-index order, before placing the item itself; already-placed items
  are skipped. The definitions below follow these words and not the code.
  \<open>spec_providers hooks i\<close> is the positions, in ascending order and each once, of the
  items that provide a name item \<open>i\<close> depends on. \<open>spec_place\<close> places one item: it skips
  an item already in the set of the placed ones, and otherwise marks it placed (so that
  a cycle comes to an end), places its providers in that order and then appends the
  item to the output. \<open>spec_Order\<close> does this for each position of the list in order. The
  depth of the recursion is bounded as in \<open>place\<close>. The theorem on \<open>Order\<close> shows that the
  code computes exactly this.
\<close>

definition spec_providers :: "'a hook list \<Rightarrow> nat \<Rightarrow> nat list" where
  "spec_providers hooks i = filter (depends_on hooks i) [0..<length hooks]"

fun spec_place ::
  "'a hook list \<Rightarrow> nat \<Rightarrow> nat \<Rightarrow> nat set \<times> 'a hook list \<Rightarrow> (nat set \<times> 'a hook list) option"
and spec_place_all ::
  "'a hook list \<Rightarrow> nat \<Rightarrow> nat list \<Rightarrow> nat set \<times> 'a hook list \<Rightarrow> (nat set \<times> 'a hook list) option" where
  "spec_place hooks 0 i st = None"
| "spec_place hooks (Suc fuel) i (seen, out) =
     (if i \<in> seen then Some (seen, out)
      else (case spec_place_all hooks fuel (spec_providers hooks i) (insert i seen, out) of
              None \<Rightarrow> None
            | Some (seen', out') \<Rightarrow> Some (seen', out' @ [hooks ! i])))"
| "spec_place_all hooks fuel [] st = Some st"
| "spec_place_all hooks fuel (j # js) st =
     (case spec_place hooks fuel j st of
        None \<Rightarrow> None
      | Some st' \<Rightarrow> spec_place_all hooks fuel js st')"

definition spec_Order :: "'a hook list \<Rightarrow> 'a hook list option" where
  "spec_Order hooks =
     (case spec_place_all hooks (Suc (length hooks)) [0..<length hooks] ({}, []) of
        None \<Rightarrow> None
      | Some (seen, out) \<Rightarrow> Some out)"

subsection \<open>Notions for the proof about \<^verbatim>\<open>Order\<close>\<close>

text \<open>Every position the map of providers holds is a position of the list.\<close>

definition deps_ok :: "'a hook list \<Rightarrow> (string \<Rightarrow> nat list) \<Rightarrow> bool" where
  "deps_ok hs d = (\<forall>name. \<forall>j \<in> set (d name). j < length hs)"

text \<open>The positions \<^verbatim>\<open>place(i)\<close> visits: the sorted providers of the names hook \<open>i\<close> depends on.\<close>

definition items :: "'a hook list \<Rightarrow> (string \<Rightarrow> nat list) \<Rightarrow> nat \<Rightarrow> nat list" where
  "items hs d i =
     (case DependsOn (hs ! i) of None \<Rightarrow> [] | Some names \<Rightarrow> sort (concat (map d names)))"

text \<open>From one state to a later one no position stops being placed and the order is only extended.\<close>

definition grows :: "'a hook list \<Rightarrow> bool list \<times> 'a hook list \<Rightarrow> bool list \<times> 'a hook list \<Rightarrow> bool" where
  "grows hs st st' =
     (length (fst st') = length hs \<and> (\<forall>k. fst st ! k \<longrightarrow> fst st' ! k)
      \<and> (\<exists>ext. snd st' = snd st @ ext))"

text \<open>How many positions are not placed yet; the nested calls can go no deeper than this.\<close>

definition unplaced :: "'a hook list \<Rightarrow> bool list \<Rightarrow> nat" where
  "unplaced hs p = card {k. k < length hs \<and> \<not> p ! k}"

text \<open>The positions marked in \<^verbatim>\<open>placed\<close>.\<close>

definition placed_set :: "'a hook list \<Rightarrow> bool list \<Rightarrow> nat set" where
  "placed_set hs p = {k. k < length hs \<and> p ! k}"

text \<open>A state of the code read as a state of the spec's algorithm: the set of the marked positions.\<close>

definition marks :: "'a hook list \<Rightarrow> bool list \<times> 'a hook list \<Rightarrow> nat set \<times> 'a hook list" where
  "marks hs st = (placed_set hs (fst st), snd st)"

text \<open>The positions of the hooks appended to the order, for hooks that carry their position.\<close>

definition emitted :: "nat hook list \<Rightarrow> nat set" where
  "emitted ord = set (map item ord)"

text \<open>The hooks of the list carry their positions.\<close>

definition tagged :: "nat hook list \<Rightarrow> bool" where
  "tagged hs = (\<forall>i < length hs. item (hs ! i) = i)"

text \<open>What holds of every state of a run: the order has no position twice and only placed ones.\<close>

definition state_ok :: "nat hook list \<Rightarrow> bool list \<times> nat hook list \<Rightarrow> bool" where
  "state_ok hs st =
     (length (fst st) = length hs \<and> distinct (map item (snd st))
      \<and> emitted (snd st) \<subseteq> placed_set hs (fst st))"

text \<open>The positions placed but not yet appended: the calls of \<^verbatim>\<open>place\<close> under way.\<close>

definition pending :: "nat hook list \<Rightarrow> bool list \<times> nat hook list \<Rightarrow> nat set" where
  "pending hs st = placed_set hs (fst st) - emitted (snd st)"

text \<open>The relation that \<open>items\<close> gives: from a position to the positions it visits.\<close>

definition edges :: "'a hook list \<Rightarrow> (string \<Rightarrow> nat list) \<Rightarrow> (nat \<times> nat) set" where
  "edges hs d = {(i, j). i < length hs \<and> j \<in> set (items hs d i)}"

text \<open>Every position in the order comes after all the positions it depends on.\<close>

definition providers_first :: "nat hook list \<Rightarrow> (string \<Rightarrow> nat list) \<Rightarrow> nat hook list \<Rightarrow> bool" where
  "providers_first hs d ord =
     (\<forall>i \<in> emitted ord. \<forall>j \<in> set (items hs d i). precedes j i (map item ord))"

text \<open>A state of the run on positions, read as a state of the run on the hooks themselves.\<close>

definition relabel :: "'a hook list \<Rightarrow> bool list \<times> nat hook list \<Rightarrow> bool list \<times> 'a hook list" where
  "relabel hs st = (fst st, map (\<lambda>h. hs ! item h) (snd st))"

section \<open>Sample values for the concrete instances\<close>

text \<open>
  A transport that records what is written to it and never fails, and the request of
  the spec's scenario B (id 2, a call of the function \<^verbatim>\<open>nope\<close>, no input) in both
  encodings. The decoders of a request and the JSON encoder of a response are
  parameters of the model; the samples below stand for them at the frames used in the
  instances: the sample decoders return the request for its encoding and the library's
  error for the empty frame. The decoder of \<^verbatim>\<open>msgp.Raw\<close> leaves the input of a request empty
  when the payload is nil, and so does the sample.
\<close>

definition log_send :: "bytes list send" where
  "log_send bin w = (None, w @ [bin])"

definition log_Write :: "MessageType \<Rightarrow> bytes \<Rightarrow> bytes list \<Rightarrow> error option \<times> bytes list" where
  "log_Write mt bin w = (None, w @ [bin])"

definition sample_Request :: mrpc_Request where
  "sample_Request =
     \<lparr>req_ID = ''2'', req_Method = ''call'', req_Function = ''nope'', req_Input = []\<rparr>"

definition sample_frame :: bytes where
  "sample_frame =
     AppendNil (AppendString (AppendString (AppendString (AppendArrayHeader [] 4) ''2'') ''call'') ''nope'')"

definition sample_UnmarshalMsg :: "bytes \<Rightarrow> error + mrpc_Request" where
  "sample_UnmarshalMsg msg =
     (if msg = sample_frame then Inr sample_Request
      else Inl (External ''msgp: too few bytes left to read object''))"

text \<open>
  What \<^verbatim>\<open>json.Marshal\<close> writes for a string of printable ASCII characters other than
  \<^verbatim>\<open><\<close>, \<^verbatim>\<open>>\<close> and \<^verbatim>\<open>&\<close>: the string between double quotes, with a backslash before every
  double quote and backslash in it. For a number: its decimal digits (\<open>decimal\<close> writes a
  number of up to as many digits as its first argument), after a minus sign when it is
  negative.
\<close>

definition json_string :: "string \<Rightarrow> string" where
  "json_string s =
     CHR 0x22 #
     concat (map (\<lambda>c. if c = CHR 0x22 \<or> c = CHR 0x5C then [CHR 0x5C, c] else [c]) s)
     @ [CHR 0x22]"

fun decimal :: "nat \<Rightarrow> nat \<Rightarrow> string" where
  "decimal 0 n = []"
| "decimal (Suc k) n = (if n < 10 then [char_of (48 + n)]
                        else decimal k (n div 10) @ [char_of (48 + n mod 10)])"

definition json_int :: "int \<Rightarrow> string" where
  "json_int i = (if i < 0 then ''-'' @ decimal 20 (nat (- i)) else decimal 20 (nat i))"

definition sample_jRequest :: jrpc_Request where
  "sample_jRequest = \<lparr>jreq_ID = ''2'', jreq_Method = ''nope'', jreq_Params = []\<rparr>"

definition sample_text :: bytes where
  "sample_text =
     ''{'' @ json_string ''id'' @ '':'' @ json_string ''2'' @ '','' @ json_string ''method''
       @ '':'' @ json_string ''nope'' @ ''}''"

definition sample_Unmarshal :: "bytes \<Rightarrow> error + jrpc_Request" where
  "sample_Unmarshal msg =
     (if msg = sample_text then Inr sample_jRequest
      else Inl (External ''unexpected end of JSON input''))"

text \<open>Handlers that leave a mark in the world.\<close>

definition sample_handler :: "bytes list mrpc_Handler" where
  "sample_handler ctx w = (ctx, w @ [''handled''])"

definition sample_jhandler :: "bytes list jrpc_Handler" where
  "sample_jhandler ctx w = (ctx, w @ [''handled''])"

text \<open>A middleware that leaves its tag in the world and then runs the handler it wraps.\<close>

definition tag_middleware :: "string \<Rightarrow> bytes list mrpc_Handler \<Rightarrow> bytes list mrpc_Handler" where
  "tag_middleware tag next ctx w = next ctx (w @ [tag])"

text \<open>
  The JSON encoder at responses, notifications, parameters and requests whose values are
  such strings: the object with the fields in the order of the struct, the error without
  its \<^verbatim>\<open>data\<close> (\<^verbatim>\<open>omitempty\<close>), a request without its id when that is empty.
\<close>

definition sample_Marshal :: "string jrpc_Response \<Rightarrow> error + bytes" where
  "sample_Marshal r =
     Inr (''{'' @ json_string ''id'' @ '':'' @ json_string (jrsp_ID r)
          @ '','' @ json_string ''result'' @ '':''
          @ (case jrsp_Result r of None \<Rightarrow> ''null'' | Some v \<Rightarrow> json_string v)
          @ '','' @ json_string ''error'' @ '':''
          @ (case jrsp_Error r of
               None \<Rightarrow> ''null''
             | Some e \<Rightarrow>
                 ''{'' @ json_string ''code'' @ '':'' @ json_int (err_Code e)
                 @ '','' @ json_string ''message'' @ '':'' @ json_string (err_Message e) @ ''}'')
          @ '','' @ json_string ''end'' @ '':'' @ (if jrsp_End r then ''true'' else ''false'')
          @ ''}'')"

definition sample_MarshalParams :: "string option \<Rightarrow> error + bytes" where
  "sample_MarshalParams params =
     Inr (case params of None \<Rightarrow> ''null'' | Some v \<Rightarrow> json_string v)"

definition sample_MarshalNotification :: "string jrpc_Notification \<Rightarrow> error + bytes" where
  "sample_MarshalNotification n =
     Inr (''{'' @ json_string ''method'' @ '':'' @ json_string (note_Method n)
          @ '','' @ json_string ''params'' @ '':''
          @ (case note_Params n of None \<Rightarrow> ''null'' | Some v \<Rightarrow> json_string v)
          @ ''}'')"

definition sample_MarshalRequest :: "jrpc_Request \<Rightarrow> error + bytes" where
  "sample_MarshalRequest r =
     Inr (''{''
          @ (if jreq_ID r = [] then [] else json_string ''id'' @ '':'' @ json_string (jreq_ID r) @ '','')
          @ json_string ''method'' @ '':'' @ json_string (jreq_Method r)
          @ '','' @ json_string ''params'' @ '':''
          @ (if jreq_Params r = [] then ''null'' else jreq_Params r)
          @ ''}'')"

text \<open>
  The decoders of the input of a function that takes a string, at the two inputs of the
  instances: the encoding of \<^verbatim>\<open>world\<close>, and the empty input, for which both libraries
  return an error.
\<close>

definition sample_input_UnmarshalMsg :: "bytes \<Rightarrow> error + string" where
  "sample_input_UnmarshalMsg b =
     (if b = AppendString [] ''world'' then Inr ''world''
      else Inl (External ''msgp: too few bytes left to read object''))"

definition sample_input_Unmarshal :: "bytes \<Rightarrow> error + string" where
  "sample_input_Unmarshal b =
     (if b = json_string ''world'' then Inr ''world''
      else Inl (External ''unexpected end of JSON input''))"

text \<open>
  The sample request with the input \<^verbatim>\<open>world\<close>, in both encodings, and user functions for a
  call handler: one that greets its input, one that returns the error \<^verbatim>\<open>boom\<close>, and ones
  that first respond themselves through the Scope they are given (mrpc: \<^verbatim>\<open>ctx.End()\<close>,
  jrpc: \<^verbatim>\<open>ctx.Fail(400, "bad")\<close>). An output of type string has the method \<open>string_MarshalMsg\<close>;
  \<open>failing_MarshalMsg\<close> is the method of a user's type that returns an error.
\<close>

definition world_Request :: mrpc_Request where
  "world_Request = sample_Request\<lparr>req_Input := AppendString [] ''world''\<rparr>"

definition world_jRequest :: jrpc_Request where
  "world_jRequest = sample_jRequest\<lparr>jreq_Params := json_string ''world''\<rparr>"

definition greet :: "'c \<Rightarrow> string \<Rightarrow> 'w \<Rightarrow> (error + string) \<times> 'c \<times> 'w" where
  "greet ctx inp w = (Inr (''Hello, '' @ inp), ctx, w)"

definition boom :: "'c \<Rightarrow> string \<Rightarrow> 'w \<Rightarrow> (error + string) \<times> 'c \<times> 'w" where
  "boom ctx inp w = (Inl (External ''boom''), ctx, w)"

definition end_then_boom ::
  "'w mrpc_Scope \<Rightarrow> string \<Rightarrow> 'w \<Rightarrow> (error + string) \<times> 'w mrpc_Scope \<times> 'w" where
  "end_then_boom ctx inp w = (case mrpc_End ctx w of (e, ctx', w') \<Rightarrow> boom ctx' inp w')"

definition fail_then_boom ::
  "'w jrpc_Scope \<Rightarrow> string \<Rightarrow> 'w \<Rightarrow> (error + string) \<times> 'w jrpc_Scope \<times> 'w" where
  "fail_then_boom ctx inp w =
     (case jrpc_Fail sample_Marshal ctx 400 ''bad'' w of (e, ctx', w') \<Rightarrow> boom ctx' inp w')"

definition fail_then_greet ::
  "'w jrpc_Scope \<Rightarrow> string \<Rightarrow> 'w \<Rightarrow> (error + string) \<times> 'w jrpc_Scope \<times> 'w" where
  "fail_then_greet ctx inp w =
     (case jrpc_Fail sample_Marshal ctx 400 ''bad'' w of (e, ctx', w') \<Rightarrow> greet ctx' inp w')"

definition string_MarshalMsg :: "string \<Rightarrow> MarshalSizer" where
  "string_MarshalMsg out b = Inr (AppendString b out)"

definition failing_MarshalMsg :: "string \<Rightarrow> MarshalSizer" where
  "failing_MarshalMsg out b = Inl (External ''msgp: type not supported'')"

text \<open>
  Four hooks with dependencies that have no cycle, and two hooks that depend on each
  other.
\<close>

definition sample_hooks :: "string hook list" where
  "sample_hooks =
     [\<lparr>item = ''api'', Provides = None, DependsOn = Some [''db'', ''log'']\<rparr>,
      \<lparr>item = ''db'', Provides = Some [''db''], DependsOn = Some [''log'']\<rparr>,
      \<lparr>item = ''log'', Provides = Some [''log''], DependsOn = None\<rparr>,
      \<lparr>item = ''static'', Provides = None, DependsOn = None\<rparr>]"

definition cyclic_hooks :: "string hook list" where
  "cyclic_hooks =
     [\<lparr>item = ''a'', Provides = Some [''a''], DependsOn = Some [''b'']\<rparr>,
      \<lparr>item = ''b'', Provides = Some [''b''], DependsOn = Some [''a'']\<rparr>]"

text \<open>
  Three hooks where the order of the providers shows: \<^verbatim>\<open>x\<close> depends on the names \<^verbatim>\<open>b\<close> and \<^verbatim>\<open>a\<close>,
  in this order; the second hook provides \<^verbatim>\<open>a\<close>, the third provides \<^verbatim>\<open>b\<close> and \<^verbatim>\<open>a\<close>. And three
  hooks that neither provide nor depend.
\<close>

definition order_hooks :: "string hook list" where
  "order_hooks =
     [\<lparr>item = ''x'', Provides = None, DependsOn = Some [''b'', ''a'']\<rparr>,
      \<lparr>item = ''a'', Provides = Some [''a''], DependsOn = None\<rparr>,
      \<lparr>item = ''b'', Provides = Some [''b'', ''a''], DependsOn = None\<rparr>]"

definition plain_hooks :: "string hook list" where
  "plain_hooks =
     [\<lparr>item = ''c'', Provides = None, DependsOn = None\<rparr>,
      \<lparr>item = ''a'', Provides = None, DependsOn = None\<rparr>,
      \<lparr>item = ''b'', Provides = None, DependsOn = None\<rparr>]"

section \<open>The frames of the binary encoding, from the spec\<close>

text \<open>
  The spec gives a response of the binary encoding as the 3-tuple of id, method and
  output, and the output of a failure as the 2-field structure of code and message.
  \<open>spec_response_head\<close> is the tuple up to the method, where the encoded output follows;
  \<open>spec_fail_frame\<close> is the whole frame of a failure. The theorems on the call handlers
  compare what the code writes with these.
\<close>

definition spec_response_head :: "string \<Rightarrow> string \<Rightarrow> bytes" where
  "spec_response_head rid method = AppendString (AppendString (AppendArrayHeader [] 3) rid) method"

definition spec_fail_frame :: "string \<Rightarrow> int \<Rightarrow> string \<Rightarrow> bytes" where
  "spec_fail_frame rid code msg =
     AppendString (AppendInt (AppendArrayHeader (spec_response_head rid ''fail'') 2) code) msg"

section \<open>Responding through a Scope\<close>

lemma mrpc_Respond_disabled:
  "send ctx = None \<Longrightarrow> mrpc_Respond ctx method output w = (Some NotSupported, ctx, w)"
  by (simp add: mrpc_Respond_def)

lemma mrpc_Respond_sends:
  "send ctx = Some sendfn \<Longrightarrow>
   Response_MarshalMsg \<lparr>rsp_ID = req_ID (Request ctx), rsp_Method = method, rsp_Output = output\<rparr> []
     = Inr msg \<Longrightarrow>
   mrpc_Respond ctx method output w = (fst (sendfn msg w), ctx, snd (sendfn msg w))"
  by (simp add: mrpc_Respond_def split: prod.splits)

lemma jrpc_respond_disabled:
  "jsend ctx = None \<Longrightarrow> jrpc_respond Marshal ctx ret w = (Some NotSupported, ctx, w)"
  by (simp add: jrpc_respond_def)

lemma jrpc_respond_sends:
  "jsend ctx = Some sendfn \<Longrightarrow> Marshal (ret\<lparr>jrsp_ID := jreq_ID (jRequest ctx)\<rparr>) = Inr msg \<Longrightarrow>
   jrpc_respond Marshal ctx ret w = (fst (sendfn msg w), ctx, snd (sendfn msg w))"
  by (simp add: jrpc_respond_def split: prod.splits)

lemma mrpc_Fail_sends:
  "send ctx = Some sendfn \<Longrightarrow>
   mrpc_Fail ctx code msg w =
     (fst (sendfn (mrpc_frame \<lparr>rsp_ID = req_ID (Request ctx), rsp_Method = ''fail'',
               rsp_Output = Some (Fail_MarshalMsg \<lparr>fail_Code = code, fail_Msg = msg\<rparr>)\<rparr>) w),
      ctx\<lparr>send := None\<rparr>,
      snd (sendfn (mrpc_frame \<lparr>rsp_ID = req_ID (Request ctx), rsp_Method = ''fail'',
               rsp_Output = Some (Fail_MarshalMsg \<lparr>fail_Code = code, fail_Msg = msg\<rparr>)\<rparr>) w))"
  by (simp add: mrpc_Fail_def mrpc_Respond_def mrpc_frame_def Response_MarshalMsg_def
      Fail_MarshalMsg_def split: prod.splits)

lemma jrpc_Fail_sends:
  "jsend ctx = Some sendfn \<Longrightarrow>
   Marshal \<lparr>jrsp_ID = jreq_ID (jRequest ctx), jrsp_Result = None,
            jrsp_Error = Some \<lparr>err_Code = code, err_Message = msg, err_Data = None\<rparr>,
            jrsp_End = False\<rparr> = Inr frame \<Longrightarrow>
   jrpc_Fail Marshal ctx code msg w = (fst (sendfn frame w), ctx\<lparr>jsend := None\<rparr>, snd (sendfn frame w))"
  by (simp add: jrpc_Fail_def jrpc_respond_def split: prod.splits)

lemma mrpc_Succ_sends:
  "send ctx = Some sendfn \<Longrightarrow>
   Response_MarshalMsg \<lparr>rsp_ID = req_ID (Request ctx), rsp_Method = ''succ'', rsp_Output = output\<rparr> []
     = Inr frame \<Longrightarrow>
   mrpc_Succ ctx output w = (fst (sendfn frame w), ctx, snd (sendfn frame w))"
  by (simp add: mrpc_Succ_def mrpc_Respond_def split: prod.splits)

lemma jrpc_Succ_sends:
  "jsend ctx = Some sendfn \<Longrightarrow>
   Marshal \<lparr>jrsp_ID = jreq_ID (jRequest ctx), jrsp_Result = result, jrsp_Error = None,
            jrsp_End = False\<rparr> = Inr frame \<Longrightarrow>
   jrpc_Succ Marshal ctx result w = (fst (sendfn frame w), ctx, snd (sendfn frame w))"
  by (simp add: jrpc_Succ_def jrpc_respond_def split: prod.splits)

text \<open>\<^verbatim>\<open>Succ\<close> and \<^verbatim>\<open>Yield\<close> leave the send function of the Scope as it was, whatever happens.\<close>

lemma Succ_keeps_send:
  "send (fst (snd (mrpc_Succ ctx output w))) = send ctx"
  "send (fst (snd (mrpc_Yield ctx output w))) = send ctx"
  "jsend (fst (snd (jrpc_Succ Marshal jctx result jw))) = jsend jctx"
  by (simp_all add: mrpc_Succ_def mrpc_Yield_def mrpc_Respond_def jrpc_Succ_def jrpc_respond_def
      split: option.splits sum.splits prod.splits)

text \<open>
  Claim C1 says that after \<^verbatim>\<open>Succ\<close> a further send through the Scope returns the error
  "response not supported" and writes no second frame. \<^verbatim>\<open>Succ\<close> is \<^verbatim>\<open>Respond\<close> and nothing
  more: it does not assign \<^verbatim>\<open>ctx.send = nil\<close> as \<^verbatim>\<open>Fail\<close> and \<^verbatim>\<open>End\<close> do. On a Scope for the
  sample request whose send function records its frames, \<^verbatim>\<open>Succ\<close> followed by \<^verbatim>\<open>Yield\<close>
  returns nil twice and leaves two frames written, the success and the streaming item;
  in jrpc two calls of \<^verbatim>\<open>Succ\<close> do the same.
\<close>

theorem Succ_leaves_send_enabled:
  "(case mrpc_Succ (mrpc_For sample_Request (Some log_send)) None [] of
      (e1, ctx1, w1) \<Rightarrow>
        (case mrpc_Yield ctx1 None w1 of
           (e2, ctx2, w2) \<Rightarrow>
             e1 = None \<and> e2 = None
             \<and> w2 = [mrpc_frame \<lparr>rsp_ID = ''2'', rsp_Method = ''succ'', rsp_Output = None\<rparr>,
                     mrpc_frame \<lparr>rsp_ID = ''2'', rsp_Method = ''yield'', rsp_Output = None\<rparr>]))
   \<and> (case jrpc_Succ sample_Marshal (jrpc_For sample_jRequest (Some log_send)) (Some ''a'') [] of
        (e1, ctx1, w1) \<Rightarrow>
          (case jrpc_Succ sample_Marshal ctx1 (Some ''b'') w1 of
             (e2, ctx2, w2) \<Rightarrow> e1 = None \<and> e2 = None \<and> length w2 = 2))"
  by (simp add: mrpc_Succ_def mrpc_Yield_def mrpc_Respond_def mrpc_For_def mrpc_frame_def
      Response_MarshalMsg_def sample_Request_def log_send_def
      jrpc_Succ_def jrpc_respond_def jrpc_For_def sample_Marshal_def sample_jRequest_def)

text \<open>
  After \<^verbatim>\<open>Fail\<close> or \<^verbatim>\<open>End\<close> on a Scope (in jrpc, after \<^verbatim>\<open>Fail\<close>; it has no \<^verbatim>\<open>End\<close>), every
  further response through that Scope, by \<^verbatim>\<open>Respond\<close> with any method and output or by
  \<^verbatim>\<open>Succ\<close>, \<^verbatim>\<open>Yield\<close>, \<^verbatim>\<open>End\<close> or \<^verbatim>\<open>Fail\<close>, returns the error whose message is
  "response not supported". It is only a returned error: whatever the world \<open>w2\<close> is by
  then, the attempt leaves it as it is (no frame is written, the connection and the
  other requests are untouched) and leaves the Scope as it is. This holds whether or not
  the terminal response itself could be sent.
\<close>

lemma respond_after_Fail_or_End:
  "(case mrpc_Fail ctx code msg w of
      (e, ctx', w') \<Rightarrow>
        (\<forall>method output code2 msg2 w2.
           mrpc_Respond ctx' method output w2 = (Some NotSupported, ctx', w2)
           \<and> mrpc_Succ ctx' output w2 = (Some NotSupported, ctx', w2)
           \<and> mrpc_Yield ctx' output w2 = (Some NotSupported, ctx', w2)
           \<and> mrpc_End ctx' w2 = (Some NotSupported, ctx', w2)
           \<and> mrpc_Fail ctx' code2 msg2 w2 = (Some NotSupported, ctx', w2)))
   \<and> (case mrpc_End ctx w of
        (e, ctx', w') \<Rightarrow>
          (\<forall>method output code2 msg2 w2.
             mrpc_Respond ctx' method output w2 = (Some NotSupported, ctx', w2)
             \<and> mrpc_Succ ctx' output w2 = (Some NotSupported, ctx', w2)
             \<and> mrpc_Yield ctx' output w2 = (Some NotSupported, ctx', w2)
             \<and> mrpc_End ctx' w2 = (Some NotSupported, ctx', w2)
             \<and> mrpc_Fail ctx' code2 msg2 w2 = (Some NotSupported, ctx', w2)))
   \<and> (case jrpc_Fail Marshal jctx code msg jw of
        (e, ctx', w') \<Rightarrow>
          (\<forall>ret result code2 msg2 w2.
             jrpc_respond Marshal ctx' ret w2 = (Some NotSupported, ctx', w2)
             \<and> jrpc_Succ Marshal ctx' result w2 = (Some NotSupported, ctx', w2)
             \<and> jrpc_Fail Marshal ctx' code2 msg2 w2 = (Some NotSupported, ctx', w2)))
   \<and> Error NotSupported = ''response not supported''"
proof -
  have m: "mrpc_Respond c meth outp w2 = (Some NotSupported, c, w2)
      \<and> mrpc_Succ c outp w2 = (Some NotSupported, c, w2)
      \<and> mrpc_Yield c outp w2 = (Some NotSupported, c, w2)
      \<and> mrpc_End c w2 = (Some NotSupported, c, w2)
      \<and> mrpc_Fail c code2 msg2 w2 = (Some NotSupported, c, w2)"
    if "send c = None" for c meth outp w2 code2 msg2
    using that by (simp add: mrpc_Succ_def mrpc_Yield_def mrpc_End_def mrpc_Fail_def
        mrpc_Respond_disabled)
  have j: "jrpc_respond Marshal c ret w2 = (Some NotSupported, c, w2)
      \<and> jrpc_Succ Marshal c result w2 = (Some NotSupported, c, w2)
      \<and> jrpc_Fail Marshal c code2 msg2 w2 = (Some NotSupported, c, w2)"
    if "jsend c = None" for c ret result w2 code2 msg2
    using that by (simp add: jrpc_Succ_def jrpc_Fail_def jrpc_respond_disabled)
  have 1: "send (fst (snd (mrpc_Fail ctx code msg w))) = None"
    by (simp add: mrpc_Fail_def split: prod.splits)
  have 2: "send (fst (snd (mrpc_End ctx w))) = None"
    by (simp add: mrpc_End_def split: prod.splits)
  have 3: "jsend (fst (snd (jrpc_Fail Marshal jctx code msg jw))) = None"
    by (simp add: jrpc_Fail_def split: prod.splits)
  show ?thesis
    using m [OF 1] m [OF 2] j [OF 3] by (simp add: case_prod_unfold)
qed

text \<open>
  At the sample request: \<^verbatim>\<open>Fail(500, "boom")\<close> writes its one frame, and the \<^verbatim>\<open>Yield\<close> after it
  only returns the error.
\<close>

lemma respond_after_Fail_sample:
  "(case mrpc_Fail (mrpc_For sample_Request (Some log_send)) 500 ''boom'' [] of
      (e, ctx', w') \<Rightarrow>
        e = None \<and> length w' = 1
        \<and> mrpc_Yield ctx' None w' = (Some NotSupported, ctx', w'))"
proof -
  have run: "mrpc_Fail (mrpc_For sample_Request (Some log_send)) 500 ''boom'' []
      = (None, mrpc_For sample_Request None,
         [mrpc_frame \<lparr>rsp_ID = ''2'', rsp_Method = ''fail'',
            rsp_Output = Some (Fail_MarshalMsg \<lparr>fail_Code = 500, fail_Msg = ''boom''\<rparr>)\<rparr>])"
    by (simp add: mrpc_Fail_def mrpc_Respond_def mrpc_For_def Response_MarshalMsg_def
        Fail_MarshalMsg_def log_send_def mrpc_frame_def sample_Request_def)
  have "mrpc_Yield ctx' None w2 = (Some NotSupported, ctx', w2)"
    if "mrpc_Fail (mrpc_For sample_Request (Some log_send)) 500 ''boom'' [] = (e, ctx', w')"
    for e ctx' w' w2
    using respond_after_Fail_or_End
      [of "mrpc_For sample_Request (Some log_send)" 500 "''boom''" "[]", THEN conjunct1] that
    by simp
  with run show ?thesis by simp
qed

text \<open>
  Claim C5 says that after \<^verbatim>\<open>Fail\<close> or \<^verbatim>\<open>End\<close> on a Scope any further send attempt through
  that Scope returns the error "response not supported" as a local error return, writes
  no frame and leaves the connection and the other requests alone. The responses do so
  (lemma \<open>respond_after_Fail_or_End\<close>): \<^verbatim>\<open>respond\<close> looks whether \<^verbatim>\<open>ctx.send\<close> is nil. The
  other two sending methods of a jrpc Scope, \<^verbatim>\<open>Notify\<close> and \<^verbatim>\<open>Call\<close>, call \<^verbatim>\<open>ctx.send\<close> without
  that check. On the Scope that \<^verbatim>\<open>Fail\<close> leaves, whatever the Scope and the world were
  before, each of them returns an error only when its message does not encode, and
  otherwise calls the nil function: a panic that nothing recovers, which ends the
  process and with it the connection and every other request. At the sample request:
  \<^verbatim>\<open>Fail(500, "boom")\<close> writes its one frame and returns nil, a \<^verbatim>\<open>Succ\<close> after it returns the
  error and writes nothing, \<^verbatim>\<open>Notify("tick", nil)\<close> and \<^verbatim>\<open>Call("tick", nil)\<close> panic.
\<close>

theorem Notify_after_Fail_panics:
  "jrpc_Notify MarshalN (fst (snd (jrpc_Fail Marshal jctx code msg jw))) method params w2
     = (case MarshalN \<lparr>note_Method = method, note_Params = params\<rparr> of
          Inl err \<Rightarrow> Returned (Some err, fst (snd (jrpc_Fail Marshal jctx code msg jw)), w2)
        | Inr js \<Rightarrow> Panicked)
   \<and> jrpc_Call MarshalP MarshalR (fst (snd (jrpc_Fail Marshal jctx code msg jw))) method params' w2
     = (case MarshalP params' of
          Inl err \<Rightarrow> Returned (Some err, fst (snd (jrpc_Fail Marshal jctx code msg jw)), w2)
        | Inr js \<Rightarrow>
            (case MarshalR \<lparr>jreq_ID = [], jreq_Method = method, jreq_Params = js\<rparr> of
               Inl err \<Rightarrow> Returned (Some err, fst (snd (jrpc_Fail Marshal jctx code msg jw)), w2)
             | Inr js' \<Rightarrow> Panicked))
   \<and> (case jrpc_Fail sample_Marshal (jrpc_For sample_jRequest (Some log_send)) 500 ''boom'' [] of
        (e, ctx', w') \<Rightarrow>
          e = None \<and> length w' = 1
          \<and> jrpc_Succ sample_Marshal ctx' (Some ''late'') w' = (Some NotSupported, ctx', w')
          \<and> jrpc_Notify sample_MarshalNotification ctx' ''tick'' None w' = Panicked
          \<and> jrpc_Call sample_MarshalParams sample_MarshalRequest ctx' ''tick'' None w' = Panicked)"
proof -
  have nil: "jsend (fst (snd (jrpc_Fail Marshal jctx code msg jw))) = None"
    by (simp add: jrpc_Fail_def split: prod.splits)
  have A: "jrpc_Notify MarshalN (fst (snd (jrpc_Fail Marshal jctx code msg jw))) method params w2
     = (case MarshalN \<lparr>note_Method = method, note_Params = params\<rparr> of
          Inl err \<Rightarrow> Returned (Some err, fst (snd (jrpc_Fail Marshal jctx code msg jw)), w2)
        | Inr js \<Rightarrow> Panicked)"
    by (simp add: jrpc_Notify_def nil split: sum.splits)
  have B: "jrpc_Call MarshalP MarshalR (fst (snd (jrpc_Fail Marshal jctx code msg jw))) method params' w2
     = (case MarshalP params' of
          Inl err \<Rightarrow> Returned (Some err, fst (snd (jrpc_Fail Marshal jctx code msg jw)), w2)
        | Inr js \<Rightarrow>
            (case MarshalR \<lparr>jreq_ID = [], jreq_Method = method, jreq_Params = js\<rparr> of
               Inl err \<Rightarrow> Returned (Some err, fst (snd (jrpc_Fail Marshal jctx code msg jw)), w2)
             | Inr js' \<Rightarrow> Panicked))"
    by (simp add: jrpc_Call_def nil split: sum.splits)
  have C: "(case jrpc_Fail sample_Marshal (jrpc_For sample_jRequest (Some log_send)) 500 ''boom'' [] of
        (e, ctx', w') \<Rightarrow>
          e = None \<and> length w' = 1
          \<and> jrpc_Succ sample_Marshal ctx' (Some ''late'') w' = (Some NotSupported, ctx', w')
          \<and> jrpc_Notify sample_MarshalNotification ctx' ''tick'' None w' = Panicked
          \<and> jrpc_Call sample_MarshalParams sample_MarshalRequest ctx' ''tick'' None w' = Panicked)"
    by (simp add: jrpc_Fail_def jrpc_Succ_def jrpc_respond_def jrpc_For_def jrpc_Notify_def
        jrpc_Call_def sample_Marshal_def sample_MarshalNotification_def sample_MarshalParams_def
        sample_MarshalRequest_def sample_jRequest_def log_send_def)
  show ?thesis by (intro conjI A B C)
qed

section \<open>The connection loop\<close>

lemma mrpc_serveHTTP_skip:
  "mt \<noteq> MessageBinary \<Longrightarrow>
   mrpc_serveHTTP U W h (pre @ Message mt msg # post) w = mrpc_serveHTTP U W h (pre @ post) w"
  by (induction U W h pre w rule: mrpc_serveHTTP.induct) (auto split: sum.splits prod.splits)

lemma jrpc_serveHTTP_skip:
  "mt \<noteq> MessageText \<Longrightarrow>
   jrpc_serveHTTP U W h (pre @ Message mt msg # post) w = jrpc_serveHTTP U W h (pre @ post) w"
  by (induction U W h pre w rule: jrpc_serveHTTP.induct) (auto split: sum.splits prod.splits)

lemma sample_decodes: "sample_UnmarshalMsg sample_frame = Inr sample_Request"
  by (simp add: sample_UnmarshalMsg_def)

lemma sample_empty:
  "sample_UnmarshalMsg [] = Inl (External ''msgp: too few bytes left to read object'')"
  by (simp add: sample_UnmarshalMsg_def sample_frame_def AppendNil_def)

lemma run_sample:
  "mrpc_serveHTTP sample_UnmarshalMsg log_Write (mrpc_handle (mrpc_init q [])) [Message MessageBinary sample_frame] []
      = (Reading,
          [mrpc_frame
             \<lparr>rsp_ID = ''2'', rsp_Method = ''fail'',
              rsp_Output = Some (Fail_MarshalMsg
                \<lparr>fail_Code = 404, fail_Msg = ''function '' @ q ''nope'' @ '' not found''\<rparr>)\<rparr>])"
  by (simp add: sample_decodes mrpc_handle_def mrpc_init_def mrpc_handleRequest_def
        mrpc_For_def mrpc_Fail_sends log_Write_def)
     (simp add: sample_Request_def)

lemma sample_jdecodes: "sample_Unmarshal sample_text = Inr sample_jRequest"
  by (simp add: sample_Unmarshal_def)

lemma sample_jempty: "sample_Unmarshal [] = Inl (External ''unexpected end of JSON input'')"
  by (simp add: sample_Unmarshal_def sample_text_def)

lemma sample_Marshal_Inr: "sample_Marshal r = Inr (projr (sample_Marshal r))"
  by (simp add: sample_Marshal_def)

lemma run_jsample:
  "jrpc_serveHTTP sample_Unmarshal log_Write (jrpc_handle (jrpc_init q sample_Marshal []))
      [Message MessageText sample_text] []
    = (Reading,
        [projr (sample_Marshal
           \<lparr>jrsp_ID = ''2'', jrsp_Result = None,
            jrsp_Error = Some \<lparr>err_Code = 404,
              err_Message = ''function '' @ q ''nope'' @ '' not found'', err_Data = None\<rparr>,
            jrsp_End = False\<rparr>)])"
proof -
  have "jrpc_handle (jrpc_init q sample_Marshal []) (jrpc_For sample_jRequest (Some (log_Write MessageText))) []
     = (jrpc_For sample_jRequest None,
        [projr (sample_Marshal
           \<lparr>jrsp_ID = ''2'', jrsp_Result = None,
            jrsp_Error = Some \<lparr>err_Code = 404,
              err_Message = ''function '' @ q ''nope'' @ '' not found'', err_Data = None\<rparr>,
            jrsp_End = False\<rparr>)])"
    by (simp add: jrpc_handle_def jrpc_init_def jrpc_handleRequest_def jrpc_For_def
        jrpc_Fail_sends [OF _ sample_Marshal_Inr] log_Write_def sample_jRequest_def)
  then show ?thesis
    by (simp add: sample_jdecodes)
qed

text \<open>
  Claim C10: a message that was read and whose type is not the one the package expects
  (binary for mrpc, text for jrpc) is skipped. Wherever it stands in what the connection
  delivers, the loop behaves as if it had not been there: the same requests are
  dispatched to the same handler, the same frames are written, and the loop ends in the
  same state; in particular it goes on to read the messages after it.
\<close>

theorem other_message_type_skipped:
  "(mt \<noteq> MessageBinary \<longrightarrow>
      mrpc_serveHTTP U W h (pre @ Message mt msg # post) w = mrpc_serveHTTP U W h (pre @ post) w)
   \<and> (mt \<noteq> MessageText \<longrightarrow>
      jrpc_serveHTTP U' W' h' (pre @ Message mt msg # post) w'
        = jrpc_serveHTTP U' W' h' (pre @ post) w')"
  by (simp add: mrpc_serveHTTP_skip jrpc_serveHTTP_skip)

text \<open>
  C10 at the sample frames: the text frame before the binary request is skipped by mrpc,
  the binary frame before the text request by jrpc, and the request after it is answered.
\<close>

theorem other_message_type_skipped_witness:
  "MessageText \<noteq> MessageBinary
   \<and> mrpc_serveHTTP sample_UnmarshalMsg log_Write (mrpc_handle (mrpc_init Quote_plain []))
        [Message MessageText sample_text, Message MessageBinary sample_frame] []
      = (Reading,
          [mrpc_frame
             \<lparr>rsp_ID = ''2'', rsp_Method = ''fail'',
              rsp_Output = Some (Fail_MarshalMsg
                \<lparr>fail_Code = 404, fail_Msg = ''function '' @ Quote_plain ''nope'' @ '' not found''\<rparr>)\<rparr>])
   \<and> MessageBinary \<noteq> MessageText
   \<and> jrpc_serveHTTP sample_Unmarshal log_Write (jrpc_handle (jrpc_init Quote_plain sample_Marshal []))
        [Message MessageBinary sample_frame, Message MessageText sample_text] []
      = (Reading,
        [projr (sample_Marshal
           \<lparr>jrsp_ID = ''2'', jrsp_Result = None,
            jrsp_Error = Some \<lparr>err_Code = 404,
              err_Message = ''function '' @ Quote_plain ''nope'' @ '' not found'', err_Data = None\<rparr>,
            jrsp_End = False\<rparr>)])"
  using other_message_type_skipped [of MessageText sample_UnmarshalMsg log_Write
      "mrpc_handle (mrpc_init Quote_plain [])" "[]" sample_text "[Message MessageBinary sample_frame]" "[]",
      THEN conjunct1]
    other_message_type_skipped [where mt = MessageBinary and U' = sample_Unmarshal and W' = log_Write
      and h' = "jrpc_handle (jrpc_init Quote_plain sample_Marshal [])" and pre = "[]"
      and msg = sample_frame and post = "[Message MessageText sample_text]" and w' = "[]",
      THEN conjunct2]
  by (simp add: run_sample run_jsample del: mrpc_serveHTTP.simps jrpc_serveHTTP.simps)

text \<open>
  Claim C2 says that a frame that fails to decode fails only its own handling and that the
  loop goes on reading. In the code the loop returns the error of the decoder
  (\<^verbatim>\<open>return err\<close>), which ends \<^verbatim>\<open>serveHTTP\<close> and closes the connection. With the empty frame
  followed by the sample request, the connection is closed with the decoder's error and
  nothing is written, while the sample request alone is answered and the loop reads on.
\<close>

theorem decode_error_counterexample:
  "mrpc_serveHTTP sample_UnmarshalMsg log_Write (mrpc_handle (mrpc_init Quote_plain []))
      [Message MessageBinary [], Message MessageBinary sample_frame] []
     = (Closed (Some (External ''msgp: too few bytes left to read object'')), [])
   \<and> fst (mrpc_serveHTTP sample_UnmarshalMsg log_Write (mrpc_handle (mrpc_init Quote_plain []))
      [Message MessageBinary sample_frame] []) = Reading
   \<and> length (snd (mrpc_serveHTTP sample_UnmarshalMsg log_Write (mrpc_handle (mrpc_init Quote_plain []))
      [Message MessageBinary sample_frame] [])) = 1"
proof -
  have "mrpc_serveHTTP sample_UnmarshalMsg log_Write (mrpc_handle (mrpc_init Quote_plain []))
      [Message MessageBinary [], Message MessageBinary sample_frame] []
     = (Closed (Some (External ''msgp: too few bytes left to read object'')), [])"
    by (simp add: sample_empty)
  then show ?thesis
    by (simp add: run_sample del: mrpc_serveHTTP.simps)
qed

text \<open>
  Claim C2 as amended: for every frame of the expected type whose bytes fail to decode into
  a request, the connection loop ends and returns the decode error; no handler is
  dispatched for the frame, nothing is written, and the messages after it are not read.
\<close>

theorem decode_error_closes:
  "(U msg = Inl err \<longrightarrow>
      mrpc_serveHTTP U W h (Message MessageBinary msg # rest) w = (Closed (Some err), w))
   \<and> (U' msg = Inl err \<longrightarrow>
      jrpc_serveHTTP U' W' h' (Message MessageText msg # rest) w' = (Closed (Some err), w'))"
  by simp

text \<open>The amended C2 at the empty frame, which neither decoder accepts.\<close>

theorem decode_error_closes_witness:
  "sample_UnmarshalMsg [] = Inl (External ''msgp: too few bytes left to read object'')
   \<and> mrpc_serveHTTP sample_UnmarshalMsg log_Write (mrpc_handle (mrpc_init Quote_plain []))
        [Message MessageBinary [], Message MessageBinary sample_frame] []
      = (Closed (Some (External ''msgp: too few bytes left to read object'')), [])
   \<and> sample_Unmarshal [] = Inl (External ''unexpected end of JSON input'')
   \<and> jrpc_serveHTTP sample_Unmarshal log_Write (jrpc_handle (jrpc_init Quote_plain sample_Marshal []))
        [Message MessageText [], Message MessageText sample_text] []
      = (Closed (Some (External ''unexpected end of JSON input'')), [])"
  using decode_error_closes [where U = sample_UnmarshalMsg and msg = "[]"
      and err = "External ''msgp: too few bytes left to read object''" and W = log_Write
      and h = "mrpc_handle (mrpc_init Quote_plain [])"
      and rest = "[Message MessageBinary sample_frame]" and w = "[]", THEN conjunct1]
    decode_error_closes [where U' = sample_Unmarshal and msg = "[]"
      and err = "External ''unexpected end of JSON input''" and W' = log_Write
      and h' = "jrpc_handle (jrpc_init Quote_plain sample_Marshal [])"
      and rest = "[Message MessageText sample_text]" and w' = "[]", THEN conjunct2]
  by (simp add: sample_empty sample_jempty del: mrpc_serveHTTP.simps jrpc_serveHTTP.simps)

section \<open>Middleware and registration\<close>

lemma mrpc_fold_Use:
  "handler (fold (\<lambda>opt cfg. opt cfg) (map mrpc_Use fs) cfg) start call
     = foldr (\<lambda>f h. f h) (rev fs) (handler cfg start call)"
  by (induction fs arbitrary: cfg) (simp_all add: mrpc_Use_def)

lemma mrpc_fold_Use_tables:
  "startHandlers (fold (\<lambda>opt cfg. opt cfg) (map mrpc_Use fs) cfg) = startHandlers cfg
   \<and> callHandlers (fold (\<lambda>opt cfg. opt cfg) (map mrpc_Use fs) cfg) = callHandlers cfg"
  by (induction fs arbitrary: cfg) (simp_all add: mrpc_Use_def)

lemma jrpc_fold_Use:
  "jhandler (fold (\<lambda>opt cfg. opt cfg) (map jrpc_Use fs) cfg) proc call
     = foldr (\<lambda>f h. f h) (rev fs) (jhandler cfg proc call)"
  by (induction fs arbitrary: cfg) (simp_all add: jrpc_Use_def)

lemma jrpc_fold_Use_tables:
  "procHandlers (fold (\<lambda>opt cfg. opt cfg) (map jrpc_Use fs) cfg) = procHandlers cfg
   \<and> jcallHandlers (fold (\<lambda>opt cfg. opt cfg) (map jrpc_Use fs) cfg) = jcallHandlers cfg"
  by (induction fs arbitrary: cfg) (simp_all add: jrpc_Use_def)

text \<open>
  Claim C3 says that the first middleware registered is the outermost wrapper. \<^verbatim>\<open>Use\<close>
  wraps the handler the configuration holds at that moment (\<^verbatim>\<open>cfg.handler = fn(cfg.handler)\<close>),
  so each later registration goes around the earlier ones. With two middlewares that
  leave their tags, the handler built by the code runs the second one first; the
  composition the claim gives runs the first one first.
\<close>

theorem Use_first_outermost_counterexample:
  "snd (mrpc_handle (mrpc_init Quote_plain
          [mrpc_Use (tag_middleware ''f1''), mrpc_Use (tag_middleware ''f2'')])
        (mrpc_For sample_Request None) [])
     = [''f2'', ''f1'']
   \<and> snd (tag_middleware ''f1'' (tag_middleware ''f2''
            (mrpc_handleRequest Quote_plain Map.empty Map.empty))
        (mrpc_For sample_Request None) [])
     = [''f1'', ''f2'']"
  by (simp add: mrpc_handle_def mrpc_init_def mrpc_Use_def tag_middleware_def mrpc_handleRequest_def
      mrpc_Fail_def mrpc_Respond_def mrpc_For_def sample_Request_def)

text \<open>
  Claim C3 as amended: for registrations \<^verbatim>\<open>Use(f1), ..., Use(fn)\<close> applied in that order,
  the dispatch function is \<open>fn (... (f2 (f1 base)))\<close>, where \<open>base\<close> is the default
  top-level handler: the last middleware registered is the outermost wrapper, running
  first on the way in and last on the way out. (\<open>foldr\<close> applies the head of its list
  outermost, and the list is the registrations reversed.)
\<close>

theorem Use_last_is_outermost:
  "handler (mrpc_init q (map mrpc_Use fs)) start call
     = foldr (\<lambda>f h. f h) (rev fs) (mrpc_handleRequest q start call)
   \<and> mrpc_handle (mrpc_init q (map mrpc_Use fs))
     = foldr (\<lambda>f h. f h) (rev fs) (mrpc_handleRequest q Map.empty Map.empty)
   \<and> jhandler (jrpc_init q Marshal (map jrpc_Use gs)) proc jcall
     = foldr (\<lambda>f h. f h) (rev gs) (jrpc_handleRequest q Marshal proc jcall)
   \<and> jrpc_handle (jrpc_init q Marshal (map jrpc_Use gs))
     = foldr (\<lambda>f h. f h) (rev gs) (jrpc_handleRequest q Marshal Map.empty Map.empty)"
  by (simp add: mrpc_init_def mrpc_handle_def mrpc_fold_Use mrpc_fold_Use_tables
      jrpc_init_def jrpc_handle_def jrpc_fold_Use jrpc_fold_Use_tables)

text \<open>The amended C3 at the two tagging middlewares.\<close>

theorem Use_last_is_outermost_witness:
  "mrpc_handle (mrpc_init Quote_plain
      [mrpc_Use (tag_middleware ''f1''), mrpc_Use (tag_middleware ''f2'')])
     = tag_middleware ''f2'' (tag_middleware ''f1''
         (mrpc_handleRequest Quote_plain Map.empty Map.empty))"
  using Use_last_is_outermost [of Quote_plain "[tag_middleware ''f1'', tag_middleware ''f2'']",
      THEN conjunct2, THEN conjunct1]
  by simp

text \<open>
  Claim C7: registering two handlers under the same name in the same table, one after the
  other and after any earlier options, leaves the second in the table: a lookup of the
  name returns the handler made from the function registered last. This holds for the
  call and start tables of mrpc and the call and proc tables of jrpc.
\<close>

theorem register_twice_last_wins:
  "callHandlers (mrpc_init q (opts @ [mrpc_CallFn U1 M1 f fn1, mrpc_CallFn U2 M2 f fn2])) f
     = Some (mrpc_CallFn_handler U2 M2 fn2)
   \<and> startHandlers (mrpc_init q (opts @ [mrpc_StartFn U3 f sfn1, mrpc_StartFn U4 f sfn2])) f
     = Some (mrpc_StartFn_handler U4 sfn2)
   \<and> jcallHandlers (jrpc_init q Marshal (jopts @ [jrpc_Fn Marshal U5 f jfn1, jrpc_Fn Marshal U6 f jfn2])) f
     = Some (jrpc_Fn_handler Marshal U6 jfn2)
   \<and> procHandlers (jrpc_init q Marshal (jopts @ [jrpc_Proc Marshal U7 f p1, jrpc_Proc Marshal U8 f p2])) f
     = Some (jrpc_Proc_handler Marshal U8 p2)"
  by (simp add: mrpc_init_def jrpc_init_def mrpc_CallFn_def mrpc_StartFn_def jrpc_Fn_def jrpc_Proc_def)

text \<open>C7 at two registrations of the name \<^verbatim>\<open>printf\<close> in the call table of mrpc.\<close>

theorem register_twice_last_wins_witness:
  "callHandlers (mrpc_init Quote_plain
      [mrpc_CallFn (\<lambda>b. Inr b) (\<lambda>out b. Inr (AppendString b out)) ''printf''
         (\<lambda>ctx inp w. (Inr ''first'', ctx, w)),
       mrpc_CallFn (\<lambda>b. Inr b) (\<lambda>out b. Inr (AppendString b out)) ''printf''
         (\<lambda>ctx inp w. (Inr ''second'', ctx, w))]) ''printf''
     = Some (mrpc_CallFn_handler (\<lambda>b. Inr b) (\<lambda>out b. Inr (AppendString b out))
         (\<lambda>ctx inp w. (Inr ''second'', ctx, w)))"
  using register_twice_last_wins [where opts = "[]" and q = Quote_plain, THEN conjunct1]
  by simp

section \<open>Dispatch and the registered call handlers\<close>

text \<open>
  Claim C4: the default top-level handler takes the table from the kind of the request
  (mrpc: the call table for the method "call", the start table for "start"; jrpc: the
  proc table for an empty id, the call table otherwise) and runs the handler found under
  the function name. For a kind that is neither, and for a name that is not in the table,
  it fails the request with code 404: on a Scope that can send, the frame written is the
  failure response with the message "method not found", respectively "function",
  the quoted name, "not found". The connection is not closed: the loops of both
  packages, after they have written that frame, go on with the messages that follow.
\<close>

theorem default_handler_routes:
  "(req_Method (Request ctx) = ''call'' \<and> call (req_Function (Request ctx)) = Some h
      \<longrightarrow> mrpc_handleRequest q start call ctx w = h ctx w)
   \<and> (req_Method (Request ctx) = ''start'' \<and> start (req_Function (Request ctx)) = Some h
      \<longrightarrow> mrpc_handleRequest q start call ctx w = h ctx w)
   \<and> (req_Method (Request ctx) \<noteq> ''call'' \<and> req_Method (Request ctx) \<noteq> ''start''
       \<and> send ctx = Some sendfn
      \<longrightarrow> mrpc_handleRequest q start call ctx w =
            (ctx\<lparr>send := None\<rparr>,
             snd (sendfn (mrpc_frame \<lparr>rsp_ID = req_ID (Request ctx), rsp_Method = ''fail'',
                    rsp_Output = Some (Fail_MarshalMsg
                      \<lparr>fail_Code = 404, fail_Msg = ''method not found''\<rparr>)\<rparr>) w)))
   \<and> ((req_Method (Request ctx) = ''call'' \<and> call (req_Function (Request ctx)) = None
        \<or> req_Method (Request ctx) = ''start'' \<and> start (req_Function (Request ctx)) = None)
       \<and> send ctx = Some sendfn
      \<longrightarrow> mrpc_handleRequest q start call ctx w =
            (ctx\<lparr>send := None\<rparr>,
             snd (sendfn (mrpc_frame \<lparr>rsp_ID = req_ID (Request ctx), rsp_Method = ''fail'',
                    rsp_Output = Some (Fail_MarshalMsg
                      \<lparr>fail_Code = 404,
                       fail_Msg = ''function '' @ q (req_Function (Request ctx)) @ '' not found''\<rparr>)\<rparr>) w)))
   \<and> (jreq_ID (jRequest jctx) = [] \<and> proc (jreq_Method (jRequest jctx)) = Some jh
      \<longrightarrow> jrpc_handleRequest q Marshal proc jcall jctx jw = jh jctx jw)
   \<and> (jreq_ID (jRequest jctx) \<noteq> [] \<and> jcall (jreq_Method (jRequest jctx)) = Some jh
      \<longrightarrow> jrpc_handleRequest q Marshal proc jcall jctx jw = jh jctx jw)
   \<and> ((jreq_ID (jRequest jctx) = [] \<and> proc (jreq_Method (jRequest jctx)) = None
        \<or> jreq_ID (jRequest jctx) \<noteq> [] \<and> jcall (jreq_Method (jRequest jctx)) = None)
       \<and> jsend jctx = Some jsendfn
       \<and> Marshal \<lparr>jrsp_ID = jreq_ID (jRequest jctx), jrsp_Result = None,
             jrsp_Error = Some \<lparr>err_Code = 404,
               err_Message = ''function '' @ q (jreq_Method (jRequest jctx)) @ '' not found'',
               err_Data = None\<rparr>,
             jrsp_End = False\<rparr> = Inr frame
      \<longrightarrow> jrpc_handleRequest q Marshal proc jcall jctx jw =
            (jctx\<lparr>jsend := None\<rparr>, snd (jsendfn frame jw)))
   \<and> (U msg = Inr req
       \<and> (req_Method req = ''call'' \<and> call (req_Function req) = None
          \<or> req_Method req = ''start'' \<and> start (req_Function req) = None)
      \<longrightarrow> mrpc_serveHTTP U W (mrpc_handleRequest q start call) (Message MessageBinary msg # rest) w =
          mrpc_serveHTTP U W (mrpc_handleRequest q start call) rest
            (snd (W MessageBinary (mrpc_frame \<lparr>rsp_ID = req_ID req, rsp_Method = ''fail'',
                    rsp_Output = Some (Fail_MarshalMsg
                      \<lparr>fail_Code = 404,
                       fail_Msg = ''function '' @ q (req_Function req) @ '' not found''\<rparr>)\<rparr>) w)))
   \<and> (U msg = Inr req \<and> req_Method req \<noteq> ''call'' \<and> req_Method req \<noteq> ''start''
      \<longrightarrow> mrpc_serveHTTP U W (mrpc_handleRequest q start call) (Message MessageBinary msg # rest) w =
          mrpc_serveHTTP U W (mrpc_handleRequest q start call) rest
            (snd (W MessageBinary (mrpc_frame \<lparr>rsp_ID = req_ID req, rsp_Method = ''fail'',
                    rsp_Output = Some (Fail_MarshalMsg
                      \<lparr>fail_Code = 404, fail_Msg = ''method not found''\<rparr>)\<rparr>) w)))
   \<and> (JU jmsg = Inr jreq
       \<and> (jreq_ID jreq = [] \<and> proc (jreq_Method jreq) = None
          \<or> jreq_ID jreq \<noteq> [] \<and> jcall (jreq_Method jreq) = None)
       \<and> Marshal \<lparr>jrsp_ID = jreq_ID jreq, jrsp_Result = None,
             jrsp_Error = Some \<lparr>err_Code = 404,
               err_Message = ''function '' @ q (jreq_Method jreq) @ '' not found'',
               err_Data = None\<rparr>,
             jrsp_End = False\<rparr> = Inr frame
      \<longrightarrow> jrpc_serveHTTP JU JW (jrpc_handleRequest q Marshal proc jcall)
            (Message MessageText jmsg # rest) jw =
          jrpc_serveHTTP JU JW (jrpc_handleRequest q Marshal proc jcall) rest
            (snd (JW MessageText frame jw)))"
proof (intro conjI impI)
  show "mrpc_handleRequest q start call ctx w = h ctx w"
    if "req_Method (Request ctx) = ''call'' \<and> call (req_Function (Request ctx)) = Some h"
    using that by (simp add: mrpc_handleRequest_def)
  show "mrpc_handleRequest q start call ctx w = h ctx w"
    if "req_Method (Request ctx) = ''start'' \<and> start (req_Function (Request ctx)) = Some h"
    using that by (simp add: mrpc_handleRequest_def)
  show "mrpc_handleRequest q start call ctx w =
            (ctx\<lparr>send := None\<rparr>,
             snd (sendfn (mrpc_frame \<lparr>rsp_ID = req_ID (Request ctx), rsp_Method = ''fail'',
                    rsp_Output = Some (Fail_MarshalMsg
                      \<lparr>fail_Code = 404, fail_Msg = ''method not found''\<rparr>)\<rparr>) w))"
    if "req_Method (Request ctx) \<noteq> ''call'' \<and> req_Method (Request ctx) \<noteq> ''start''
       \<and> send ctx = Some sendfn"
    using that by (simp add: mrpc_handleRequest_def mrpc_Fail_sends)
  show "mrpc_handleRequest q start call ctx w =
            (ctx\<lparr>send := None\<rparr>,
             snd (sendfn (mrpc_frame \<lparr>rsp_ID = req_ID (Request ctx), rsp_Method = ''fail'',
                    rsp_Output = Some (Fail_MarshalMsg
                      \<lparr>fail_Code = 404,
                       fail_Msg = ''function '' @ q (req_Function (Request ctx)) @ '' not found''\<rparr>)\<rparr>) w))"
    if "(req_Method (Request ctx) = ''call'' \<and> call (req_Function (Request ctx)) = None
        \<or> req_Method (Request ctx) = ''start'' \<and> start (req_Function (Request ctx)) = None)
       \<and> send ctx = Some sendfn"
    using that by (auto simp: mrpc_handleRequest_def mrpc_Fail_sends)
  show "jrpc_handleRequest q Marshal proc jcall jctx jw = jh jctx jw"
    if "jreq_ID (jRequest jctx) = [] \<and> proc (jreq_Method (jRequest jctx)) = Some jh"
    using that by (simp add: jrpc_handleRequest_def)
  show "jrpc_handleRequest q Marshal proc jcall jctx jw = jh jctx jw"
    if "jreq_ID (jRequest jctx) \<noteq> [] \<and> jcall (jreq_Method (jRequest jctx)) = Some jh"
    using that by (simp add: jrpc_handleRequest_def)
  show "jrpc_handleRequest q Marshal proc jcall jctx jw =
            (jctx\<lparr>jsend := None\<rparr>, snd (jsendfn frame jw))"
    if "(jreq_ID (jRequest jctx) = [] \<and> proc (jreq_Method (jRequest jctx)) = None
        \<or> jreq_ID (jRequest jctx) \<noteq> [] \<and> jcall (jreq_Method (jRequest jctx)) = None)
       \<and> jsend jctx = Some jsendfn
       \<and> Marshal \<lparr>jrsp_ID = jreq_ID (jRequest jctx), jrsp_Result = None,
             jrsp_Error = Some \<lparr>err_Code = 404,
               err_Message = ''function '' @ q (jreq_Method (jRequest jctx)) @ '' not found'',
               err_Data = None\<rparr>,
             jrsp_End = False\<rparr> = Inr frame"
    using that by (auto simp: jrpc_handleRequest_def jrpc_Fail_sends)
  show "mrpc_serveHTTP U W (mrpc_handleRequest q start call) (Message MessageBinary msg # rest) w =
          mrpc_serveHTTP U W (mrpc_handleRequest q start call) rest
            (snd (W MessageBinary (mrpc_frame \<lparr>rsp_ID = req_ID req, rsp_Method = ''fail'',
                    rsp_Output = Some (Fail_MarshalMsg
                      \<lparr>fail_Code = 404,
                       fail_Msg = ''function '' @ q (req_Function req) @ '' not found''\<rparr>)\<rparr>) w))"
    if "U msg = Inr req
       \<and> (req_Method req = ''call'' \<and> call (req_Function req) = None
          \<or> req_Method req = ''start'' \<and> start (req_Function req) = None)"
    using that by (auto simp: mrpc_handleRequest_def mrpc_Fail_sends mrpc_For_def)
  show "mrpc_serveHTTP U W (mrpc_handleRequest q start call) (Message MessageBinary msg # rest) w =
          mrpc_serveHTTP U W (mrpc_handleRequest q start call) rest
            (snd (W MessageBinary (mrpc_frame \<lparr>rsp_ID = req_ID req, rsp_Method = ''fail'',
                    rsp_Output = Some (Fail_MarshalMsg
                      \<lparr>fail_Code = 404, fail_Msg = ''method not found''\<rparr>)\<rparr>) w))"
    if "U msg = Inr req \<and> req_Method req \<noteq> ''call'' \<and> req_Method req \<noteq> ''start''"
    using that by (auto simp: mrpc_handleRequest_def mrpc_Fail_sends mrpc_For_def)
  show "jrpc_serveHTTP JU JW (jrpc_handleRequest q Marshal proc jcall)
            (Message MessageText jmsg # rest) jw =
          jrpc_serveHTTP JU JW (jrpc_handleRequest q Marshal proc jcall) rest
            (snd (JW MessageText frame jw))"
    if "JU jmsg = Inr jreq
       \<and> (jreq_ID jreq = [] \<and> proc (jreq_Method jreq) = None
          \<or> jreq_ID jreq \<noteq> [] \<and> jcall (jreq_Method jreq) = None)
       \<and> Marshal \<lparr>jrsp_ID = jreq_ID jreq, jrsp_Result = None,
             jrsp_Error = Some \<lparr>err_Code = 404,
               err_Message = ''function '' @ q (jreq_Method jreq) @ '' not found'',
               err_Data = None\<rparr>,
             jrsp_End = False\<rparr> = Inr frame"
    using that by (auto simp: jrpc_handleRequest_def jrpc_Fail_sends jrpc_For_def)
qed

text \<open>
  C4 at the sample request, in this order: a call and a start that find their handler, a
  request of the unknown kind \<^verbatim>\<open>stop\<close>, the unknown function \<^verbatim>\<open>nope\<close> of the spec's scenario B
  (the quoted name stands between the bytes 0x22), the same three routes in jrpc, and the
  loops of mrpc and of jrpc that are still reading after the failure. The last two lines
  give the bytes of the two frames of scenario B.
\<close>

theorem default_handler_routes_witness:
  "mrpc_handleRequest Quote_plain Map.empty [''nope'' \<mapsto> sample_handler]
       (mrpc_For sample_Request (Some log_send)) []
     = (mrpc_For sample_Request (Some log_send), [''handled''])
   \<and> mrpc_handleRequest Quote_plain [''nope'' \<mapsto> sample_handler] Map.empty
       (mrpc_For (sample_Request\<lparr>req_Method := ''start''\<rparr>) (Some log_send)) []
     = (mrpc_For (sample_Request\<lparr>req_Method := ''start''\<rparr>) (Some log_send), [''handled''])
   \<and> mrpc_handleRequest Quote_plain Map.empty Map.empty
       (mrpc_For (sample_Request\<lparr>req_Method := ''stop''\<rparr>) (Some log_send)) []
     = (mrpc_For (sample_Request\<lparr>req_Method := ''stop''\<rparr>) None,
        [mrpc_frame \<lparr>rsp_ID = ''2'', rsp_Method = ''fail'',
           rsp_Output = Some (Fail_MarshalMsg \<lparr>fail_Code = 404, fail_Msg = ''method not found''\<rparr>)\<rparr>])
   \<and> mrpc_handleRequest Quote_plain Map.empty Map.empty (mrpc_For sample_Request (Some log_send)) []
     = (mrpc_For sample_Request None,
        [mrpc_frame \<lparr>rsp_ID = ''2'', rsp_Method = ''fail'',
           rsp_Output = Some (Fail_MarshalMsg \<lparr>fail_Code = 404,
             fail_Msg = ''function '' @ [CHR 0x22] @ ''nope'' @ [CHR 0x22] @ '' not found''\<rparr>)\<rparr>])
   \<and> jrpc_handleRequest Quote_plain sample_Marshal [''nope'' \<mapsto> sample_jhandler] Map.empty
       (jrpc_For (sample_jRequest\<lparr>jreq_ID := []\<rparr>) (Some log_send)) []
     = (jrpc_For (sample_jRequest\<lparr>jreq_ID := []\<rparr>) (Some log_send), [''handled''])
   \<and> jrpc_handleRequest Quote_plain sample_Marshal Map.empty [''nope'' \<mapsto> sample_jhandler]
       (jrpc_For sample_jRequest (Some log_send)) []
     = (jrpc_For sample_jRequest (Some log_send), [''handled''])
   \<and> jrpc_handleRequest Quote_plain sample_Marshal Map.empty Map.empty
       (jrpc_For sample_jRequest (Some log_send)) []
     = (jrpc_For sample_jRequest None,
        [projr (sample_Marshal
           \<lparr>jrsp_ID = ''2'', jrsp_Result = None,
            jrsp_Error = Some \<lparr>err_Code = 404,
              err_Message = ''function '' @ [CHR 0x22] @ ''nope'' @ [CHR 0x22] @ '' not found'',
              err_Data = None\<rparr>,
            jrsp_End = False\<rparr>)])
   \<and> mrpc_serveHTTP sample_UnmarshalMsg log_Write (mrpc_handleRequest Quote_plain Map.empty Map.empty)
       [Message MessageBinary sample_frame] []
     = (Reading,
        [mrpc_frame \<lparr>rsp_ID = ''2'', rsp_Method = ''fail'',
           rsp_Output = Some (Fail_MarshalMsg \<lparr>fail_Code = 404,
             fail_Msg = ''function '' @ [CHR 0x22] @ ''nope'' @ [CHR 0x22] @ '' not found''\<rparr>)\<rparr>])
   \<and> mrpc_serveHTTP (\<lambda>msg. Inr (sample_Request\<lparr>req_Method := ''stop''\<rparr>)) log_Write
       (mrpc_handleRequest Quote_plain Map.empty Map.empty) [Message MessageBinary sample_frame] []
     = (Reading,
        [mrpc_frame \<lparr>rsp_ID = ''2'', rsp_Method = ''fail'',
           rsp_Output = Some (Fail_MarshalMsg \<lparr>fail_Code = 404, fail_Msg = ''method not found''\<rparr>)\<rparr>])
   \<and> jrpc_serveHTTP sample_Unmarshal log_Write
       (jrpc_handleRequest Quote_plain sample_Marshal Map.empty Map.empty)
       [Message MessageText sample_text, Message MessageBinary sample_frame] []
     = (Reading,
        [projr (sample_Marshal
           \<lparr>jrsp_ID = ''2'', jrsp_Result = None,
            jrsp_Error = Some \<lparr>err_Code = 404,
              err_Message = ''function '' @ [CHR 0x22] @ ''nope'' @ [CHR 0x22] @ '' not found'',
              err_Data = None\<rparr>,
            jrsp_End = False\<rparr>)])
   \<and> mrpc_frame \<lparr>rsp_ID = ''2'', rsp_Method = ''fail'',
           rsp_Output = Some (Fail_MarshalMsg \<lparr>fail_Code = 404,
             fail_Msg = ''function '' @ [CHR 0x22] @ ''nope'' @ [CHR 0x22] @ '' not found''\<rparr>)\<rparr>
     = [CHR 0x93, CHR 0xA1] @ ''2'' @ [CHR 0xA4] @ ''fail'' @ [CHR 0x92, CHR 0xD1, CHR 0x01, CHR 0x94, CHR 0xB9]
       @ ''function '' @ [CHR 0x22] @ ''nope'' @ [CHR 0x22] @ '' not found''
   \<and> sample_Marshal
           \<lparr>jrsp_ID = ''2'', jrsp_Result = None,
            jrsp_Error = Some \<lparr>err_Code = 404,
              err_Message = ''function '' @ [CHR 0x22] @ ''nope'' @ [CHR 0x22] @ '' not found'',
              err_Data = None\<rparr>,
            jrsp_End = False\<rparr>
     = Inr (''{'' @ [CHR 0x22] @ ''id'' @ [CHR 0x22] @ '':'' @ [CHR 0x22] @ ''2'' @ [CHR 0x22]
            @ '','' @ [CHR 0x22] @ ''result'' @ [CHR 0x22] @ '':null,''
            @ [CHR 0x22] @ ''error'' @ [CHR 0x22] @ '':{'' @ [CHR 0x22] @ ''code'' @ [CHR 0x22] @ '':404,''
            @ [CHR 0x22] @ ''message'' @ [CHR 0x22] @ '':'' @ [CHR 0x22] @ ''function ''
            @ [CHR 0x5C, CHR 0x22] @ ''nope'' @ [CHR 0x5C, CHR 0x22] @ '' not found'' @ [CHR 0x22] @ ''},''
            @ [CHR 0x22] @ ''end'' @ [CHR 0x22] @ '':false}'')"
proof -
  note T = default_handler_routes
  have A: "mrpc_handleRequest Quote_plain Map.empty [''nope'' \<mapsto> sample_handler]
       (mrpc_For sample_Request (Some log_send)) []
     = (mrpc_For sample_Request (Some log_send), [''handled''])"
    using T [where ctx = "mrpc_For sample_Request (Some log_send)"
        and call = "[''nope'' \<mapsto> sample_handler]" and h = sample_handler
        and q = Quote_plain and start = Map.empty and w = "[]", THEN conjunct1]
    by (simp add: mrpc_For_def sample_Request_def sample_handler_def)
  have B: "mrpc_handleRequest Quote_plain [''nope'' \<mapsto> sample_handler] Map.empty
       (mrpc_For (sample_Request\<lparr>req_Method := ''start''\<rparr>) (Some log_send)) []
     = (mrpc_For (sample_Request\<lparr>req_Method := ''start''\<rparr>) (Some log_send), [''handled''])"
    using T [where ctx = "mrpc_For (sample_Request\<lparr>req_Method := ''start''\<rparr>) (Some log_send)"
        and start = "[''nope'' \<mapsto> sample_handler]" and h = sample_handler
        and q = Quote_plain and call = Map.empty and w = "[]", THEN conjunct2, THEN conjunct1]
    by (simp add: mrpc_For_def sample_Request_def sample_handler_def)
  have C: "mrpc_handleRequest Quote_plain Map.empty Map.empty
       (mrpc_For (sample_Request\<lparr>req_Method := ''stop''\<rparr>) (Some log_send)) []
     = (mrpc_For (sample_Request\<lparr>req_Method := ''stop''\<rparr>) None,
        [mrpc_frame \<lparr>rsp_ID = ''2'', rsp_Method = ''fail'',
           rsp_Output = Some (Fail_MarshalMsg \<lparr>fail_Code = 404, fail_Msg = ''method not found''\<rparr>)\<rparr>])"
    using T [where ctx = "mrpc_For (sample_Request\<lparr>req_Method := ''stop''\<rparr>) (Some log_send)"
        and sendfn = log_send and q = Quote_plain and start = Map.empty and call = Map.empty
        and w = "[]", THEN conjunct2, THEN conjunct2, THEN conjunct1]
    by (simp add: mrpc_For_def sample_Request_def log_send_def)
  have D: "mrpc_handleRequest Quote_plain Map.empty Map.empty (mrpc_For sample_Request (Some log_send)) []
     = (mrpc_For sample_Request None,
        [mrpc_frame \<lparr>rsp_ID = ''2'', rsp_Method = ''fail'',
           rsp_Output = Some (Fail_MarshalMsg \<lparr>fail_Code = 404,
             fail_Msg = ''function '' @ [CHR 0x22] @ ''nope'' @ [CHR 0x22] @ '' not found''\<rparr>)\<rparr>])"
    using T [where ctx = "mrpc_For sample_Request (Some log_send)"
        and sendfn = log_send and q = Quote_plain and start = Map.empty and call = Map.empty
        and w = "[]", THEN conjunct2, THEN conjunct2, THEN conjunct2, THEN conjunct1]
    by (simp add: mrpc_For_def sample_Request_def log_send_def Quote_plain_def)
  have E: "jrpc_handleRequest Quote_plain sample_Marshal [''nope'' \<mapsto> sample_jhandler] Map.empty
       (jrpc_For (sample_jRequest\<lparr>jreq_ID := []\<rparr>) (Some log_send)) []
     = (jrpc_For (sample_jRequest\<lparr>jreq_ID := []\<rparr>) (Some log_send), [''handled''])"
    using T [where jctx = "jrpc_For (sample_jRequest\<lparr>jreq_ID := []\<rparr>) (Some log_send)"
        and proc = "[''nope'' \<mapsto> sample_jhandler]" and jh = sample_jhandler
        and q = Quote_plain and Marshal = sample_Marshal and jcall = Map.empty and jw = "[]",
        THEN conjunct2, THEN conjunct2, THEN conjunct2, THEN conjunct2, THEN conjunct1]
    by (simp add: jrpc_For_def sample_jRequest_def sample_jhandler_def)
  have F: "jrpc_handleRequest Quote_plain sample_Marshal Map.empty [''nope'' \<mapsto> sample_jhandler]
       (jrpc_For sample_jRequest (Some log_send)) []
     = (jrpc_For sample_jRequest (Some log_send), [''handled''])"
    using T [where jctx = "jrpc_For sample_jRequest (Some log_send)"
        and jcall = "[''nope'' \<mapsto> sample_jhandler]" and jh = sample_jhandler
        and q = Quote_plain and Marshal = sample_Marshal and proc = Map.empty and jw = "[]",
        THEN conjunct2, THEN conjunct2, THEN conjunct2, THEN conjunct2, THEN conjunct2,
        THEN conjunct1]
    by (simp add: jrpc_For_def sample_jRequest_def sample_jhandler_def)
  have G: "jrpc_handleRequest Quote_plain sample_Marshal Map.empty Map.empty
       (jrpc_For sample_jRequest (Some log_send)) []
     = (jrpc_For sample_jRequest None,
        [projr (sample_Marshal
           \<lparr>jrsp_ID = ''2'', jrsp_Result = None,
            jrsp_Error = Some \<lparr>err_Code = 404,
              err_Message = ''function '' @ [CHR 0x22] @ ''nope'' @ [CHR 0x22] @ '' not found'',
              err_Data = None\<rparr>,
            jrsp_End = False\<rparr>)])"
    using T [where jctx = "jrpc_For sample_jRequest (Some log_send)"
        and jsendfn = log_send and q = Quote_plain and Marshal = sample_Marshal
        and proc = Map.empty and jcall = Map.empty and jw = "[]"
        and frame = "projr (sample_Marshal
           \<lparr>jrsp_ID = ''2'', jrsp_Result = None,
            jrsp_Error = Some \<lparr>err_Code = 404,
              err_Message = ''function '' @ [CHR 0x22] @ ''nope'' @ [CHR 0x22] @ '' not found'',
              err_Data = None\<rparr>,
            jrsp_End = False\<rparr>)",
        THEN conjunct2, THEN conjunct2, THEN conjunct2, THEN conjunct2, THEN conjunct2,
        THEN conjunct2, THEN conjunct1]
    by (simp add: jrpc_For_def sample_jRequest_def log_send_def Quote_plain_def sample_Marshal_def)
  have H: "mrpc_serveHTTP sample_UnmarshalMsg log_Write (mrpc_handleRequest Quote_plain Map.empty Map.empty)
       [Message MessageBinary sample_frame] []
     = (Reading,
        [mrpc_frame \<lparr>rsp_ID = ''2'', rsp_Method = ''fail'',
           rsp_Output = Some (Fail_MarshalMsg \<lparr>fail_Code = 404,
             fail_Msg = ''function '' @ [CHR 0x22] @ ''nope'' @ [CHR 0x22] @ '' not found''\<rparr>)\<rparr>])"
    using T [where U = sample_UnmarshalMsg and msg = sample_frame and req = sample_Request
        and W = log_Write and q = Quote_plain and start = Map.empty and call = Map.empty
        and rest = "[]" and w = "[]",
        THEN conjunct2, THEN conjunct2, THEN conjunct2, THEN conjunct2, THEN conjunct2,
        THEN conjunct2, THEN conjunct2, THEN conjunct1]
    by (simp add: sample_decodes sample_Request_def log_Write_def Quote_plain_def)
  have I: "mrpc_serveHTTP (\<lambda>msg. Inr (sample_Request\<lparr>req_Method := ''stop''\<rparr>)) log_Write
       (mrpc_handleRequest Quote_plain Map.empty Map.empty) [Message MessageBinary sample_frame] []
     = (Reading,
        [mrpc_frame \<lparr>rsp_ID = ''2'', rsp_Method = ''fail'',
           rsp_Output = Some (Fail_MarshalMsg \<lparr>fail_Code = 404, fail_Msg = ''method not found''\<rparr>)\<rparr>])"
    using T [where U = "\<lambda>msg. Inr (sample_Request\<lparr>req_Method := ''stop''\<rparr>)"
        and msg = sample_frame and req = "sample_Request\<lparr>req_Method := ''stop''\<rparr>"
        and W = log_Write and q = Quote_plain and start = Map.empty and call = Map.empty
        and rest = "[]" and w = "[]",
        THEN conjunct2, THEN conjunct2, THEN conjunct2, THEN conjunct2, THEN conjunct2,
        THEN conjunct2, THEN conjunct2, THEN conjunct2, THEN conjunct1]
    by (simp add: sample_Request_def log_Write_def)
  have J: "jrpc_serveHTTP sample_Unmarshal log_Write
       (jrpc_handleRequest Quote_plain sample_Marshal Map.empty Map.empty)
       [Message MessageText sample_text, Message MessageBinary sample_frame] []
     = (Reading,
        [projr (sample_Marshal
           \<lparr>jrsp_ID = ''2'', jrsp_Result = None,
            jrsp_Error = Some \<lparr>err_Code = 404,
              err_Message = ''function '' @ [CHR 0x22] @ ''nope'' @ [CHR 0x22] @ '' not found'',
              err_Data = None\<rparr>,
            jrsp_End = False\<rparr>)])"
    using T [where JU = sample_Unmarshal and jmsg = sample_text and jreq = sample_jRequest
        and JW = log_Write and q = Quote_plain and Marshal = sample_Marshal
        and proc = Map.empty and jcall = Map.empty
        and rest = "[Message MessageBinary sample_frame]" and jw = "[]"
        and frame = "projr (sample_Marshal
           \<lparr>jrsp_ID = ''2'', jrsp_Result = None,
            jrsp_Error = Some \<lparr>err_Code = 404,
              err_Message = ''function '' @ [CHR 0x22] @ ''nope'' @ [CHR 0x22] @ '' not found'',
              err_Data = None\<rparr>,
            jrsp_End = False\<rparr>)",
        THEN conjunct2, THEN conjunct2, THEN conjunct2, THEN conjunct2, THEN conjunct2,
        THEN conjunct2, THEN conjunct2, THEN conjunct2, THEN conjunct2]
    by (simp add: sample_jdecodes sample_jRequest_def log_Write_def Quote_plain_def
        sample_Marshal_def)
  have K: "mrpc_frame \<lparr>rsp_ID = ''2'', rsp_Method = ''fail'',
           rsp_Output = Some (Fail_MarshalMsg \<lparr>fail_Code = 404,
             fail_Msg = ''function '' @ [CHR 0x22] @ ''nope'' @ [CHR 0x22] @ '' not found''\<rparr>)\<rparr>
     = [CHR 0x93, CHR 0xA1] @ ''2'' @ [CHR 0xA4] @ ''fail'' @ [CHR 0x92, CHR 0xD1, CHR 0x01, CHR 0x94, CHR 0xB9]
       @ ''function '' @ [CHR 0x22] @ ''nope'' @ [CHR 0x22] @ '' not found''"
    by code_simp
  have L: "sample_Marshal
           \<lparr>jrsp_ID = ''2'', jrsp_Result = None,
            jrsp_Error = Some \<lparr>err_Code = 404,
              err_Message = ''function '' @ [CHR 0x22] @ ''nope'' @ [CHR 0x22] @ '' not found'',
              err_Data = None\<rparr>,
            jrsp_End = False\<rparr>
     = Inr (''{'' @ [CHR 0x22] @ ''id'' @ [CHR 0x22] @ '':'' @ [CHR 0x22] @ ''2'' @ [CHR 0x22]
            @ '','' @ [CHR 0x22] @ ''result'' @ [CHR 0x22] @ '':null,''
            @ [CHR 0x22] @ ''error'' @ [CHR 0x22] @ '':{'' @ [CHR 0x22] @ ''code'' @ [CHR 0x22] @ '':404,''
            @ [CHR 0x22] @ ''message'' @ [CHR 0x22] @ '':'' @ [CHR 0x22] @ ''function ''
            @ [CHR 0x5C, CHR 0x22] @ ''nope'' @ [CHR 0x5C, CHR 0x22] @ '' not found'' @ [CHR 0x22] @ ''},''
            @ [CHR 0x22] @ ''end'' @ [CHR 0x22] @ '':false}'')"
    by code_simp
  show ?thesis
    by (intro conjI A B C D E F G H I J K L)
qed

lemma mrpc_Fail_frame:
  "send ctx = Some sendfn \<Longrightarrow>
   mrpc_Fail ctx code msg w =
     (fst (sendfn (spec_fail_frame (req_ID (Request ctx)) code msg) w), ctx\<lparr>send := None\<rparr>,
      snd (sendfn (spec_fail_frame (req_ID (Request ctx)) code msg) w))"
  by (simp add: mrpc_Fail_def mrpc_Respond_def Response_MarshalMsg_def Fail_MarshalMsg_def
      spec_fail_frame_def spec_response_head_def split: prod.splits)

lemma mrpc_Fail_disabled:
  "send ctx = None \<Longrightarrow> mrpc_Fail ctx code msg w = (Some NotSupported, ctx, w)"
  by (simp add: mrpc_Fail_def mrpc_Respond_def)

lemma mrpc_Succ_frame:
  "send ctx = Some sendfn \<Longrightarrow>
   M (spec_response_head (req_ID (Request ctx)) ''succ'') = Inr frame \<Longrightarrow>
   mrpc_Succ ctx (Some M) w = (fst (sendfn frame w), ctx, snd (sendfn frame w))"
  by (simp add: mrpc_Succ_def mrpc_Respond_def Response_MarshalMsg_def spec_response_head_def
      split: prod.splits)

lemma mrpc_Succ_silent:
  "send ctx = None \<or> M (spec_response_head (req_ID (Request ctx)) ''succ'') = Inl e \<Longrightarrow>
   snd (mrpc_Succ ctx (Some M) w) = (ctx, w)"
  by (auto simp: mrpc_Succ_def mrpc_Respond_def Response_MarshalMsg_def spec_response_head_def
      split: option.splits)

lemma jrpc_Fail_silent:
  "jsend ctx = None
   \<or> Marshal \<lparr>jrsp_ID = jreq_ID (jRequest ctx), jrsp_Result = None,
            jrsp_Error = Some \<lparr>err_Code = code, err_Message = msg, err_Data = None\<rparr>,
            jrsp_End = False\<rparr> = Inl e \<Longrightarrow>
   snd (jrpc_Fail Marshal ctx code msg w) = (ctx\<lparr>jsend := None\<rparr>, w)"
  by (auto simp: jrpc_Fail_def jrpc_respond_def split: option.splits)

lemma jrpc_Succ_silent:
  "jsend ctx = None
   \<or> Marshal \<lparr>jrsp_ID = jreq_ID (jRequest ctx), jrsp_Result = result, jrsp_Error = None,
            jrsp_End = False\<rparr> = Inl e \<Longrightarrow>
   snd (jrpc_Succ Marshal ctx result w) = (ctx, w)"
  by (auto simp: jrpc_Succ_def jrpc_respond_def split: option.splits)

text \<open>
  Claim C6 says that the handler \<^verbatim>\<open>CallFn\<close> (jrpc: \<^verbatim>\<open>Fn\<close>) registers emits a response in each
  of its three cases. The handler calls \<^verbatim>\<open>Fail\<close> or \<^verbatim>\<open>Succ\<close> and drops the error they return
  (\<^verbatim>\<open>_ = ctx.Succ(&output)\<close>), so when the response cannot be made nothing is emitted and
  nobody is told. Here the input decodes and the user function returns its greeting, but
  the \<^verbatim>\<open>MarshalMsg\<close> of the output type returns an error: the handler returns with nothing
  written, neither a success nor a failure, and the Scope still open. And a user function
  that ends the stream itself through the Scope it was given and then returns an error:
  the only frame written is the \<^verbatim>\<open>end\<close>, no failure with code 500.
\<close>

theorem call_handler_silent_counterexample:
  "mrpc_CallFn_handler sample_input_UnmarshalMsg failing_MarshalMsg greet
      (mrpc_For world_Request (Some log_send)) []
     = (mrpc_For world_Request (Some log_send), [])
   \<and> mrpc_CallFn_handler sample_input_UnmarshalMsg string_MarshalMsg end_then_boom
      (mrpc_For world_Request (Some log_send)) []
     = (mrpc_For world_Request None, [AppendNil (spec_response_head ''2'' ''end'')])"
  by (simp add: mrpc_CallFn_handler_def sample_input_UnmarshalMsg_def mrpc_Succ_def mrpc_Fail_def
      mrpc_End_def mrpc_Respond_def mrpc_For_def Response_MarshalMsg_def sample_Request_def
      world_Request_def greet_def boom_def end_then_boom_def failing_MarshalMsg_def
      string_MarshalMsg_def log_send_def spec_response_head_def)

text \<open>
  Claim C6, amended. The handler \<^verbatim>\<open>CallFn\<close> (jrpc: \<^verbatim>\<open>Fn\<close>) registers under a name first
  decodes the input. When that fails it calls \<^verbatim>\<open>Fail\<close> with the code 406 and the user
  function has no part in the outcome: any other user function \<open>fn'\<close> gives the same
  result. When the user function returns an error, the handler calls \<^verbatim>\<open>Fail\<close> with the code
  500 and the error's message. Otherwise it calls \<^verbatim>\<open>Succ\<close> with the output. The response
  is emitted when the Scope can still send at that point (the user function gets the
  Scope and could have ended it) and the response encodes: in mrpc the frame written is
  the failure frame of the spec with that code and message, or the head of a success
  followed by what the \<^verbatim>\<open>MarshalMsg\<close> of the output appends to it; in jrpc it is what the
  library's encoder returns for the response with that error or result. When the Scope
  can no longer send, or the response does not encode, the handler writes nothing and
  returns as if it had: the error \<^verbatim>\<open>Fail\<close> or \<^verbatim>\<open>Succ\<close> returns is dropped.
\<close>

theorem call_handler_outcomes:
  "callHandlers (mrpc_CallFn U M f fn cfg) f = Some (mrpc_CallFn_handler U M fn)
   \<and> (U (req_Input (Request ctx)) = Inl err \<and> send ctx = Some sendfn
      \<longrightarrow> mrpc_CallFn_handler U M fn ctx w =
            (ctx\<lparr>send := None\<rparr>,
             snd (sendfn (spec_fail_frame (req_ID (Request ctx)) 406
                            (Error err @ '' while decoding input'')) w))
          \<and> mrpc_CallFn_handler U M fn' ctx w = mrpc_CallFn_handler U M fn ctx w)
   \<and> (U (req_Input (Request ctx)) = Inl err \<and> send ctx = None
      \<longrightarrow> mrpc_CallFn_handler U M fn ctx w = (ctx, w)
          \<and> mrpc_CallFn_handler U M fn' ctx w = (ctx, w))
   \<and> (U (req_Input (Request ctx)) = Inr inp \<and> fn ctx inp w = (Inl err, ctx', w')
       \<and> send ctx' = Some sendfn
      \<longrightarrow> mrpc_CallFn_handler U M fn ctx w =
            (ctx'\<lparr>send := None\<rparr>,
             snd (sendfn (spec_fail_frame (req_ID (Request ctx')) 500 (Error err)) w')))
   \<and> (U (req_Input (Request ctx)) = Inr inp \<and> fn ctx inp w = (Inl err, ctx', w')
       \<and> send ctx' = None
      \<longrightarrow> mrpc_CallFn_handler U M fn ctx w = (ctx', w'))
   \<and> (U (req_Input (Request ctx)) = Inr inp \<and> fn ctx inp w = (Inr out, ctx', w')
       \<and> send ctx' = Some sendfn
       \<and> M out (spec_response_head (req_ID (Request ctx')) ''succ'') = Inr frame
      \<longrightarrow> mrpc_CallFn_handler U M fn ctx w = (ctx', snd (sendfn frame w')))
   \<and> (U (req_Input (Request ctx)) = Inr inp \<and> fn ctx inp w = (Inr out, ctx', w')
       \<and> (send ctx' = None
          \<or> M out (spec_response_head (req_ID (Request ctx')) ''succ'') = Inl err)
      \<longrightarrow> mrpc_CallFn_handler U M fn ctx w = (ctx', w'))
   \<and> jcallHandlers (jrpc_Fn Marshal JU f jfn jcfg) f = Some (jrpc_Fn_handler Marshal JU jfn)
   \<and> (JU (jreq_Params (jRequest jctx)) = Inl err \<and> jsend jctx = Some jsendfn
       \<and> Marshal \<lparr>jrsp_ID = jreq_ID (jRequest jctx), jrsp_Result = None,
             jrsp_Error = Some \<lparr>err_Code = 406,
               err_Message = Error err @ '' while decoding input'', err_Data = None\<rparr>,
             jrsp_End = False\<rparr> = Inr jframe
      \<longrightarrow> jrpc_Fn_handler Marshal JU jfn jctx jw = (jctx\<lparr>jsend := None\<rparr>, snd (jsendfn jframe jw))
          \<and> jrpc_Fn_handler Marshal JU jfn' jctx jw = jrpc_Fn_handler Marshal JU jfn jctx jw)
   \<and> (JU (jreq_Params (jRequest jctx)) = Inl err
       \<and> (jsend jctx = None
          \<or> Marshal \<lparr>jrsp_ID = jreq_ID (jRequest jctx), jrsp_Result = None,
               jrsp_Error = Some \<lparr>err_Code = 406,
                 err_Message = Error err @ '' while decoding input'', err_Data = None\<rparr>,
               jrsp_End = False\<rparr> = Inl jerr)
      \<longrightarrow> jrpc_Fn_handler Marshal JU jfn jctx jw = (jctx\<lparr>jsend := None\<rparr>, jw)
          \<and> jrpc_Fn_handler Marshal JU jfn' jctx jw = (jctx\<lparr>jsend := None\<rparr>, jw))
   \<and> (JU (jreq_Params (jRequest jctx)) = Inr jinp \<and> jfn jctx jinp jw = (Inl err, jctx', jw')
       \<and> jsend jctx' = Some jsendfn
       \<and> Marshal \<lparr>jrsp_ID = jreq_ID (jRequest jctx'), jrsp_Result = None,
             jrsp_Error = Some \<lparr>err_Code = 500, err_Message = Error err, err_Data = None\<rparr>,
             jrsp_End = False\<rparr> = Inr jframe
      \<longrightarrow> jrpc_Fn_handler Marshal JU jfn jctx jw = (jctx'\<lparr>jsend := None\<rparr>, snd (jsendfn jframe jw')))
   \<and> (JU (jreq_Params (jRequest jctx)) = Inr jinp \<and> jfn jctx jinp jw = (Inl err, jctx', jw')
       \<and> (jsend jctx' = None
          \<or> Marshal \<lparr>jrsp_ID = jreq_ID (jRequest jctx'), jrsp_Result = None,
               jrsp_Error = Some \<lparr>err_Code = 500, err_Message = Error err, err_Data = None\<rparr>,
               jrsp_End = False\<rparr> = Inl jerr)
      \<longrightarrow> jrpc_Fn_handler Marshal JU jfn jctx jw = (jctx'\<lparr>jsend := None\<rparr>, jw'))
   \<and> (JU (jreq_Params (jRequest jctx)) = Inr jinp \<and> jfn jctx jinp jw = (Inr jout, jctx', jw')
       \<and> jsend jctx' = Some jsendfn
       \<and> Marshal \<lparr>jrsp_ID = jreq_ID (jRequest jctx'), jrsp_Result = Some jout, jrsp_Error = None,
             jrsp_End = False\<rparr> = Inr jframe
      \<longrightarrow> jrpc_Fn_handler Marshal JU jfn jctx jw = (jctx', snd (jsendfn jframe jw')))
   \<and> (JU (jreq_Params (jRequest jctx)) = Inr jinp \<and> jfn jctx jinp jw = (Inr jout, jctx', jw')
       \<and> (jsend jctx' = None
          \<or> Marshal \<lparr>jrsp_ID = jreq_ID (jRequest jctx'), jrsp_Result = Some jout,
               jrsp_Error = None, jrsp_End = False\<rparr> = Inl jerr)
      \<longrightarrow> jrpc_Fn_handler Marshal JU jfn jctx jw = (jctx', jw'))"
proof (intro conjI impI)
  show "callHandlers (mrpc_CallFn U M f fn cfg) f = Some (mrpc_CallFn_handler U M fn)"
    by (simp add: mrpc_CallFn_def)
  show "jcallHandlers (jrpc_Fn Marshal JU f jfn jcfg) f = Some (jrpc_Fn_handler Marshal JU jfn)"
    by (simp add: jrpc_Fn_def)
  show "mrpc_CallFn_handler U M fn ctx w =
            (ctx\<lparr>send := None\<rparr>,
             snd (sendfn (spec_fail_frame (req_ID (Request ctx)) 406
                            (Error err @ '' while decoding input'')) w))"
    if "U (req_Input (Request ctx)) = Inl err \<and> send ctx = Some sendfn"
    using that by (simp add: mrpc_CallFn_handler_def mrpc_Fail_frame)
  show "mrpc_CallFn_handler U M fn' ctx w = mrpc_CallFn_handler U M fn ctx w"
    if "U (req_Input (Request ctx)) = Inl err \<and> send ctx = Some sendfn"
    using that by (simp add: mrpc_CallFn_handler_def)
  show "mrpc_CallFn_handler U M fn ctx w = (ctx, w)"
    if "U (req_Input (Request ctx)) = Inl err \<and> send ctx = None"
    using that by (simp add: mrpc_CallFn_handler_def mrpc_Fail_disabled)
  show "mrpc_CallFn_handler U M fn' ctx w = (ctx, w)"
    if "U (req_Input (Request ctx)) = Inl err \<and> send ctx = None"
    using that by (simp add: mrpc_CallFn_handler_def mrpc_Fail_disabled)
  show "mrpc_CallFn_handler U M fn ctx w =
            (ctx'\<lparr>send := None\<rparr>,
             snd (sendfn (spec_fail_frame (req_ID (Request ctx')) 500 (Error err)) w'))"
    if "U (req_Input (Request ctx)) = Inr inp \<and> fn ctx inp w = (Inl err, ctx', w')
       \<and> send ctx' = Some sendfn"
    using that by (simp add: mrpc_CallFn_handler_def mrpc_Fail_frame)
  show "mrpc_CallFn_handler U M fn ctx w = (ctx', w')"
    if "U (req_Input (Request ctx)) = Inr inp \<and> fn ctx inp w = (Inl err, ctx', w')
       \<and> send ctx' = None"
    using that by (simp add: mrpc_CallFn_handler_def mrpc_Fail_disabled)
  show "mrpc_CallFn_handler U M fn ctx w = (ctx', snd (sendfn frame w'))"
    if "U (req_Input (Request ctx)) = Inr inp \<and> fn ctx inp w = (Inr out, ctx', w')
       \<and> send ctx' = Some sendfn
       \<and> M out (spec_response_head (req_ID (Request ctx')) ''succ'') = Inr frame"
    using that by (simp add: mrpc_CallFn_handler_def mrpc_Succ_frame)
  show "mrpc_CallFn_handler U M fn ctx w = (ctx', w')"
    if "U (req_Input (Request ctx)) = Inr inp \<and> fn ctx inp w = (Inr out, ctx', w')
       \<and> (send ctx' = None
          \<or> M out (spec_response_head (req_ID (Request ctx')) ''succ'') = Inl err)"
  proof -
    from that have "snd (mrpc_Succ ctx' (Some (M out)) w') = (ctx', w')"
      by (intro mrpc_Succ_silent [where e = err]) simp
    with that show ?thesis
      by (simp add: mrpc_CallFn_handler_def case_prod_unfold)
  qed
  show "jrpc_Fn_handler Marshal JU jfn jctx jw = (jctx\<lparr>jsend := None\<rparr>, snd (jsendfn jframe jw))"
    if "JU (jreq_Params (jRequest jctx)) = Inl err \<and> jsend jctx = Some jsendfn
       \<and> Marshal \<lparr>jrsp_ID = jreq_ID (jRequest jctx), jrsp_Result = None,
             jrsp_Error = Some \<lparr>err_Code = 406,
               err_Message = Error err @ '' while decoding input'', err_Data = None\<rparr>,
             jrsp_End = False\<rparr> = Inr jframe"
    using that by (simp add: jrpc_Fn_handler_def jrpc_Fail_sends)
  show "jrpc_Fn_handler Marshal JU jfn' jctx jw = jrpc_Fn_handler Marshal JU jfn jctx jw"
    if "JU (jreq_Params (jRequest jctx)) = Inl err \<and> jsend jctx = Some jsendfn
       \<and> Marshal \<lparr>jrsp_ID = jreq_ID (jRequest jctx), jrsp_Result = None,
             jrsp_Error = Some \<lparr>err_Code = 406,
               err_Message = Error err @ '' while decoding input'', err_Data = None\<rparr>,
             jrsp_End = False\<rparr> = Inr jframe"
    using that by (simp add: jrpc_Fn_handler_def)
  have silent406: "jrpc_Fn_handler Marshal JU g jctx jw = (jctx\<lparr>jsend := None\<rparr>, jw)"
    if "JU (jreq_Params (jRequest jctx)) = Inl err
       \<and> (jsend jctx = None
          \<or> Marshal \<lparr>jrsp_ID = jreq_ID (jRequest jctx), jrsp_Result = None,
               jrsp_Error = Some \<lparr>err_Code = 406,
                 err_Message = Error err @ '' while decoding input'', err_Data = None\<rparr>,
               jrsp_End = False\<rparr> = Inl jerr)"
    for g
  proof -
    from that have "snd (jrpc_Fail Marshal jctx 406 (Error err @ '' while decoding input'') jw)
        = (jctx\<lparr>jsend := None\<rparr>, jw)"
      by (intro jrpc_Fail_silent [where e = jerr]) simp
    with that show ?thesis
      by (simp add: jrpc_Fn_handler_def case_prod_unfold)
  qed
  show "jrpc_Fn_handler Marshal JU jfn jctx jw = (jctx\<lparr>jsend := None\<rparr>, jw)"
    if "JU (jreq_Params (jRequest jctx)) = Inl err
       \<and> (jsend jctx = None
          \<or> Marshal \<lparr>jrsp_ID = jreq_ID (jRequest jctx), jrsp_Result = None,
               jrsp_Error = Some \<lparr>err_Code = 406,
                 err_Message = Error err @ '' while decoding input'', err_Data = None\<rparr>,
               jrsp_End = False\<rparr> = Inl jerr)"
    using that by (rule silent406)
  show "jrpc_Fn_handler Marshal JU jfn' jctx jw = (jctx\<lparr>jsend := None\<rparr>, jw)"
    if "JU (jreq_Params (jRequest jctx)) = Inl err
       \<and> (jsend jctx = None
          \<or> Marshal \<lparr>jrsp_ID = jreq_ID (jRequest jctx), jrsp_Result = None,
               jrsp_Error = Some \<lparr>err_Code = 406,
                 err_Message = Error err @ '' while decoding input'', err_Data = None\<rparr>,
               jrsp_End = False\<rparr> = Inl jerr)"
    using that by (rule silent406)
  show "jrpc_Fn_handler Marshal JU jfn jctx jw = (jctx'\<lparr>jsend := None\<rparr>, snd (jsendfn jframe jw'))"
    if "JU (jreq_Params (jRequest jctx)) = Inr jinp \<and> jfn jctx jinp jw = (Inl err, jctx', jw')
       \<and> jsend jctx' = Some jsendfn
       \<and> Marshal \<lparr>jrsp_ID = jreq_ID (jRequest jctx'), jrsp_Result = None,
             jrsp_Error = Some \<lparr>err_Code = 500, err_Message = Error err, err_Data = None\<rparr>,
             jrsp_End = False\<rparr> = Inr jframe"
    using that by (simp add: jrpc_Fn_handler_def jrpc_Fail_sends)
  show "jrpc_Fn_handler Marshal JU jfn jctx jw = (jctx'\<lparr>jsend := None\<rparr>, jw')"
    if "JU (jreq_Params (jRequest jctx)) = Inr jinp \<and> jfn jctx jinp jw = (Inl err, jctx', jw')
       \<and> (jsend jctx' = None
          \<or> Marshal \<lparr>jrsp_ID = jreq_ID (jRequest jctx'), jrsp_Result = None,
               jrsp_Error = Some \<lparr>err_Code = 500, err_Message = Error err, err_Data = None\<rparr>,
               jrsp_End = False\<rparr> = Inl jerr)"
  proof -
    from that have "snd (jrpc_Fail Marshal jctx' 500 (Error err) jw') = (jctx'\<lparr>jsend := None\<rparr>, jw')"
      by (intro jrpc_Fail_silent [where e = jerr]) simp
    with that show ?thesis
      by (simp add: jrpc_Fn_handler_def case_prod_unfold)
  qed
  show "jrpc_Fn_handler Marshal JU jfn jctx jw = (jctx', snd (jsendfn jframe jw'))"
    if "JU (jreq_Params (jRequest jctx)) = Inr jinp \<and> jfn jctx jinp jw = (Inr jout, jctx', jw')
       \<and> jsend jctx' = Some jsendfn
       \<and> Marshal \<lparr>jrsp_ID = jreq_ID (jRequest jctx'), jrsp_Result = Some jout, jrsp_Error = None,
             jrsp_End = False\<rparr> = Inr jframe"
    using that by (simp add: jrpc_Fn_handler_def jrpc_Succ_sends)
  show "jrpc_Fn_handler Marshal JU jfn jctx jw = (jctx', jw')"
    if "JU (jreq_Params (jRequest jctx)) = Inr jinp \<and> jfn jctx jinp jw = (Inr jout, jctx', jw')
       \<and> (jsend jctx' = None
          \<or> Marshal \<lparr>jrsp_ID = jreq_ID (jRequest jctx'), jrsp_Result = Some jout,
               jrsp_Error = None, jrsp_End = False\<rparr> = Inl jerr)"
  proof -
    from that have "snd (jrpc_Succ Marshal jctx' (Some jout) jw') = (jctx', jw')"
      by (intro jrpc_Succ_silent [where e = jerr]) simp
    with that show ?thesis
      by (simp add: jrpc_Fn_handler_def case_prod_unfold)
  qed
qed

text \<open>
  C6 at the sample request, for mrpc and then for jrpc, with the user function that
  greets its input and the one that returns the error \<^verbatim>\<open>boom\<close>. In this order: the
  registration; the request with no input, which does not decode, on a Scope that can
  send (the failure 406) and on one that cannot (nothing is written); the request with
  the input \<^verbatim>\<open>world\<close> and the user function that fails (the failure 500), and the one that
  has ended the Scope itself before it fails (only the frame it wrote itself); the user
  function that succeeds (the success with its greeting), and the success that is not
  written (in mrpc an output that does not encode, in jrpc a user function that has
  failed the request itself). The last lines give the bytes of the frames and the two
  requests.
\<close>

theorem call_handler_outcomes_witness:
  "callHandlers (mrpc_CallFn sample_input_UnmarshalMsg string_MarshalMsg ''printf'' greet (mrpc_init Quote_plain []))
       ''printf''
     = Some (mrpc_CallFn_handler sample_input_UnmarshalMsg string_MarshalMsg greet)
   \<and> mrpc_CallFn_handler sample_input_UnmarshalMsg string_MarshalMsg greet
       (mrpc_For sample_Request (Some log_send)) []
     = (mrpc_For sample_Request None,
        [spec_fail_frame ''2'' 406 ''msgp: too few bytes left to read object while decoding input''])
   \<and> mrpc_CallFn_handler sample_input_UnmarshalMsg string_MarshalMsg greet
       (mrpc_For sample_Request None) ([] :: bytes list)
     = (mrpc_For sample_Request None, [])
   \<and> mrpc_CallFn_handler sample_input_UnmarshalMsg string_MarshalMsg boom
       (mrpc_For world_Request (Some log_send)) []
     = (mrpc_For world_Request None, [spec_fail_frame ''2'' 500 ''boom''])
   \<and> mrpc_CallFn_handler sample_input_UnmarshalMsg string_MarshalMsg end_then_boom
       (mrpc_For world_Request (Some log_send)) []
     = (mrpc_For world_Request None, [AppendNil (spec_response_head ''2'' ''end'')])
   \<and> mrpc_CallFn_handler sample_input_UnmarshalMsg string_MarshalMsg greet
       (mrpc_For world_Request (Some log_send)) []
     = (mrpc_For world_Request (Some log_send),
        [AppendString (spec_response_head ''2'' ''succ'') ''Hello, world''])
   \<and> mrpc_CallFn_handler sample_input_UnmarshalMsg failing_MarshalMsg greet
       (mrpc_For world_Request (Some log_send)) []
     = (mrpc_For world_Request (Some log_send), [])
   \<and> jcallHandlers (jrpc_Fn sample_Marshal sample_input_Unmarshal ''printf'' greet
        (jrpc_init Quote_plain sample_Marshal [])) ''printf''
     = Some (jrpc_Fn_handler sample_Marshal sample_input_Unmarshal greet)
   \<and> jrpc_Fn_handler sample_Marshal sample_input_Unmarshal greet (jrpc_For sample_jRequest (Some log_send)) []
     = (jrpc_For sample_jRequest None,
        [projr (sample_Marshal
                \<lparr>jrsp_ID = ''2'', jrsp_Result = None,
                 jrsp_Error = Some \<lparr>err_Code = 406, err_Message = ''unexpected end of JSON input while decoding input'',
                   err_Data = None\<rparr>,
                 jrsp_End = False\<rparr>)])
   \<and> jrpc_Fn_handler sample_Marshal sample_input_Unmarshal greet (jrpc_For sample_jRequest None) ([] :: bytes list)
     = (jrpc_For sample_jRequest None, [])
   \<and> jrpc_Fn_handler sample_Marshal sample_input_Unmarshal boom (jrpc_For world_jRequest (Some log_send)) []
     = (jrpc_For world_jRequest None,
        [projr (sample_Marshal
                \<lparr>jrsp_ID = ''2'', jrsp_Result = None,
                 jrsp_Error = Some \<lparr>err_Code = 500, err_Message = ''boom'',
                   err_Data = None\<rparr>,
                 jrsp_End = False\<rparr>)])
   \<and> jrpc_Fn_handler sample_Marshal sample_input_Unmarshal fail_then_boom
       (jrpc_For world_jRequest (Some log_send)) []
     = (jrpc_For world_jRequest None,
        [projr (sample_Marshal
                \<lparr>jrsp_ID = ''2'', jrsp_Result = None,
                 jrsp_Error = Some \<lparr>err_Code = 400, err_Message = ''bad'',
                   err_Data = None\<rparr>,
                 jrsp_End = False\<rparr>)])
   \<and> jrpc_Fn_handler sample_Marshal sample_input_Unmarshal greet (jrpc_For world_jRequest (Some log_send)) []
     = (jrpc_For world_jRequest (Some log_send),
        [projr (sample_Marshal
                \<lparr>jrsp_ID = ''2'', jrsp_Result = Some ''Hello, world'',
                 jrsp_Error = None, jrsp_End = False\<rparr>)])
   \<and> jrpc_Fn_handler sample_Marshal sample_input_Unmarshal fail_then_greet
       (jrpc_For world_jRequest (Some log_send)) []
     = (jrpc_For world_jRequest None,
        [projr (sample_Marshal
                \<lparr>jrsp_ID = ''2'', jrsp_Result = None,
                 jrsp_Error = Some \<lparr>err_Code = 400, err_Message = ''bad'',
                   err_Data = None\<rparr>,
                 jrsp_End = False\<rparr>)])
   \<and> spec_fail_frame ''2'' 500 ''boom''
     = [CHR 0x93, CHR 0xA1] @ ''2'' @ [CHR 0xA4] @ ''fail''
       @ [CHR 0x92, CHR 0xD1, CHR 0x01, CHR 0xF4, CHR 0xA4] @ ''boom''
   \<and> spec_fail_frame ''2'' 406 ''msgp: too few bytes left to read object while decoding input''
     = [CHR 0x93, CHR 0xA1] @ ''2'' @ [CHR 0xA4] @ ''fail''
       @ [CHR 0x92, CHR 0xD1, CHR 0x01, CHR 0x96, CHR 0xD9, CHR 0x3C]
       @ ''msgp: too few bytes left to read object while decoding input''
   \<and> AppendString (spec_response_head ''2'' ''succ'') ''Hello, world''
     = [CHR 0x93, CHR 0xA1] @ ''2'' @ [CHR 0xA4] @ ''succ'' @ [CHR 0xAC] @ ''Hello, world''
   \<and> sample_Marshal \<lparr>jrsp_ID = ''2'', jrsp_Result = Some ''Hello, world'',
                 jrsp_Error = None, jrsp_End = False\<rparr>
     = Inr (''{'' @ [CHR 0x22] @ ''id'' @ [CHR 0x22] @ '':'' @ [CHR 0x22] @ ''2'' @ [CHR 0x22]
            @ '','' @ [CHR 0x22] @ ''result'' @ [CHR 0x22] @ '':'' @ [CHR 0x22] @ ''Hello, world'' @ [CHR 0x22]
            @ '','' @ [CHR 0x22] @ ''error'' @ [CHR 0x22] @ '':null,''
            @ [CHR 0x22] @ ''end'' @ [CHR 0x22] @ '':false}'')
   \<and> world_Request
     = \<lparr>req_ID = ''2'', req_Method = ''call'', req_Function = ''nope'',
        req_Input = CHR 0xA5 # ''world''\<rparr>
   \<and> world_jRequest
     = \<lparr>jreq_ID = ''2'', jreq_Method = ''nope'',
        jreq_Params = [CHR 0x22] @ ''world'' @ [CHR 0x22]\<rparr>"
proof -
  note T = call_handler_outcomes
  have A: "callHandlers (mrpc_CallFn sample_input_UnmarshalMsg string_MarshalMsg ''printf'' greet (mrpc_init Quote_plain []))
       ''printf''
     = Some (mrpc_CallFn_handler sample_input_UnmarshalMsg string_MarshalMsg greet)"
    by (rule T [THEN conjunct1])
  have B: "mrpc_CallFn_handler sample_input_UnmarshalMsg string_MarshalMsg greet
       (mrpc_For sample_Request (Some log_send)) []
     = (mrpc_For sample_Request None,
        [spec_fail_frame ''2'' 406 ''msgp: too few bytes left to read object while decoding input''])"
    using T [where U = sample_input_UnmarshalMsg and err = "External ''msgp: too few bytes left to read object''"
        and ctx = "mrpc_For sample_Request (Some log_send)" and sendfn = log_send and w = "[]"
        and M = string_MarshalMsg and fn = greet and fn' = boom,
        THEN conjunct2, THEN conjunct1]
    by (simp add: mrpc_For_def sample_Request_def log_send_def sample_input_UnmarshalMsg_def AppendString_def)
  have B2: "mrpc_CallFn_handler sample_input_UnmarshalMsg string_MarshalMsg greet
       (mrpc_For sample_Request None) ([] :: bytes list)
     = (mrpc_For sample_Request None, [])"
    using T [where U = sample_input_UnmarshalMsg and err = "External ''msgp: too few bytes left to read object''"
        and ctx = "mrpc_For sample_Request None" and w = "[] :: bytes list"
        and M = string_MarshalMsg and fn = greet and fn' = boom,
        THEN conjunct2, THEN conjunct2, THEN conjunct1]
    by (simp add: mrpc_For_def sample_Request_def sample_input_UnmarshalMsg_def AppendString_def)
  have C: "mrpc_CallFn_handler sample_input_UnmarshalMsg string_MarshalMsg boom
       (mrpc_For world_Request (Some log_send)) []
     = (mrpc_For world_Request None, [spec_fail_frame ''2'' 500 ''boom''])"
    using T [where U = sample_input_UnmarshalMsg and err = "External ''boom''" and inp = "''world''"
        and ctx = "mrpc_For world_Request (Some log_send)"
        and ctx' = "mrpc_For world_Request (Some log_send)" and sendfn = log_send
        and w = "[]" and w' = "[]" and M = string_MarshalMsg and fn = boom,
        THEN conjunct2, THEN conjunct2, THEN conjunct2, THEN conjunct1]
    by (simp add: mrpc_For_def sample_Request_def world_Request_def log_send_def
        sample_input_UnmarshalMsg_def boom_def)
  have C2: "mrpc_CallFn_handler sample_input_UnmarshalMsg string_MarshalMsg end_then_boom
       (mrpc_For world_Request (Some log_send)) []
     = (mrpc_For world_Request None, [AppendNil (spec_response_head ''2'' ''end'')])"
    using T [where U = sample_input_UnmarshalMsg and err = "External ''boom''" and inp = "''world''"
        and ctx = "mrpc_For world_Request (Some log_send)"
        and ctx' = "mrpc_For world_Request None"
        and w = "[]" and w' = "[AppendNil (spec_response_head ''2'' ''end'')]"
        and M = string_MarshalMsg and fn = end_then_boom,
        THEN conjunct2, THEN conjunct2, THEN conjunct2, THEN conjunct2, THEN conjunct1]
    by (simp add: mrpc_For_def sample_Request_def world_Request_def log_send_def
        sample_input_UnmarshalMsg_def boom_def end_then_boom_def mrpc_End_def mrpc_Respond_def
        Response_MarshalMsg_def spec_response_head_def)
  have D: "mrpc_CallFn_handler sample_input_UnmarshalMsg string_MarshalMsg greet
       (mrpc_For world_Request (Some log_send)) []
     = (mrpc_For world_Request (Some log_send),
        [AppendString (spec_response_head ''2'' ''succ'') ''Hello, world''])"
    using T [where U = sample_input_UnmarshalMsg and out = "''Hello, world''" and inp = "''world''"
        and ctx = "mrpc_For world_Request (Some log_send)"
        and ctx' = "mrpc_For world_Request (Some log_send)" and sendfn = log_send
        and w = "[]" and w' = "[]" and M = string_MarshalMsg and fn = greet
        and frame = "AppendString (spec_response_head ''2'' ''succ'') ''Hello, world''",
        THEN conjunct2, THEN conjunct2, THEN conjunct2, THEN conjunct2, THEN conjunct2,
        THEN conjunct1]
    by (simp add: mrpc_For_def sample_Request_def world_Request_def log_send_def
        sample_input_UnmarshalMsg_def greet_def string_MarshalMsg_def)
  have D2: "mrpc_CallFn_handler sample_input_UnmarshalMsg failing_MarshalMsg greet
       (mrpc_For world_Request (Some log_send)) []
     = (mrpc_For world_Request (Some log_send), [])"
    using T [where U = sample_input_UnmarshalMsg and out = "''Hello, world''" and inp = "''world''"
        and err = "External ''msgp: type not supported''"
        and ctx = "mrpc_For world_Request (Some log_send)"
        and ctx' = "mrpc_For world_Request (Some log_send)"
        and w = "[]" and w' = "[]" and M = failing_MarshalMsg and fn = greet,
        THEN conjunct2, THEN conjunct2, THEN conjunct2, THEN conjunct2, THEN conjunct2,
        THEN conjunct2, THEN conjunct1]
    by (simp add: mrpc_For_def sample_Request_def world_Request_def sample_input_UnmarshalMsg_def
        greet_def failing_MarshalMsg_def)
  have E: "jcallHandlers (jrpc_Fn sample_Marshal sample_input_Unmarshal ''printf'' greet
        (jrpc_init Quote_plain sample_Marshal [])) ''printf''
     = Some (jrpc_Fn_handler sample_Marshal sample_input_Unmarshal greet)"
    by (rule T [THEN conjunct2, THEN conjunct2, THEN conjunct2, THEN conjunct2, THEN conjunct2, THEN conjunct2, THEN conjunct2, THEN conjunct1])
  have F: "jrpc_Fn_handler sample_Marshal sample_input_Unmarshal greet (jrpc_For sample_jRequest (Some log_send)) []
     = (jrpc_For sample_jRequest None,
        [projr (sample_Marshal
                \<lparr>jrsp_ID = ''2'', jrsp_Result = None,
                 jrsp_Error = Some \<lparr>err_Code = 406, err_Message = ''unexpected end of JSON input while decoding input'',
                   err_Data = None\<rparr>,
                 jrsp_End = False\<rparr>)])"
    using T [where JU = sample_input_Unmarshal and err = "External ''unexpected end of JSON input''"
        and jctx = "jrpc_For sample_jRequest (Some log_send)" and jsendfn = log_send and jw = "[]"
        and Marshal = sample_Marshal and jfn = greet and jfn' = boom
        and jframe = "projr (sample_Marshal
                \<lparr>jrsp_ID = ''2'', jrsp_Result = None,
                 jrsp_Error = Some \<lparr>err_Code = 406, err_Message = ''unexpected end of JSON input while decoding input'',
                   err_Data = None\<rparr>,
                 jrsp_End = False\<rparr>)",
        THEN conjunct2, THEN conjunct2, THEN conjunct2, THEN conjunct2, THEN conjunct2,
        THEN conjunct2, THEN conjunct2, THEN conjunct2, THEN conjunct1]
    by (simp add: jrpc_For_def sample_jRequest_def log_send_def sample_input_Unmarshal_def
        sample_Marshal_def json_string_def)
  have F2: "jrpc_Fn_handler sample_Marshal sample_input_Unmarshal greet (jrpc_For sample_jRequest None) ([] :: bytes list)
     = (jrpc_For sample_jRequest None, [])"
    using T [where JU = sample_input_Unmarshal and err = "External ''unexpected end of JSON input''"
        and jctx = "jrpc_For sample_jRequest None" and jw = "[] :: bytes list"
        and Marshal = sample_Marshal and jfn = greet and jfn' = boom,
        THEN conjunct2, THEN conjunct2, THEN conjunct2, THEN conjunct2, THEN conjunct2,
        THEN conjunct2, THEN conjunct2, THEN conjunct2, THEN conjunct2, THEN conjunct1]
    by (simp add: jrpc_For_def sample_jRequest_def sample_input_Unmarshal_def json_string_def)
  have G: "jrpc_Fn_handler sample_Marshal sample_input_Unmarshal boom (jrpc_For world_jRequest (Some log_send)) []
     = (jrpc_For world_jRequest None,
        [projr (sample_Marshal
                \<lparr>jrsp_ID = ''2'', jrsp_Result = None,
                 jrsp_Error = Some \<lparr>err_Code = 500, err_Message = ''boom'',
                   err_Data = None\<rparr>,
                 jrsp_End = False\<rparr>)])"
    using T [where JU = sample_input_Unmarshal and err = "External ''boom''" and jinp = "''world''"
        and jctx = "jrpc_For world_jRequest (Some log_send)"
        and jctx' = "jrpc_For world_jRequest (Some log_send)" and jsendfn = log_send
        and jw = "[]" and jw' = "[]" and Marshal = sample_Marshal and jfn = boom
        and jframe = "projr (sample_Marshal
                \<lparr>jrsp_ID = ''2'', jrsp_Result = None,
                 jrsp_Error = Some \<lparr>err_Code = 500, err_Message = ''boom'',
                   err_Data = None\<rparr>,
                 jrsp_End = False\<rparr>)",
        THEN conjunct2, THEN conjunct2, THEN conjunct2, THEN conjunct2, THEN conjunct2,
        THEN conjunct2, THEN conjunct2, THEN conjunct2, THEN conjunct2, THEN conjunct2,
        THEN conjunct1]
    by (simp add: jrpc_For_def sample_jRequest_def world_jRequest_def log_send_def
        sample_input_Unmarshal_def sample_Marshal_def boom_def)
  have G2: "jrpc_Fn_handler sample_Marshal sample_input_Unmarshal fail_then_boom
       (jrpc_For world_jRequest (Some log_send)) []
     = (jrpc_For world_jRequest None,
        [projr (sample_Marshal
                \<lparr>jrsp_ID = ''2'', jrsp_Result = None,
                 jrsp_Error = Some \<lparr>err_Code = 400, err_Message = ''bad'',
                   err_Data = None\<rparr>,
                 jrsp_End = False\<rparr>)])"
    using T [where JU = sample_input_Unmarshal and err = "External ''boom''" and jinp = "''world''"
        and jctx = "jrpc_For world_jRequest (Some log_send)"
        and jctx' = "jrpc_For world_jRequest None" and jw = "[]"
        and jw' = "[projr (sample_Marshal
                \<lparr>jrsp_ID = ''2'', jrsp_Result = None,
                 jrsp_Error = Some \<lparr>err_Code = 400, err_Message = ''bad'',
                   err_Data = None\<rparr>,
                 jrsp_End = False\<rparr>)]"
        and Marshal = sample_Marshal and jfn = fail_then_boom,
        THEN conjunct2, THEN conjunct2, THEN conjunct2, THEN conjunct2, THEN conjunct2,
        THEN conjunct2, THEN conjunct2, THEN conjunct2, THEN conjunct2, THEN conjunct2,
        THEN conjunct2, THEN conjunct1]
    by (simp add: jrpc_For_def sample_jRequest_def world_jRequest_def log_send_def
        sample_input_Unmarshal_def sample_Marshal_def boom_def fail_then_boom_def jrpc_Fail_def
        jrpc_respond_def)
  have H: "jrpc_Fn_handler sample_Marshal sample_input_Unmarshal greet (jrpc_For world_jRequest (Some log_send)) []
     = (jrpc_For world_jRequest (Some log_send),
        [projr (sample_Marshal
                \<lparr>jrsp_ID = ''2'', jrsp_Result = Some ''Hello, world'',
                 jrsp_Error = None, jrsp_End = False\<rparr>)])"
    using T [where JU = sample_input_Unmarshal and jout = "''Hello, world''" and jinp = "''world''"
        and jctx = "jrpc_For world_jRequest (Some log_send)"
        and jctx' = "jrpc_For world_jRequest (Some log_send)" and jsendfn = log_send
        and jw = "[]" and jw' = "[]" and Marshal = sample_Marshal and jfn = greet
        and jframe = "projr (sample_Marshal
                \<lparr>jrsp_ID = ''2'', jrsp_Result = Some ''Hello, world'',
                 jrsp_Error = None, jrsp_End = False\<rparr>)",
        THEN conjunct2, THEN conjunct2, THEN conjunct2, THEN conjunct2, THEN conjunct2,
        THEN conjunct2, THEN conjunct2, THEN conjunct2, THEN conjunct2, THEN conjunct2,
        THEN conjunct2, THEN conjunct2, THEN conjunct1]
    by (simp add: jrpc_For_def sample_jRequest_def world_jRequest_def log_send_def
        sample_input_Unmarshal_def sample_Marshal_def greet_def)
  have H2: "jrpc_Fn_handler sample_Marshal sample_input_Unmarshal fail_then_greet
       (jrpc_For world_jRequest (Some log_send)) []
     = (jrpc_For world_jRequest None,
        [projr (sample_Marshal
                \<lparr>jrsp_ID = ''2'', jrsp_Result = None,
                 jrsp_Error = Some \<lparr>err_Code = 400, err_Message = ''bad'',
                   err_Data = None\<rparr>,
                 jrsp_End = False\<rparr>)])"
    using T [where JU = sample_input_Unmarshal and jout = "''Hello, world''" and jinp = "''world''"
        and jctx = "jrpc_For world_jRequest (Some log_send)"
        and jctx' = "jrpc_For world_jRequest None" and jw = "[]"
        and jw' = "[projr (sample_Marshal
                \<lparr>jrsp_ID = ''2'', jrsp_Result = None,
                 jrsp_Error = Some \<lparr>err_Code = 400, err_Message = ''bad'',
                   err_Data = None\<rparr>,
                 jrsp_End = False\<rparr>)]"
        and Marshal = sample_Marshal and jfn = fail_then_greet,
        THEN conjunct2, THEN conjunct2, THEN conjunct2, THEN conjunct2, THEN conjunct2,
        THEN conjunct2, THEN conjunct2, THEN conjunct2, THEN conjunct2, THEN conjunct2,
        THEN conjunct2, THEN conjunct2, THEN conjunct2]
    by (simp add: jrpc_For_def sample_jRequest_def world_jRequest_def log_send_def
        sample_input_Unmarshal_def sample_Marshal_def greet_def fail_then_greet_def jrpc_Fail_def
        jrpc_respond_def)
  have X1: "spec_fail_frame ''2'' 500 ''boom''
     = [CHR 0x93, CHR 0xA1] @ ''2'' @ [CHR 0xA4] @ ''fail''
       @ [CHR 0x92, CHR 0xD1, CHR 0x01, CHR 0xF4, CHR 0xA4] @ ''boom''"
    by code_simp
  have X2: "spec_fail_frame ''2'' 406 ''msgp: too few bytes left to read object while decoding input''
     = [CHR 0x93, CHR 0xA1] @ ''2'' @ [CHR 0xA4] @ ''fail''
       @ [CHR 0x92, CHR 0xD1, CHR 0x01, CHR 0x96, CHR 0xD9, CHR 0x3C]
       @ ''msgp: too few bytes left to read object while decoding input''"
    by code_simp
  have X3: "AppendString (spec_response_head ''2'' ''succ'') ''Hello, world''
     = [CHR 0x93, CHR 0xA1] @ ''2'' @ [CHR 0xA4] @ ''succ'' @ [CHR 0xAC] @ ''Hello, world''"
    by code_simp
  have X4: "sample_Marshal \<lparr>jrsp_ID = ''2'', jrsp_Result = Some ''Hello, world'',
                 jrsp_Error = None, jrsp_End = False\<rparr>
     = Inr (''{'' @ [CHR 0x22] @ ''id'' @ [CHR 0x22] @ '':'' @ [CHR 0x22] @ ''2'' @ [CHR 0x22]
            @ '','' @ [CHR 0x22] @ ''result'' @ [CHR 0x22] @ '':'' @ [CHR 0x22] @ ''Hello, world'' @ [CHR 0x22]
            @ '','' @ [CHR 0x22] @ ''error'' @ [CHR 0x22] @ '':null,''
            @ [CHR 0x22] @ ''end'' @ [CHR 0x22] @ '':false}'')"
    by code_simp
  have X5: "world_Request
     = \<lparr>req_ID = ''2'', req_Method = ''call'', req_Function = ''nope'',
        req_Input = CHR 0xA5 # ''world''\<rparr>"
    by code_simp
  have X6: "world_jRequest
     = \<lparr>jreq_ID = ''2'', jreq_Method = ''nope'',
        jreq_Params = [CHR 0x22] @ ''world'' @ [CHR 0x22]\<rparr>"
    by code_simp
  show ?thesis
    by (intro conjI A B B2 C C2 D D2 E F F2 G G2 H H2 X1 X2 X3 X4 X5 X6)
qed

section \<open>The order of the hooks\<close>

lemma items_in_range: "deps_ok hs d \<Longrightarrow> j \<in> set (items hs d i) \<Longrightarrow> j < length hs"
  by (auto simp: deps_ok_def items_def split: option.splits)

lemma place_Suc:
  "place hs d (Suc fuel) i (p, ord) =
     (if p ! i then Some (p, ord)
      else (case place_items hs d fuel (items hs d i) (p[i := True], ord) of
              None \<Rightarrow> None
            | Some (p', ord') \<Rightarrow> Some (p', ord' @ [hs ! i])))"
  by (simp add: items_def split: option.splits)

lemma place_items_Cons:
  "place_items hs d fuel (j # js) st =
     (case place hs d fuel j st of None \<Rightarrow> None | Some st' \<Rightarrow> place_items hs d fuel js st')"
  by simp

lemma place_zero: "place hs d 0 i st = None"
  by simp

lemma place_items_Nil: "place_items hs d fuel [] st = Some st"
  by simp

declare place.simps [simp del] place_items.simps [simp del]

lemma place_induct:
  assumes "\<And>i st. P 0 i st"
    and "\<And>fuel i p ord. (\<not> p ! i \<Longrightarrow> Q fuel (items hs d i) (p[i := True], ord)) \<Longrightarrow> P (Suc fuel) i (p, ord)"
    and "\<And>fuel st. Q fuel [] st"
    and "\<And>fuel j js st. P fuel j st \<Longrightarrow> (\<And>st'. place hs d fuel j st = Some st' \<Longrightarrow> Q fuel js st')
          \<Longrightarrow> Q fuel (j # js) st"
  shows "P fuel i st \<and> Q fuel js st"
proof -
  show "P fuel i st \<and> Q fuel js st"
  proof (induction fuel arbitrary: i st js)
    case 0
    have q: "Q 0 js st" for js st
    proof (induction js arbitrary: st)
      case Nil
      show ?case by (rule assms(3))
    next
      case (Cons j js)
      show ?case by (rule assms(4) [OF assms(1)]) (rule Cons)
    qed
    show ?case using assms(1) q by blast
  next
    case (Suc fuel)
    have p: "P (Suc fuel) i st" for i st
    proof (cases st)
      case (Pair p ord)
      show ?thesis unfolding Pair
        by (rule assms(2)) (use Suc in blast)
    qed
    have q: "Q (Suc fuel) js st" for js st
    proof (induction js arbitrary: st)
      case Nil
      show ?case by (rule assms(3))
    next
      case (Cons j js)
      show ?case by (rule assms(4) [OF p]) (rule Cons)
    qed
    show ?case using p q by blast
  qed
qed

lemma grows_refl: "length (fst st) = length hs \<Longrightarrow> grows hs st st"
  by (simp add: grows_def)

lemma grows_trans: "grows hs st st1 \<Longrightarrow> grows hs st1 st2 \<Longrightarrow> grows hs st st2"
  by (auto simp: grows_def)

lemma grows_update:
  "length p = length hs \<Longrightarrow> i < length hs \<Longrightarrow> grows hs (p, ord) (p[i := True], ord)"
  by (simp add: grows_def nth_list_update)

lemma grows_snoc: "grows hs st (p', ord') \<Longrightarrow> grows hs st (p', ord' @ [x])"
  by (auto simp: grows_def)

lemma place_grows_aux:
  assumes ok: "deps_ok hs d"
  shows "(length (fst st) = length hs \<longrightarrow> i < length hs \<longrightarrow>
           (\<forall>st'. place hs d fuel i st = Some st' \<longrightarrow> grows hs st st' \<and> fst st' ! i))
       \<and> (length (fst st) = length hs \<longrightarrow> (\<forall>j \<in> set js. j < length hs) \<longrightarrow>
           (\<forall>st'. place_items hs d fuel js st = Some st' \<longrightarrow>
              grows hs st st' \<and> (\<forall>j \<in> set js. fst st' ! j)))"
proof (rule place_induct [where hs = hs and d = d
      and P = "\<lambda>fuel i st. length (fst st) = length hs \<longrightarrow> i < length hs \<longrightarrow>
           (\<forall>st'. place hs d fuel i st = Some st' \<longrightarrow> grows hs st st' \<and> fst st' ! i)"
      and Q = "\<lambda>fuel js st. length (fst st) = length hs \<longrightarrow> (\<forall>j \<in> set js. j < length hs) \<longrightarrow>
           (\<forall>st'. place_items hs d fuel js st = Some st' \<longrightarrow>
              grows hs st st' \<and> (\<forall>j \<in> set js. fst st' ! j))"])
  fix i st
  show "length (fst st) = length hs \<longrightarrow> i < length hs \<longrightarrow>
           (\<forall>st'. place hs d 0 i st = Some st' \<longrightarrow> grows hs st st' \<and> fst st' ! i)"
    by (simp add: place_zero)
next
  fix fuel i p ord
  assume IH: "\<not> p ! i \<Longrightarrow>
      length (fst (p[i := True], ord)) = length hs \<longrightarrow> (\<forall>j \<in> set (items hs d i). j < length hs) \<longrightarrow>
           (\<forall>st'. place_items hs d fuel (items hs d i) (p[i := True], ord) = Some st' \<longrightarrow>
              grows hs (p[i := True], ord) st' \<and> (\<forall>j \<in> set (items hs d i). fst st' ! j))"
  show "length (fst (p, ord)) = length hs \<longrightarrow> i < length hs \<longrightarrow>
           (\<forall>st'. place hs d (Suc fuel) i (p, ord) = Some st' \<longrightarrow> grows hs (p, ord) st' \<and> fst st' ! i)"
  proof (intro impI allI)
    fix st'
    assume len: "length (fst (p, ord)) = length hs" and i: "i < length hs"
      and run: "place hs d (Suc fuel) i (p, ord) = Some st'"
    show "grows hs (p, ord) st' \<and> fst st' ! i"
    proof (cases "p ! i")
      case True
      with run have "st' = (p, ord)" by (simp add: place_Suc)
      with True len show ?thesis by (simp add: grows_refl)
    next
      case False
      with run obtain p2 o2 where
        inner: "place_items hs d fuel (items hs d i) (p[i := True], ord) = Some (p2, o2)"
        and st': "st' = (p2, o2 @ [hs ! i])"
        by (auto simp: place_Suc split: option.splits)
      from IH [OF False] len ok inner have g: "grows hs (p[i := True], ord) (p2, o2)"
        by (simp add: items_in_range)
      from len i have "grows hs (p, ord) (p[i := True], ord)"
        by (simp add: grows_update)
      from this g have "grows hs (p, ord) (p2, o2)" by (rule grows_trans)
      moreover from g len i have "p2 ! i" by (simp add: grows_def)
      ultimately show ?thesis by (simp add: st' grows_snoc)
    qed
  qed
next
  fix fuel st
  show "length (fst st) = length hs \<longrightarrow> (\<forall>j \<in> set []. j < length hs) \<longrightarrow>
           (\<forall>st'. place_items hs d fuel [] st = Some st' \<longrightarrow>
              grows hs st st' \<and> (\<forall>j \<in> set []. fst st' ! j))"
    by (simp add: grows_refl place_items_Nil)
next
  fix fuel j js st
  assume IHp: "length (fst st) = length hs \<longrightarrow> j < length hs \<longrightarrow>
           (\<forall>st'. place hs d fuel j st = Some st' \<longrightarrow> grows hs st st' \<and> fst st' ! j)"
    and IHq: "\<And>st1. place hs d fuel j st = Some st1 \<Longrightarrow>
        length (fst st1) = length hs \<longrightarrow> (\<forall>j \<in> set js. j < length hs) \<longrightarrow>
           (\<forall>st'. place_items hs d fuel js st1 = Some st' \<longrightarrow>
              grows hs st1 st' \<and> (\<forall>j \<in> set js. fst st' ! j))"
  show "length (fst st) = length hs \<longrightarrow> (\<forall>j \<in> set (j # js). j < length hs) \<longrightarrow>
           (\<forall>st'. place_items hs d fuel (j # js) st = Some st' \<longrightarrow>
              grows hs st st' \<and> (\<forall>j \<in> set (j # js). fst st' ! j))"
  proof (intro impI allI)
    fix st'
    assume len: "length (fst st) = length hs" and range: "\<forall>j \<in> set (j # js). j < length hs"
      and run: "place_items hs d fuel (j # js) st = Some st'"
    from run obtain st1 where first: "place hs d fuel j st = Some st1"
      and rest: "place_items hs d fuel js st1 = Some st'"
      by (auto simp: place_items_Cons split: option.splits)
    from IHp len range first have g1: "grows hs st st1" and j: "fst st1 ! j" by simp_all
    from g1 have len1: "length (fst st1) = length hs" by (simp add: grows_def)
    from IHq [OF first] len1 range rest
    have g2: "grows hs st1 st'" and js: "\<forall>j \<in> set js. fst st' ! j" by simp_all
    from g1 g2 have "grows hs st st'" by (rule grows_trans)
    moreover from g2 j have "fst st' ! j" by (simp add: grows_def)
    ultimately show "grows hs st st' \<and> (\<forall>j \<in> set (j # js). fst st' ! j)"
      using js by simp
  qed
qed

lemma place_grows:
  "deps_ok hs d \<Longrightarrow> length (fst st) = length hs \<Longrightarrow> i < length hs \<Longrightarrow>
   place hs d fuel i st = Some st' \<Longrightarrow> grows hs st st' \<and> fst st' ! i"
  using place_grows_aux [of hs d st i fuel] by blast

lemma place_items_grows:
  "deps_ok hs d \<Longrightarrow> length (fst st) = length hs \<Longrightarrow> \<forall>j \<in> set js. j < length hs \<Longrightarrow>
   place_items hs d fuel js st = Some st' \<Longrightarrow> grows hs st st' \<and> (\<forall>j \<in> set js. fst st' ! j)"
  using place_grows_aux [of hs d st _ fuel js] by blast

lemma unplaced_mono: "grows hs st st' \<Longrightarrow> unplaced hs (fst st') \<le> unplaced hs (fst st)"
  unfolding unplaced_def by (rule card_mono) (auto simp: grows_def)

lemma unplaced_update:
  assumes "length p = length hs" "i < length hs" "\<not> p ! i"
  shows "unplaced hs (p[i := True]) < unplaced hs p"
  unfolding unplaced_def
proof (rule psubset_card_mono)
  show "finite {k. k < length hs \<and> \<not> p ! k}" by simp
  have "i \<in> {k. k < length hs \<and> \<not> p ! k}" using assms by simp
  moreover have "i \<notin> {k. k < length hs \<and> \<not> p[i := True] ! k}" using assms by simp
  moreover have "{k. k < length hs \<and> \<not> p[i := True] ! k} \<subseteq> {k. k < length hs \<and> \<not> p ! k}"
    using assms by (auto simp: nth_list_update split: if_splits)
  ultimately show "{k. k < length hs \<and> \<not> p[i := True] ! k} \<subset> {k. k < length hs \<and> \<not> p ! k}"
    by blast
qed

lemma place_total_aux:
  assumes ok: "deps_ok hs d"
  shows "(length (fst st) = length hs \<longrightarrow> i < length hs \<longrightarrow> unplaced hs (fst st) < fuel \<longrightarrow>
           place hs d fuel i st \<noteq> None)
       \<and> (length (fst st) = length hs \<longrightarrow> (\<forall>j \<in> set js. j < length hs) \<longrightarrow>
           unplaced hs (fst st) < fuel \<longrightarrow> place_items hs d fuel js st \<noteq> None)"
proof (rule place_induct [where hs = hs and d = d
      and P = "\<lambda>fuel i st. length (fst st) = length hs \<longrightarrow> i < length hs \<longrightarrow>
           unplaced hs (fst st) < fuel \<longrightarrow> place hs d fuel i st \<noteq> None"
      and Q = "\<lambda>fuel js st. length (fst st) = length hs \<longrightarrow> (\<forall>j \<in> set js. j < length hs) \<longrightarrow>
           unplaced hs (fst st) < fuel \<longrightarrow> place_items hs d fuel js st \<noteq> None"])
  fix i st
  show "length (fst st) = length hs \<longrightarrow> i < length hs \<longrightarrow> unplaced hs (fst st) < 0 \<longrightarrow>
           place hs d 0 i st \<noteq> None"
    by simp
next
  fix fuel i p ord
  assume IH: "\<not> p ! i \<Longrightarrow>
      length (fst (p[i := True], ord)) = length hs \<longrightarrow> (\<forall>j \<in> set (items hs d i). j < length hs) \<longrightarrow>
        unplaced hs (fst (p[i := True], ord)) < fuel \<longrightarrow>
        place_items hs d fuel (items hs d i) (p[i := True], ord) \<noteq> None"
  show "length (fst (p, ord)) = length hs \<longrightarrow> i < length hs \<longrightarrow> unplaced hs (fst (p, ord)) < Suc fuel \<longrightarrow>
           place hs d (Suc fuel) i (p, ord) \<noteq> None"
  proof (intro impI)
    assume len: "length (fst (p, ord)) = length hs" and i: "i < length hs"
      and fuel: "unplaced hs (fst (p, ord)) < Suc fuel"
    show "place hs d (Suc fuel) i (p, ord) \<noteq> None"
    proof (cases "p ! i")
      case True
      then show ?thesis by (simp add: place_Suc)
    next
      case False
      from len i False have "unplaced hs (p[i := True]) < unplaced hs p"
        by (simp add: unplaced_update)
      with fuel have "unplaced hs (p[i := True]) < fuel" by simp
      with IH [OF False] len ok
      have "place_items hs d fuel (items hs d i) (p[i := True], ord) \<noteq> None"
        by (simp add: items_in_range)
      with False show ?thesis by (auto simp: place_Suc split: option.splits)
    qed
  qed
next
  fix fuel st
  show "length (fst st) = length hs \<longrightarrow> (\<forall>j \<in> set []. j < length hs) \<longrightarrow>
           unplaced hs (fst st) < fuel \<longrightarrow> place_items hs d fuel [] st \<noteq> None"
    by (simp add: place_items_Nil)
next
  fix fuel j js st
  assume IHp: "length (fst st) = length hs \<longrightarrow> j < length hs \<longrightarrow>
           unplaced hs (fst st) < fuel \<longrightarrow> place hs d fuel j st \<noteq> None"
    and IHq: "\<And>st1. place hs d fuel j st = Some st1 \<Longrightarrow>
        length (fst st1) = length hs \<longrightarrow> (\<forall>j \<in> set js. j < length hs) \<longrightarrow>
           unplaced hs (fst st1) < fuel \<longrightarrow> place_items hs d fuel js st1 \<noteq> None"
  show "length (fst st) = length hs \<longrightarrow> (\<forall>j \<in> set (j # js). j < length hs) \<longrightarrow>
           unplaced hs (fst st) < fuel \<longrightarrow> place_items hs d fuel (j # js) st \<noteq> None"
  proof (intro impI)
    assume len: "length (fst st) = length hs" and range: "\<forall>j \<in> set (j # js). j < length hs"
      and fuel: "unplaced hs (fst st) < fuel"
    from IHp len range fuel obtain st1 where first: "place hs d fuel j st = Some st1"
      by auto
    from place_grows [OF ok len _ first] range have g: "grows hs st st1" by simp
    then have len1: "length (fst st1) = length hs" by (simp add: grows_def)
    from unplaced_mono [OF g] fuel have "unplaced hs (fst st1) < fuel" by simp
    with IHq [OF first] len1 range have "place_items hs d fuel js st1 \<noteq> None" by simp
    with first show "place_items hs d fuel (j # js) st \<noteq> None"
      by (simp add: place_items_Cons)
  qed
qed

lemma place_items_total:
  "deps_ok hs d \<Longrightarrow> length (fst st) = length hs \<Longrightarrow> \<forall>j \<in> set js. j < length hs \<Longrightarrow>
   unplaced hs (fst st) < fuel \<Longrightarrow> \<exists>st'. place_items hs d fuel js st = Some st'"
  using place_total_aux [of hs d st _ fuel js] by blast

lemma placed_set_update:
  "length p = length hs \<Longrightarrow> i < length hs \<Longrightarrow> placed_set hs (p[i := True]) = insert i (placed_set hs p)"
  by (auto simp: placed_set_def nth_list_update)

lemma placed_set_mono: "grows hs st st' \<Longrightarrow> placed_set hs (fst st) \<subseteq> placed_set hs (fst st')"
  by (auto simp: placed_set_def grows_def)

lemma place_emits_aux:
  assumes ok: "deps_ok hs d" and tg: "tagged hs"
  shows "(length (fst st) = length hs \<longrightarrow> i < length hs \<longrightarrow> distinct (map item (snd st)) \<longrightarrow>
            emitted (snd st) \<subseteq> placed_set hs (fst st) \<longrightarrow>
           (\<forall>st'. place hs d fuel i st = Some st' \<longrightarrow>
              distinct (map item (snd st'))
              \<and> emitted (snd st') = emitted (snd st) \<union> (placed_set hs (fst st') - placed_set hs (fst st))))
       \<and> (length (fst st) = length hs \<longrightarrow> (\<forall>j \<in> set js. j < length hs) \<longrightarrow>
            distinct (map item (snd st)) \<longrightarrow> emitted (snd st) \<subseteq> placed_set hs (fst st) \<longrightarrow>
           (\<forall>st'. place_items hs d fuel js st = Some st' \<longrightarrow>
              distinct (map item (snd st'))
              \<and> emitted (snd st') = emitted (snd st) \<union> (placed_set hs (fst st') - placed_set hs (fst st))))"
proof (rule place_induct [where hs = hs and d = d
      and P = "\<lambda>fuel i st. length (fst st) = length hs \<longrightarrow> i < length hs \<longrightarrow>
            distinct (map item (snd st)) \<longrightarrow> emitted (snd st) \<subseteq> placed_set hs (fst st) \<longrightarrow>
           (\<forall>st'. place hs d fuel i st = Some st' \<longrightarrow>
              distinct (map item (snd st'))
              \<and> emitted (snd st') = emitted (snd st) \<union> (placed_set hs (fst st') - placed_set hs (fst st)))"
      and Q = "\<lambda>fuel js st. length (fst st) = length hs \<longrightarrow> (\<forall>j \<in> set js. j < length hs) \<longrightarrow>
            distinct (map item (snd st)) \<longrightarrow> emitted (snd st) \<subseteq> placed_set hs (fst st) \<longrightarrow>
           (\<forall>st'. place_items hs d fuel js st = Some st' \<longrightarrow>
              distinct (map item (snd st'))
              \<and> emitted (snd st') = emitted (snd st) \<union> (placed_set hs (fst st') - placed_set hs (fst st)))"])
  fix i st
  show "length (fst st) = length hs \<longrightarrow> i < length hs \<longrightarrow>
            distinct (map item (snd st)) \<longrightarrow> emitted (snd st) \<subseteq> placed_set hs (fst st) \<longrightarrow>
           (\<forall>st'. place hs d 0 i st = Some st' \<longrightarrow>
              distinct (map item (snd st'))
              \<and> emitted (snd st') = emitted (snd st) \<union> (placed_set hs (fst st') - placed_set hs (fst st)))"
    by (simp add: place_zero)
next
  fix fuel i p ord
  assume IH: "\<not> p ! i \<Longrightarrow>
      length (fst (p[i := True], ord)) = length hs \<longrightarrow> (\<forall>j \<in> set (items hs d i). j < length hs) \<longrightarrow>
            distinct (map item (snd (p[i := True], ord))) \<longrightarrow>
            emitted (snd (p[i := True], ord)) \<subseteq> placed_set hs (fst (p[i := True], ord)) \<longrightarrow>
           (\<forall>st'. place_items hs d fuel (items hs d i) (p[i := True], ord) = Some st' \<longrightarrow>
              distinct (map item (snd st'))
              \<and> emitted (snd st') = emitted (snd (p[i := True], ord))
                  \<union> (placed_set hs (fst st') - placed_set hs (fst (p[i := True], ord))))"
  show "length (fst (p, ord)) = length hs \<longrightarrow> i < length hs \<longrightarrow>
            distinct (map item (snd (p, ord))) \<longrightarrow> emitted (snd (p, ord)) \<subseteq> placed_set hs (fst (p, ord)) \<longrightarrow>
           (\<forall>st'. place hs d (Suc fuel) i (p, ord) = Some st' \<longrightarrow>
              distinct (map item (snd st'))
              \<and> emitted (snd st') = emitted (snd (p, ord)) \<union> (placed_set hs (fst st') - placed_set hs (fst (p, ord))))"
  proof (intro impI allI)
    fix st'
    assume len: "length (fst (p, ord)) = length hs" and i: "i < length hs"
      and dist: "distinct (map item (snd (p, ord)))"
      and sub: "emitted (snd (p, ord)) \<subseteq> placed_set hs (fst (p, ord))"
      and run: "place hs d (Suc fuel) i (p, ord) = Some st'"
    show "distinct (map item (snd st'))
              \<and> emitted (snd st') = emitted (snd (p, ord)) \<union> (placed_set hs (fst st') - placed_set hs (fst (p, ord)))"
    proof (cases "p ! i")
      case True
      with run have "st' = (p, ord)" by (simp add: place_Suc)
      with dist show ?thesis by simp
    next
      case False
      with run obtain p2 o2 where
        inner: "place_items hs d fuel (items hs d i) (p[i := True], ord) = Some (p2, o2)"
        and st': "st' = (p2, o2 @ [hs ! i])"
        by (auto simp: place_Suc split: option.splits)
      have ps1: "placed_set hs (p[i := True]) = insert i (placed_set hs p)"
        using len i by (simp add: placed_set_update)
      have notin: "i \<notin> placed_set hs p" using False by (simp add: placed_set_def)
      from IH [OF False] len ok dist sub inner ps1
      have d2: "distinct (map item o2)"
        and e2: "emitted o2 = emitted ord \<union> (placed_set hs p2 - insert i (placed_set hs p))"
        by (auto simp: items_in_range)
      have "grows hs (p[i := True], ord) (p2, o2)"
        using place_items_grows [OF ok _ _ inner] len ok by (simp add: items_in_range)
      from placed_set_mono [OF this] ps1 have in2: "i \<in> placed_set hs p2" by auto
      have it: "item (hs ! i) = i" using tg i by (simp add: tagged_def)
      have "i \<notin> emitted o2" using e2 sub notin by auto
      with d2 it have "distinct (map item (o2 @ [hs ! i]))" by (simp add: emitted_def)
      moreover have "emitted (o2 @ [hs ! i]) = emitted ord \<union> (placed_set hs p2 - placed_set hs p)"
        using e2 it in2 notin by (auto simp: emitted_def)
      ultimately show ?thesis by (simp add: st')
    qed
  qed
next
  fix fuel st
  show "length (fst st) = length hs \<longrightarrow> (\<forall>j \<in> set []. j < length hs) \<longrightarrow>
            distinct (map item (snd st)) \<longrightarrow> emitted (snd st) \<subseteq> placed_set hs (fst st) \<longrightarrow>
           (\<forall>st'. place_items hs d fuel [] st = Some st' \<longrightarrow>
              distinct (map item (snd st'))
              \<and> emitted (snd st') = emitted (snd st) \<union> (placed_set hs (fst st') - placed_set hs (fst st)))"
    by (simp add: place_items_Nil)
next
  fix fuel j js st
  assume IHp: "length (fst st) = length hs \<longrightarrow> j < length hs \<longrightarrow>
            distinct (map item (snd st)) \<longrightarrow> emitted (snd st) \<subseteq> placed_set hs (fst st) \<longrightarrow>
           (\<forall>st'. place hs d fuel j st = Some st' \<longrightarrow>
              distinct (map item (snd st'))
              \<and> emitted (snd st') = emitted (snd st) \<union> (placed_set hs (fst st') - placed_set hs (fst st)))"
    and IHq: "\<And>st1. place hs d fuel j st = Some st1 \<Longrightarrow>
        length (fst st1) = length hs \<longrightarrow> (\<forall>j \<in> set js. j < length hs) \<longrightarrow>
            distinct (map item (snd st1)) \<longrightarrow> emitted (snd st1) \<subseteq> placed_set hs (fst st1) \<longrightarrow>
           (\<forall>st'. place_items hs d fuel js st1 = Some st' \<longrightarrow>
              distinct (map item (snd st'))
              \<and> emitted (snd st') = emitted (snd st1) \<union> (placed_set hs (fst st') - placed_set hs (fst st1)))"
  show "length (fst st) = length hs \<longrightarrow> (\<forall>j \<in> set (j # js). j < length hs) \<longrightarrow>
            distinct (map item (snd st)) \<longrightarrow> emitted (snd st) \<subseteq> placed_set hs (fst st) \<longrightarrow>
           (\<forall>st'. place_items hs d fuel (j # js) st = Some st' \<longrightarrow>
              distinct (map item (snd st'))
              \<and> emitted (snd st') = emitted (snd st) \<union> (placed_set hs (fst st') - placed_set hs (fst st)))"
  proof (intro impI allI)
    fix st'
    assume len: "length (fst st) = length hs" and range: "\<forall>j \<in> set (j # js). j < length hs"
      and dist: "distinct (map item (snd st))"
      and sub: "emitted (snd st) \<subseteq> placed_set hs (fst st)"
      and run: "place_items hs d fuel (j # js) st = Some st'"
    from run obtain st1 where first: "place hs d fuel j st = Some st1"
      and rest: "place_items hs d fuel js st1 = Some st'"
      by (auto simp: place_items_Cons split: option.splits)
    from place_grows [OF ok len _ first] range have g1: "grows hs st st1" by simp
    then have len1: "length (fst st1) = length hs" by (simp add: grows_def)
    from place_items_grows [OF ok len1 _ rest] range have g2: "grows hs st1 st'" by simp
    note m1 = placed_set_mono [OF g1] and m2 = placed_set_mono [OF g2]
    from IHp len range dist sub first
    have d1: "distinct (map item (snd st1))"
      and e1: "emitted (snd st1) = emitted (snd st) \<union> (placed_set hs (fst st1) - placed_set hs (fst st))"
      by simp_all
    from e1 sub m1 have sub1: "emitted (snd st1) \<subseteq> placed_set hs (fst st1)" by auto
    from IHq [OF first] len1 range d1 sub1 rest
    have d2: "distinct (map item (snd st'))"
      and e2: "emitted (snd st') = emitted (snd st1) \<union> (placed_set hs (fst st') - placed_set hs (fst st1))"
      by simp_all
    from e1 e2 m1 m2
    have "emitted (snd st') = emitted (snd st) \<union> (placed_set hs (fst st') - placed_set hs (fst st))"
      by auto
    with d2 show "distinct (map item (snd st'))
              \<and> emitted (snd st') = emitted (snd st) \<union> (placed_set hs (fst st') - placed_set hs (fst st))"
      by simp
  qed
qed

lemma place_inv:
  assumes ok: "deps_ok hs d" and tg: "tagged hs" and inv: "state_ok hs st" and i: "i < length hs"
    and run: "place hs d fuel i st = Some st'"
  shows "state_ok hs st'" and "pending hs st' = pending hs st" and "grows hs st st'" and "fst st' ! i"
proof -
  from inv have len: "length (fst st) = length hs" by (simp add: state_ok_def)
  from place_grows [OF ok len i run] show g: "grows hs st st'" and "fst st' ! i" by simp_all
  from place_emits_aux [OF ok tg, of st i fuel] inv i run
  have d: "distinct (map item (snd st'))"
    and e: "emitted (snd st') = emitted (snd st) \<union> (placed_set hs (fst st') - placed_set hs (fst st))"
    by (simp_all add: state_ok_def)
  note m = placed_set_mono [OF g]
  from g d e inv m show "state_ok hs st'" by (auto simp: state_ok_def grows_def)
  from e inv m show "pending hs st' = pending hs st" by (auto simp: pending_def state_ok_def)
qed

lemma place_items_inv:
  assumes ok: "deps_ok hs d" and tg: "tagged hs" and inv: "state_ok hs st"
    and js: "\<forall>j \<in> set js. j < length hs"
    and run: "place_items hs d fuel js st = Some st'"
  shows "state_ok hs st'" and "pending hs st' = pending hs st" and "grows hs st st'"
    and "\<forall>j \<in> set js. fst st' ! j"
proof -
  from inv have len: "length (fst st) = length hs" by (simp add: state_ok_def)
  from place_items_grows [OF ok len js run]
  show g: "grows hs st st'" and "\<forall>j \<in> set js. fst st' ! j" by simp_all
  from place_emits_aux [OF ok tg, of st _ fuel js] inv js run
  have d: "distinct (map item (snd st'))"
    and e: "emitted (snd st') = emitted (snd st) \<union> (placed_set hs (fst st') - placed_set hs (fst st))"
    by (simp_all add: state_ok_def)
  note m = placed_set_mono [OF g]
  from g d e inv m show "state_ok hs st'" by (auto simp: state_ok_def grows_def)
  from e inv m show "pending hs st' = pending hs st" by (auto simp: pending_def state_ok_def)
qed

lemma precedes_snoc_old: "y \<in> set xs \<Longrightarrow> precedes x y (xs @ [z]) = precedes x y xs"
  by (simp add: precedes_def takeWhile_append1)

lemma takeWhile_upto_new: "y \<notin> set xs \<Longrightarrow> takeWhile (\<lambda>z. z \<noteq> y) (xs @ [y]) = xs"
  by (induction xs) auto

lemma precedes_snoc_new: "y \<notin> set xs \<Longrightarrow> precedes x y (xs @ [y]) = (x \<in> set xs)"
  by (simp add: precedes_def takeWhile_upto_new)

lemma precedes_append: "precedes x y xs \<Longrightarrow> precedes x y (xs @ ext)"
  by (auto simp: precedes_def takeWhile_append1)

lemma place_closed_aux:
  assumes ok: "deps_ok hs d" and tg: "tagged hs" and acyc: "acyclic (edges hs d)"
  shows "(state_ok hs st \<longrightarrow> i < length hs \<longrightarrow> providers_first hs d (snd st) \<longrightarrow>
            (\<forall>g \<in> pending hs st. (i, g) \<notin> (edges hs d)\<^sup>*) \<longrightarrow>
           (\<forall>st'. place hs d fuel i st = Some st' \<longrightarrow>
              providers_first hs d (snd st') \<and> i \<in> emitted (snd st')))
       \<and> (state_ok hs st \<longrightarrow> (\<forall>j \<in> set js. j < length hs \<and> (\<forall>g \<in> pending hs st. (j, g) \<notin> (edges hs d)\<^sup>*)) \<longrightarrow>
            providers_first hs d (snd st) \<longrightarrow>
           (\<forall>st'. place_items hs d fuel js st = Some st' \<longrightarrow>
              providers_first hs d (snd st') \<and> set js \<subseteq> emitted (snd st')))"
proof (rule place_induct [where hs = hs and d = d
      and P = "\<lambda>fuel i st. state_ok hs st \<longrightarrow> i < length hs \<longrightarrow> providers_first hs d (snd st) \<longrightarrow>
            (\<forall>g \<in> pending hs st. (i, g) \<notin> (edges hs d)\<^sup>*) \<longrightarrow>
           (\<forall>st'. place hs d fuel i st = Some st' \<longrightarrow>
              providers_first hs d (snd st') \<and> i \<in> emitted (snd st'))"
      and Q = "\<lambda>fuel js st. state_ok hs st \<longrightarrow>
            (\<forall>j \<in> set js. j < length hs \<and> (\<forall>g \<in> pending hs st. (j, g) \<notin> (edges hs d)\<^sup>*)) \<longrightarrow>
            providers_first hs d (snd st) \<longrightarrow>
           (\<forall>st'. place_items hs d fuel js st = Some st' \<longrightarrow>
              providers_first hs d (snd st') \<and> set js \<subseteq> emitted (snd st'))"])
  fix i st
  show "state_ok hs st \<longrightarrow> i < length hs \<longrightarrow> providers_first hs d (snd st) \<longrightarrow>
            (\<forall>g \<in> pending hs st. (i, g) \<notin> (edges hs d)\<^sup>*) \<longrightarrow>
           (\<forall>st'. place hs d 0 i st = Some st' \<longrightarrow>
              providers_first hs d (snd st') \<and> i \<in> emitted (snd st'))"
    by (simp add: place_zero)
next
  fix fuel i p ord
  assume IH: "\<not> p ! i \<Longrightarrow>
      state_ok hs (p[i := True], ord) \<longrightarrow>
            (\<forall>j \<in> set (items hs d i). j < length hs
                \<and> (\<forall>g \<in> pending hs (p[i := True], ord). (j, g) \<notin> (edges hs d)\<^sup>*)) \<longrightarrow>
            providers_first hs d (snd (p[i := True], ord)) \<longrightarrow>
           (\<forall>st'. place_items hs d fuel (items hs d i) (p[i := True], ord) = Some st' \<longrightarrow>
              providers_first hs d (snd st') \<and> set (items hs d i) \<subseteq> emitted (snd st'))"
  show "state_ok hs (p, ord) \<longrightarrow> i < length hs \<longrightarrow> providers_first hs d (snd (p, ord)) \<longrightarrow>
            (\<forall>g \<in> pending hs (p, ord). (i, g) \<notin> (edges hs d)\<^sup>*) \<longrightarrow>
           (\<forall>st'. place hs d (Suc fuel) i (p, ord) = Some st' \<longrightarrow>
              providers_first hs d (snd st') \<and> i \<in> emitted (snd st'))"
  proof (intro impI allI)
    fix st'
    assume inv: "state_ok hs (p, ord)" and i: "i < length hs" and cl: "providers_first hs d (snd (p, ord))"
      and nr: "\<forall>g \<in> pending hs (p, ord). (i, g) \<notin> (edges hs d)\<^sup>*"
      and run: "place hs d (Suc fuel) i (p, ord) = Some st'"
    from inv have len: "length p = length hs" and dist: "distinct (map item ord)"
      and sub: "emitted ord \<subseteq> placed_set hs p"
      by (simp_all add: state_ok_def)
    show "providers_first hs d (snd st') \<and> i \<in> emitted (snd st')"
    proof (cases "p ! i")
      case True
      with run have st': "st' = (p, ord)" by (simp add: place_Suc)
      from nr have "i \<notin> pending hs (p, ord)" by blast
      with True i have "i \<in> emitted ord" by (simp add: pending_def placed_set_def)
      with cl st' show ?thesis by simp
    next
      case False
      with run obtain p2 o2 where
        inner: "place_items hs d fuel (items hs d i) (p[i := True], ord) = Some (p2, o2)"
        and st': "st' = (p2, o2 @ [hs ! i])"
        by (auto simp: place_Suc split: option.splits)
      have notin: "i \<notin> placed_set hs p" using False by (simp add: placed_set_def)
      have ps1: "placed_set hs (p[i := True]) = insert i (placed_set hs p)"
        using len i by (simp add: placed_set_update)
      have inv1: "state_ok hs (p[i := True], ord)"
        using inv ps1 by (auto simp: state_ok_def)
      have pending1: "pending hs (p[i := True], ord) = insert i (pending hs (p, ord))"
        using ps1 sub notin by (auto simp: pending_def)
      have range: "\<forall>j \<in> set (items hs d i). j < length hs"
        using ok by (simp add: items_in_range)
      have nr1: "\<forall>j \<in> set (items hs d i). \<forall>g \<in> pending hs (p[i := True], ord). (j, g) \<notin> (edges hs d)\<^sup>*"
      proof (intro ballI notI)
        fix j g
        assume j: "j \<in> set (items hs d i)" and g: "g \<in> pending hs (p[i := True], ord)"
          and reach: "(j, g) \<in> (edges hs d)\<^sup>*"
        from i j have e: "(i, j) \<in> edges hs d" by (simp add: edges_def)
        show False
        proof (cases "g = i")
          case True
          with e reach have "(i, i) \<in> (edges hs d)\<^sup>+" by (simp add: rtrancl_into_trancl2)
          with acyc show False by (simp add: acyclic_def)
        next
          case False
          with g pending1 have "g \<in> pending hs (p, ord)" by simp
          moreover from e reach have "(i, g) \<in> (edges hs d)\<^sup>*" by (rule converse_rtrancl_into_rtrancl)
          ultimately show False using nr by blast
        qed
      qed
      from IH [OF False] inv1 range nr1 cl inner
      have cl2: "providers_first hs d o2" and sub2: "set (items hs d i) \<subseteq> emitted o2"
        by simp_all
      note facts = place_items_inv [OF ok tg inv1 range inner]
      from facts(2) pending1 have "i \<in> pending hs (p2, o2)" by simp
      then have new: "i \<notin> set (map item o2)" by (simp add: pending_def emitted_def)
      have it: "item (hs ! i) = i" using tg i by (simp add: tagged_def)
      have "providers_first hs d (o2 @ [hs ! i])"
        unfolding providers_first_def
      proof (intro ballI)
        fix k j
        assume k: "k \<in> emitted (o2 @ [hs ! i])" and j: "j \<in> set (items hs d k)"
        show "precedes j k (map item (o2 @ [hs ! i]))"
        proof (cases "k = i")
          case True
          with j sub2 have "j \<in> set (map item o2)" by (auto simp: emitted_def)
          with new True it show ?thesis by (simp add: precedes_snoc_new)
        next
          case False
          with k it have k2: "k \<in> set (map item o2)" by (auto simp: emitted_def)
          with cl2 j have "precedes j k (map item o2)" by (auto simp: providers_first_def emitted_def)
          with k2 it show ?thesis by (simp add: precedes_snoc_old)
        qed
      qed
      moreover have "i \<in> emitted (o2 @ [hs ! i])" using it by (simp add: emitted_def)
      ultimately show ?thesis by (simp add: st')
    qed
  qed
next
  fix fuel st
  show "state_ok hs st \<longrightarrow>
            (\<forall>j \<in> set []. j < length hs \<and> (\<forall>g \<in> pending hs st. (j, g) \<notin> (edges hs d)\<^sup>*)) \<longrightarrow>
            providers_first hs d (snd st) \<longrightarrow>
           (\<forall>st'. place_items hs d fuel [] st = Some st' \<longrightarrow>
              providers_first hs d (snd st') \<and> set [] \<subseteq> emitted (snd st'))"
    by (simp add: place_items_Nil)
next
  fix fuel j js st
  assume IHp: "state_ok hs st \<longrightarrow> j < length hs \<longrightarrow> providers_first hs d (snd st) \<longrightarrow>
            (\<forall>g \<in> pending hs st. (j, g) \<notin> (edges hs d)\<^sup>*) \<longrightarrow>
           (\<forall>st'. place hs d fuel j st = Some st' \<longrightarrow>
              providers_first hs d (snd st') \<and> j \<in> emitted (snd st'))"
    and IHq: "\<And>st1. place hs d fuel j st = Some st1 \<Longrightarrow>
        state_ok hs st1 \<longrightarrow>
            (\<forall>j \<in> set js. j < length hs \<and> (\<forall>g \<in> pending hs st1. (j, g) \<notin> (edges hs d)\<^sup>*)) \<longrightarrow>
            providers_first hs d (snd st1) \<longrightarrow>
           (\<forall>st'. place_items hs d fuel js st1 = Some st' \<longrightarrow>
              providers_first hs d (snd st') \<and> set js \<subseteq> emitted (snd st'))"
  show "state_ok hs st \<longrightarrow>
            (\<forall>j \<in> set (j # js). j < length hs \<and> (\<forall>g \<in> pending hs st. (j, g) \<notin> (edges hs d)\<^sup>*)) \<longrightarrow>
            providers_first hs d (snd st) \<longrightarrow>
           (\<forall>st'. place_items hs d fuel (j # js) st = Some st' \<longrightarrow>
              providers_first hs d (snd st') \<and> set (j # js) \<subseteq> emitted (snd st'))"
  proof (intro impI allI)
    fix st'
    assume inv: "state_ok hs st"
      and pre: "\<forall>j \<in> set (j # js). j < length hs \<and> (\<forall>g \<in> pending hs st. (j, g) \<notin> (edges hs d)\<^sup>*)"
      and cl: "providers_first hs d (snd st)"
      and run: "place_items hs d fuel (j # js) st = Some st'"
    from run obtain st1 where first: "place hs d fuel j st = Some st1"
      and rest: "place_items hs d fuel js st1 = Some st'"
      by (auto simp: place_items_Cons split: option.splits)
    from pre have j: "j < length hs" and js: "\<forall>j \<in> set js. j < length hs" by simp_all
    note f1 = place_inv [OF ok tg inv j first]
    from IHp inv pre cl first have cl1: "providers_first hs d (snd st1)" and j1: "j \<in> emitted (snd st1)"
      by simp_all
    from pre f1(2) have pre1:
      "\<forall>j \<in> set js. j < length hs \<and> (\<forall>g \<in> pending hs st1. (j, g) \<notin> (edges hs d)\<^sup>*)"
      by simp
    from IHq [OF first] f1(1) pre1 cl1 rest
    have cl2: "providers_first hs d (snd st')" and js2: "set js \<subseteq> emitted (snd st')" by simp_all
    note f2 = place_items_inv [OF ok tg f1(1) js rest]
    from f2(3) j1 have "j \<in> emitted (snd st')" by (auto simp: grows_def emitted_def)
    with cl2 js2 show "providers_first hs d (snd st') \<and> set (j # js) \<subseteq> emitted (snd st')" by simp
  qed
qed

lemma fold_names_set:
  "set ((fold (\<lambda>name deps. deps(name := deps name @ [i])) names acc) x)
     = set (acc x) \<union> (if x \<in> set names then {i} else {})"
  by (induction names arbitrary: acc) auto

lemma fold_provider_set:
  "set ((case Provides h of
           None \<Rightarrow> acc
         | Some names \<Rightarrow> fold (\<lambda>name deps. deps(name := deps name @ [i])) names acc) x)
     = set (acc x) \<union> (if x \<in> set (provided h) then {i} else {})"
  by (simp add: provided_def fold_names_set split: option.splits)

lemma fold_enumerate_set:
  "set ((fold (\<lambda>(i, h) deps.
             case Provides h of
               None \<Rightarrow> deps
             | Some names \<Rightarrow> fold (\<lambda>name deps. deps(name := deps name @ [i])) names deps)
          (enumerate k hs) acc) x)
     = set (acc x) \<union> {i. k \<le> i \<and> i < k + length hs \<and> x \<in> set (provided (hs ! (i - k)))}"
proof (induction hs arbitrary: k acc)
  case Nil
  then show ?case by auto
next
  case (Cons h hs)
  have "{i. k \<le> i \<and> i < k + length (h # hs) \<and> x \<in> set (provided ((h # hs) ! (i - k)))}
      = (if x \<in> set (provided h) then {k} else {})
        \<union> {i. Suc k \<le> i \<and> i < Suc k + length hs \<and> x \<in> set (provided (hs ! (i - Suc k)))}"
    (is "?L = ?R")
  proof (intro set_eqI iffI)
    fix i assume "i \<in> ?L"
    then show "i \<in> ?R"
      by (cases "i = k") (auto simp: nth_Cons' Suc_diff_le split: if_splits)
  next
    fix i assume "i \<in> ?R"
    then show "i \<in> ?L"
      by (cases "i = k") (auto simp: nth_Cons' split: if_splits)
  qed
  then show ?case
    by (simp add: Cons.IH fold_provider_set Un_assoc)
qed

lemma dependencies_set:
  "set (dependencies hs name) = {i. i < length hs \<and> name \<in> set (provided (hs ! i))}"
  by (simp add: dependencies_def fold_enumerate_set)

lemma dependencies_in_range: "j \<in> set (dependencies hooks name) \<Longrightarrow> j < length hooks"
  by (simp add: dependencies_set)

lemma deps_ok_dependencies: "deps_ok hs (dependencies hs)"
  by (simp add: deps_ok_def dependencies_set)

lemma fold_enumerate_retag:
  assumes "\<And>i h. Provides (r i h) = Provides h"
  shows "fold (\<lambda>(i, h) deps.
             case Provides h of
               None \<Rightarrow> deps
             | Some names \<Rightarrow> fold (\<lambda>name deps. deps(name := deps name @ [i])) names deps)
          (enumerate k (map (\<lambda>(i, h). r i h) (enumerate m hs))) acc
       = fold (\<lambda>(i, h) deps.
             case Provides h of
               None \<Rightarrow> deps
             | Some names \<Rightarrow> fold (\<lambda>name deps. deps(name := deps name @ [i])) names deps)
          (enumerate k hs) acc"
  by (induction hs arbitrary: k m acc) (simp_all add: assms)

lemma dependencies_indexed: "dependencies (indexed hs) = dependencies hs"
  unfolding dependencies_def indexed_def
  by (rule fold_enumerate_retag) simp

lemma length_indexed: "length (indexed hs) = length hs"
  by (simp add: indexed_def)

lemma nth_indexed:
  "i < length hs \<Longrightarrow>
   indexed hs ! i = \<lparr>item = i, Provides = Provides (hs ! i), DependsOn = DependsOn (hs ! i)\<rparr>"
  by (simp add: indexed_def nth_enumerate_eq)

lemma tagged_indexed: "tagged (indexed hs)"
  by (simp add: tagged_def length_indexed nth_indexed)

lemma items_indexed: "i < length hs \<Longrightarrow> items (indexed hs) d i = items hs d i"
  by (simp add: items_def nth_indexed)

lemma place_indexed_aux:
  assumes ok: "deps_ok hs d"
  shows "(i < length hs \<longrightarrow>
            place hs d fuel i (relabel hs st) = map_option (relabel hs) (place (indexed hs) d fuel i st))
       \<and> ((\<forall>j \<in> set js. j < length hs) \<longrightarrow>
            place_items hs d fuel js (relabel hs st)
              = map_option (relabel hs) (place_items (indexed hs) d fuel js st))"
proof (rule place_induct [where hs = "indexed hs" and d = d
      and P = "\<lambda>fuel i st. i < length hs \<longrightarrow>
            place hs d fuel i (relabel hs st) = map_option (relabel hs) (place (indexed hs) d fuel i st)"
      and Q = "\<lambda>fuel js st. (\<forall>j \<in> set js. j < length hs) \<longrightarrow>
            place_items hs d fuel js (relabel hs st)
              = map_option (relabel hs) (place_items (indexed hs) d fuel js st)"])
  fix i st
  show "i < length hs \<longrightarrow>
            place hs d 0 i (relabel hs st) = map_option (relabel hs) (place (indexed hs) d 0 i st)"
    by (simp add: place_zero)
next
  fix fuel i p ord
  assume IH: "\<not> p ! i \<Longrightarrow>
      (\<forall>j \<in> set (items (indexed hs) d i). j < length hs) \<longrightarrow>
            place_items hs d fuel (items (indexed hs) d i) (relabel hs (p[i := True], ord))
              = map_option (relabel hs)
                  (place_items (indexed hs) d fuel (items (indexed hs) d i) (p[i := True], ord))"
  show "i < length hs \<longrightarrow>
            place hs d (Suc fuel) i (relabel hs (p, ord))
              = map_option (relabel hs) (place (indexed hs) d (Suc fuel) i (p, ord))"
  proof
    assume i: "i < length hs"
    show "place hs d (Suc fuel) i (relabel hs (p, ord))
              = map_option (relabel hs) (place (indexed hs) d (Suc fuel) i (p, ord))"
    proof (cases "p ! i")
      case True
      then show ?thesis by (simp add: relabel_def place_Suc)
    next
      case False
      have eq: "items (indexed hs) d i = items hs d i" using i by (rule items_indexed)
      from IH [OF False] ok eq
      have inner: "place_items hs d fuel (items hs d i) (p[i := True], map (\<lambda>h. hs ! item h) ord)
              = map_option (relabel hs)
                  (place_items (indexed hs) d fuel (items hs d i) (p[i := True], ord))"
        by (simp add: items_in_range relabel_def)
      have it: "hs ! item (indexed hs ! i) = hs ! i" using i by (simp add: nth_indexed)
      show ?thesis
        using False inner it
        by (simp add: relabel_def place_Suc eq split: option.splits)
    qed
  qed
next
  fix fuel st
  show "(\<forall>j \<in> set []. j < length hs) \<longrightarrow>
            place_items hs d fuel [] (relabel hs st)
              = map_option (relabel hs) (place_items (indexed hs) d fuel [] st)"
    by (simp add: place_items_Nil)
next
  fix fuel j js st
  assume IHp: "j < length hs \<longrightarrow>
            place hs d fuel j (relabel hs st) = map_option (relabel hs) (place (indexed hs) d fuel j st)"
    and IHq: "\<And>st1. place (indexed hs) d fuel j st = Some st1 \<Longrightarrow>
        (\<forall>j \<in> set js. j < length hs) \<longrightarrow>
            place_items hs d fuel js (relabel hs st1)
              = map_option (relabel hs) (place_items (indexed hs) d fuel js st1)"
  show "(\<forall>j \<in> set (j # js). j < length hs) \<longrightarrow>
            place_items hs d fuel (j # js) (relabel hs st)
              = map_option (relabel hs) (place_items (indexed hs) d fuel (j # js) st)"
  proof
    assume range: "\<forall>j \<in> set (j # js). j < length hs"
    show "place_items hs d fuel (j # js) (relabel hs st)
              = map_option (relabel hs) (place_items (indexed hs) d fuel (j # js) st)"
    proof (cases "place (indexed hs) d fuel j st")
      case None
      with IHp range show ?thesis by (simp add: place_items_Cons)
    next
      case (Some st1)
      with IHp range have "place hs d fuel j (relabel hs st) = Some (relabel hs st1)" by simp
      with IHq [OF Some] range Some show ?thesis by (simp add: place_items_Cons)
    qed
  qed
qed

lemma dep_edges_iff:
  "(i, j) \<in> dep_edges hs \<longleftrightarrow> i < length hs \<and> j < length hs \<and> depends_on hs i j"
  by (auto simp: dep_edges_def)

lemma items_dependencies_set:
  "i < length hs \<Longrightarrow>
   set (items hs (dependencies hs) i) = {j. j < length hs \<and> depends_on hs i j}"
  by (auto simp: items_def depends_on_def required_def dependencies_set split: option.splits)

lemma edges_dependencies: "edges (indexed hs) (dependencies hs) = dep_edges hs"
  by (auto simp: edges_def dep_edges_iff length_indexed items_indexed items_dependencies_set)

text \<open>
  The code against the spec's algorithm. The list the code walks through,
  \<^verbatim>\<open>items\<close> after \<^verbatim>\<open>sort.Ints\<close>, is ascending but holds a provider once for every name it
  provides among those depended on; the second visit finds it placed and does nothing.
\<close>

lemma distinct_remdups_adj_sorted:
  fixes xs :: "nat list"
  shows "sorted xs \<Longrightarrow> distinct (remdups_adj xs)"
  by (induction xs rule: remdups_adj.induct) auto

lemma place_again:
  assumes "deps_ok hs d" "length (fst st) = length hs" "j < length hs"
    and "place hs d fuel j st = Some st'"
  shows "place hs d fuel j st' = Some st'"
proof -
  from assms(4) obtain k where k: "fuel = Suc k"
    by (cases fuel) (simp_all add: place_zero)
  from place_grows [OF assms] have "fst st' ! j" by simp
  then show ?thesis
    unfolding k by (cases st') (simp add: place_Suc)
qed

lemma place_items_remdups_adj:
  "deps_ok hs d \<Longrightarrow> length (fst st) = length hs \<Longrightarrow> \<forall>j \<in> set js. j < length hs \<Longrightarrow>
   place_items hs d fuel (remdups_adj js) st = place_items hs d fuel js st"
proof (induction js arbitrary: st rule: remdups_adj.induct)
  case 1
  show ?case by simp
next
  case (2 x)
  show ?case by simp
next
  case (3 x y xs)
  show ?case
  proof (cases "x = y")
    case True
    have "place_items hs d fuel (x # x # xs) st = place_items hs d fuel (x # xs) st"
    proof (cases "place hs d fuel x st")
      case None
      then show ?thesis by (simp add: place_items_Cons)
    next
      case (Some st')
      from place_again [OF "3.prems"(1,2) _ Some] "3.prems"(3)
      have "place hs d fuel x st' = Some st'" by simp
      with Some show ?thesis by (simp add: place_items_Cons)
    qed
    with True "3.IH"(1) [OF True "3.prems"(1,2)] "3.prems"(3) show ?thesis by simp
  next
    case False
    show ?thesis
    proof (cases "place hs d fuel x st")
      case None
      with False show ?thesis by (simp add: place_items_Cons)
    next
      case (Some st')
      from place_grows [OF "3.prems"(1,2) _ Some] "3.prems"(3)
      have len: "length (fst st') = length hs" by (simp add: grows_def)
      from "3.IH"(2) [OF False "3.prems"(1) len] "3.prems"(3)
      have "place_items hs d fuel (remdups_adj (y # xs)) st' = place_items hs d fuel (y # xs) st'"
        by simp
      with False Some show ?thesis by (simp add: place_items_Cons)
    qed
  qed
qed

lemma sorted_items: "sorted (items hs d i)"
  by (simp add: items_def split: option.splits)

lemma items_remdups_adj:
  assumes "i < length hs"
  shows "remdups_adj (items hs (dependencies hs) i) = spec_providers hs i"
proof (rule sorted_distinct_set_unique)
  show "sorted (remdups_adj (items hs (dependencies hs) i))"
    by (rule sorted_remdups_adj) (rule sorted_items)
  show "distinct (remdups_adj (items hs (dependencies hs) i))"
    by (rule distinct_remdups_adj_sorted) (rule sorted_items)
  show "sorted (spec_providers hs i)"
    by (simp add: spec_providers_def sorted_wrt_filter)
  show "distinct (spec_providers hs i)"
    by (simp add: spec_providers_def)
  show "set (remdups_adj (items hs (dependencies hs) i)) = set (spec_providers hs i)"
    using assms by (auto simp: items_dependencies_set spec_providers_def)
qed


lemma marks_pair: "marks hs (p, ord) = (placed_set hs p, ord)"
  by (simp add: marks_def)

lemma place_items_refines_step:
  assumes P: "\<And>i st. length (fst st) = length hs \<Longrightarrow> i < length hs \<Longrightarrow>
      map_option (marks hs) (place hs (dependencies hs) fuel i st) = spec_place hs fuel i (marks hs st)"
  shows "length (fst st) = length hs \<Longrightarrow> \<forall>j \<in> set js. j < length hs \<Longrightarrow>
      map_option (marks hs) (place_items hs (dependencies hs) fuel js st)
        = spec_place_all hs fuel js (marks hs st)"
proof (induction js arbitrary: st)
  case Nil
  show ?case by (simp add: place_items_Nil)
next
  case (Cons j js)
  from Cons.prems have j: "j < length hs" and js: "\<forall>j \<in> set js. j < length hs" by simp_all
  note first = P [OF Cons.prems(1) j]
  show ?case
  proof (cases "place hs (dependencies hs) fuel j st")
    case None
    with first show ?thesis by (simp add: place_items_Cons)
  next
    case (Some st')
    from place_grows [OF deps_ok_dependencies Cons.prems(1) j Some]
    have len: "length (fst st') = length hs" by (simp add: grows_def)
    from first Some have "spec_place hs fuel j (marks hs st) = Some (marks hs st')" by simp
    with Some Cons.IH [OF len js] show ?thesis by (simp add: place_items_Cons)
  qed
qed

lemma place_refines_step:
  assumes Q: "\<And>js st. length (fst st) = length hs \<Longrightarrow> \<forall>j \<in> set js. j < length hs \<Longrightarrow>
      map_option (marks hs) (place_items hs (dependencies hs) fuel js st)
        = spec_place_all hs fuel js (marks hs st)"
    and len: "length (fst st) = length hs" and i: "i < length hs"
  shows "map_option (marks hs) (place hs (dependencies hs) (Suc fuel) i st)
           = spec_place hs (Suc fuel) i (marks hs st)"
proof (cases st)
  case (Pair p ord)
  with len have lp: "length p = length hs" by simp
  from i have mem: "i \<in> placed_set hs p \<longleftrightarrow> p ! i" by (simp add: placed_set_def)
  show ?thesis
  proof (cases "p ! i")
    case True
    with mem show ?thesis by (simp add: Pair place_Suc marks_pair)
  next
    case False
    let ?st1 = "(p[i := True], ord)"
    have range: "\<forall>j \<in> set (items hs (dependencies hs) i). j < length hs"
      using items_in_range [OF deps_ok_dependencies] by blast
    have len1: "length (fst ?st1) = length hs" using lp by simp
    have "place_items hs (dependencies hs) fuel (items hs (dependencies hs) i) ?st1
        = place_items hs (dependencies hs) fuel (remdups_adj (items hs (dependencies hs) i)) ?st1"
      by (rule place_items_remdups_adj [OF deps_ok_dependencies len1 range, symmetric])
    also have "\<dots> = place_items hs (dependencies hs) fuel (spec_providers hs i) ?st1"
      by (simp add: items_remdups_adj [OF i])
    finally have same: "place_items hs (dependencies hs) fuel (items hs (dependencies hs) i) ?st1
        = place_items hs (dependencies hs) fuel (spec_providers hs i) ?st1" .
    have "\<forall>j \<in> set (spec_providers hs i). j < length hs"
      by (simp add: spec_providers_def)
    from Q [OF len1 this]
    have sim: "map_option (marks hs) (place_items hs (dependencies hs) fuel (spec_providers hs i) ?st1)
        = spec_place_all hs fuel (spec_providers hs i) (insert i (placed_set hs p), ord)"
      by (simp add: marks_pair placed_set_update [OF lp i])
    show ?thesis
    proof (cases "place_items hs (dependencies hs) fuel (spec_providers hs i) ?st1")
      case None
      with sim same False mem show ?thesis
        by (simp add: Pair place_Suc marks_pair)
    next
      case (Some r)
      obtain p' ord' where r: "r = (p', ord')" by (cases r)
      from sim Some r
      have "spec_place_all hs fuel (spec_providers hs i) (insert i (placed_set hs p), ord)
          = Some (placed_set hs p', ord')"
        by (simp add: marks_pair)
      with Some r same False mem show ?thesis
        by (simp add: Pair place_Suc marks_pair)
    qed
  qed
qed

lemma place_refines:
  "length (fst st) = length hs \<Longrightarrow> i < length hs \<Longrightarrow>
   map_option (marks hs) (place hs (dependencies hs) fuel i st) = spec_place hs fuel i (marks hs st)"
proof (induction fuel arbitrary: i st)
  case 0
  show ?case by (simp add: place_zero)
next
  case (Suc fuel)
  show ?case
    by (rule place_refines_step [OF place_items_refines_step [OF Suc.IH] Suc.prems]) simp_all
qed

lemma place_items_refines:
  "length (fst st) = length hs \<Longrightarrow> \<forall>j \<in> set js. j < length hs \<Longrightarrow>
   map_option (marks hs) (place_items hs (dependencies hs) fuel js st)
     = spec_place_all hs fuel js (marks hs st)"
  by (rule place_items_refines_step [OF place_refines])

lemma Order_refines: "Order hooks = spec_Order hooks"
proof -
  have "marks hooks (replicate (length hooks) False, []) = ({}, [])"
    by (simp add: marks_def placed_set_def)
  with place_items_refines [of "(replicate (length hooks) False, [])" hooks "[0..<length hooks]"
      "Suc (length hooks)"]
  have "map_option (marks hooks)
          (place_items hooks (dependencies hooks) (Suc (length hooks)) [0..<length hooks]
             (replicate (length hooks) False, []))
        = spec_place_all hooks (Suc (length hooks)) [0..<length hooks] ({}, [])"
    by simp
  then have "spec_place_all hooks (Suc (length hooks)) [0..<length hooks] ({}, [])
      = map_option (marks hooks)
          (place_items hooks (dependencies hooks) (Suc (length hooks)) [0..<length hooks]
             (replicate (length hooks) False, []))"
    by simp
  then show ?thesis
    by (simp add: Order_def spec_Order_def marks_def split: option.splits prod.splits)
qed

text \<open>
  Claim C8: \<^verbatim>\<open>Order\<close> places depth first. It returns exactly what the algorithm in the
  words of the spec returns (\<open>spec_Order\<close>): for each hook in the original order it first
  places, in ascending position, the hooks that provide a name the hook depends on, then
  the hook itself, and skips what is already placed. It never fails and always returns:
  the run on any list, cyclic or not, ends within the depth given (\<open>Order hooks\<close> is
  \<open>Some\<close>), and what it returns is the hooks at the positions \<open>placement hooks\<close>, a
  rearrangement of all positions, each once. When the dependencies have no cycle, every
  hook that provides a name another hook depends on stands before that hook in the
  output.
\<close>

theorem Order_places_providers_first:
  "Order hooks = spec_Order hooks
   \<and> Order hooks = Some (map ((!) hooks) (placement hooks))
   \<and> mset (placement hooks) = mset [0..<length hooks]
   \<and> (acyclic (dep_edges hooks) \<longrightarrow>
        (\<forall>i j. (i, j) \<in> dep_edges hooks \<longrightarrow> precedes j i (placement hooks)))"
proof -
  define n where "n = length hooks"
  define hs where "hs = indexed hooks"
  define d where "d = dependencies hooks"
  define st0 :: "bool list \<times> nat hook list" where "st0 = (replicate n False, [])"
  have len: "length hs = n" by (simp add: hs_def n_def length_indexed)
  have ok: "deps_ok hs d"
    using deps_ok_dependencies [of "indexed hooks"] by (simp add: hs_def d_def dependencies_indexed)
  have ok': "deps_ok hooks d" by (simp add: d_def deps_ok_dependencies)
  have tg: "tagged hs" by (simp add: hs_def tagged_indexed)
  have inv0: "state_ok hs st0" by (simp add: state_ok_def st0_def len emitted_def)
  have range: "\<forall>j \<in> set [0..<n]. j < length hs" by (simp add: len)
  have len0: "length (fst st0) = length hs" using inv0 by (simp add: state_ok_def)
  have fuel: "unplaced hs (fst st0) < Suc n"
  proof -
    have "unplaced hs (fst st0) \<le> card {k. k < n}"
      unfolding unplaced_def by (rule card_mono) (auto simp: len)
    then show ?thesis by simp
  qed
  from place_items_total [OF ok len0 range fuel]
  obtain st' where run: "place_items hs d (Suc n) [0..<n] st0 = Some st'"
    by blast
  note facts = place_items_inv [OF ok tg inv0 range run]
  have order_ix: "Order (indexed hooks) = Some (snd st')"
    using run by (simp add: Order_def length_indexed dependencies_indexed hs_def d_def n_def st0_def
        split: prod.splits)
  then have pl: "placement hooks = map item (snd st')" by (simp add: placement_def)
  have "place_items hooks d (Suc n) [0..<n] (relabel hooks st0)
      = map_option (relabel hooks) (place_items hs d (Suc n) [0..<n] st0)"
    using place_indexed_aux [OF ok', of _ "Suc n" st0 "[0..<n]"] by (simp add: hs_def n_def)
  with run have "place_items hooks d (Suc n) [0..<n] (replicate n False, []) = Some (relabel hooks st')"
    by (simp add: relabel_def st0_def)
  then have "Order hooks = Some (map (\<lambda>h. hooks ! item h) (snd st'))"
    by (simp add: Order_def d_def n_def relabel_def)
  then have 1: "Order hooks = Some (map ((!) hooks) (placement hooks))"
    by (simp add: pl comp_def)
  have all: "placed_set hs (fst st') = {k. k < n}"
    using facts(4) by (auto simp: placed_set_def len)
  have "pending hs st' = {}" using facts(2) by (simp add: pending_def st0_def placed_set_def emitted_def len)
  with facts(1) all have em: "emitted (snd st') = {k. k < n}"
    by (auto simp: pending_def state_ok_def)
  from facts(1) have dist: "distinct (map item (snd st'))" by (simp add: state_ok_def)
  have "set (map item (snd st')) = set [0..<n]" using em by (auto simp: emitted_def)
  with set_eq_iff_mset_eq_distinct [OF dist distinct_upt, of 0 n]
  have "mset (map item (snd st')) = mset [0..<n]" by blast
  then have 2: "mset (placement hooks) = mset [0..<length hooks]" by (simp add: pl n_def)
  have 3: "precedes j i (placement hooks)"
    if acyc: "acyclic (dep_edges hooks)" and e: "(i, j) \<in> dep_edges hooks" for i j
  proof -
    have ed: "edges hs d = dep_edges hooks" by (simp add: hs_def d_def edges_dependencies)
    have "providers_first hs d (snd st0)" by (simp add: providers_first_def st0_def emitted_def)
    moreover have "pending hs st0 = {}" by (auto simp: pending_def st0_def placed_set_def len)
    then have "\<forall>j \<in> set [0..<n]. j < length hs \<and> (\<forall>g \<in> pending hs st0. (j, g) \<notin> (edges hs d)\<^sup>*)"
      by (simp add: len)
    ultimately have cl: "providers_first hs d (snd st')"
      using place_closed_aux [OF ok tg, of st0 _ "Suc n" "[0..<n]"] acyc inv0 run
      by (simp add: ed)
    from e have "i < n" and "j \<in> set (items hs d i)"
      by (auto simp: ed [symmetric] edges_def len)
    with cl em show ?thesis by (auto simp: providers_first_def pl)
  qed
  from Order_refines 1 2 3 show ?thesis by blast
qed

lemma place_more_fuel_aux:
  "(\<forall>r. place hs d fuel i st = Some r \<longrightarrow> (\<forall>k \<ge> fuel. place hs d k i st = Some r))
   \<and> (\<forall>r. place_items hs d fuel js st = Some r \<longrightarrow> (\<forall>k \<ge> fuel. place_items hs d k js st = Some r))"
proof (rule place_induct [where hs = hs and d = d
      and P = "\<lambda>fuel i st. \<forall>r. place hs d fuel i st = Some r \<longrightarrow>
                 (\<forall>k \<ge> fuel. place hs d k i st = Some r)"
      and Q = "\<lambda>fuel js st. \<forall>r. place_items hs d fuel js st = Some r \<longrightarrow>
                 (\<forall>k \<ge> fuel. place_items hs d k js st = Some r)"])
  fix i st
  show "\<forall>r. place hs d 0 i st = Some r \<longrightarrow> (\<forall>k \<ge> 0. place hs d k i st = Some r)"
    by (simp add: place_zero)
next
  fix fuel i p ord
  assume IH: "\<not> p ! i \<Longrightarrow>
      \<forall>r. place_items hs d fuel (items hs d i) (p[i := True], ord) = Some r \<longrightarrow>
        (\<forall>k \<ge> fuel. place_items hs d k (items hs d i) (p[i := True], ord) = Some r)"
  show "\<forall>r. place hs d (Suc fuel) i (p, ord) = Some r \<longrightarrow>
          (\<forall>k \<ge> Suc fuel. place hs d k i (p, ord) = Some r)"
  proof (intro allI impI)
    fix r k
    assume run: "place hs d (Suc fuel) i (p, ord) = Some r" and k: "Suc fuel \<le> k"
    from k obtain k' where k': "k = Suc k'" and le: "fuel \<le> k'"
      by (cases k) auto
    show "place hs d k i (p, ord) = Some r"
    proof (cases "p ! i")
      case True
      with run have "r = (p, ord)" by (simp add: place_Suc)
      with True show ?thesis by (simp add: place_Suc k')
    next
      case False
      with run obtain p2 o2 where
        inner: "place_items hs d fuel (items hs d i) (p[i := True], ord) = Some (p2, o2)"
        and r: "r = (p2, o2 @ [hs ! i])"
        by (auto simp: place_Suc split: option.splits)
      from IH [OF False] inner le
      have "place_items hs d k' (items hs d i) (p[i := True], ord) = Some (p2, o2)" by blast
      with False r show ?thesis by (simp add: place_Suc k')
    qed
  qed
next
  fix fuel st
  show "\<forall>r. place_items hs d fuel [] st = Some r \<longrightarrow>
          (\<forall>k \<ge> fuel. place_items hs d k [] st = Some r)"
    by (simp add: place_items_Nil)
next
  fix fuel j js st
  assume IHp: "\<forall>r. place hs d fuel j st = Some r \<longrightarrow> (\<forall>k \<ge> fuel. place hs d k j st = Some r)"
    and IHq: "\<And>st1. place hs d fuel j st = Some st1 \<Longrightarrow>
        \<forall>r. place_items hs d fuel js st1 = Some r \<longrightarrow>
          (\<forall>k \<ge> fuel. place_items hs d k js st1 = Some r)"
  show "\<forall>r. place_items hs d fuel (j # js) st = Some r \<longrightarrow>
          (\<forall>k \<ge> fuel. place_items hs d k (j # js) st = Some r)"
  proof (intro allI impI)
    fix r k
    assume run: "place_items hs d fuel (j # js) st = Some r" and k: "fuel \<le> k"
    from run obtain st1 where first: "place hs d fuel j st = Some st1"
      and rest: "place_items hs d fuel js st1 = Some r"
      by (auto simp: place_items_Cons split: option.splits)
    from IHp first k have "place hs d k j st = Some st1" by blast
    moreover from IHq [OF first] rest k have "place_items hs d k js st1 = Some r" by blast
    ultimately show "place_items hs d k (j # js) st = Some r"
      by (simp add: place_items_Cons)
  qed
qed

lemma place_items_more_fuel:
  "place_items hs d fuel js st = Some r \<Longrightarrow> fuel \<le> k \<Longrightarrow> place_items hs d k js st = Some r"
  using place_more_fuel_aux [of hs d fuel _ st js] by blast

lemma unplaced_start: "unplaced hs (replicate (length hs) False) < Suc (length hs)"
proof -
  have "unplaced hs (replicate (length hs) False) \<le> card {k. k < length hs}"
    unfolding unplaced_def by (rule card_mono) auto
  then show ?thesis by simp
qed

text \<open>
  The fuel does not shape the result: with any fuel above the number of hooks the run
  ends with the order that \<open>Order\<close> returns.
\<close>

lemma Order_any_fuel:
  assumes "length hooks < fuel"
  shows "map_option snd
           (place_items hooks (dependencies hooks) fuel [0..<length hooks]
              (replicate (length hooks) False, []))
         = Order hooks"
proof -
  have "\<exists>st'. place_items hooks (dependencies hooks) (Suc (length hooks)) [0..<length hooks]
          (replicate (length hooks) False, []) = Some st'"
    by (rule place_items_total [OF deps_ok_dependencies]) (simp_all add: unplaced_start)
  then obtain st' where run:
    "place_items hooks (dependencies hooks) (Suc (length hooks)) [0..<length hooks]
       (replicate (length hooks) False, []) = Some st'"
    by blast
  from assms have "Suc (length hooks) \<le> fuel" by simp
  from place_items_more_fuel [OF run this] run show ?thesis
    by (simp add: Order_def split: prod.splits)
qed

lemma sample_edges: "dep_edges sample_hooks = {(0, 1), (0, 2), (1, 2)}"
  by (simp add: dep_edges_def sample_hooks_def depends_on_def required_def provided_def
      upt_rec insert_commute numeral_2_eq_2)

lemma cyclic_edges: "dep_edges cyclic_hooks = {(0, 1), (1, 0)}"
  by (simp add: dep_edges_def cyclic_hooks_def depends_on_def required_def provided_def
      upt_rec insert_commute)

lemma sample_acyclic: "acyclic (dep_edges sample_hooks)"
  unfolding sample_edges
  by (rule acyclicI_order [where f = "\<lambda>k. 3 - k"]) auto

lemma cyclic_not_acyclic: "\<not> acyclic (dep_edges cyclic_hooks)"
proof -
  have "((0::nat), (0::nat)) \<in> {(0, 1), (1, 0)}\<^sup>+"
    by (rule trancl_trans [of _ 1]) (simp_all add: r_into_trancl')
  then show ?thesis by (auto simp: acyclic_def cyclic_edges)
qed

text \<open>
  C8 at four hooks, where \<^verbatim>\<open>api\<close> depends on \<^verbatim>\<open>db\<close> and \<^verbatim>\<open>log\<close>, and \<^verbatim>\<open>db\<close> on \<^verbatim>\<open>log\<close>: the providers
  come first. Two hooks that depend on each other are ordered all the same. At the three
  hooks where \<^verbatim>\<open>x\<close> names its dependencies as \<^verbatim>\<open>b\<close>, \<^verbatim>\<open>a\<close>, the code collects the positions 2, 1, 2
  and visits them sorted; the providers are placed in ascending position, 1 before 2, and
  then \<^verbatim>\<open>x\<close>. Hooks without dependencies keep their order.
\<close>

theorem Order_places_providers_first_witness:
  "acyclic (dep_edges sample_hooks)
   \<and> dep_edges sample_hooks = {(0, 1), (0, 2), (1, 2)}
   \<and> placement sample_hooks = [2, 1, 0, 3]
   \<and> Order sample_hooks = Some [sample_hooks ! 2, sample_hooks ! 1, sample_hooks ! 0, sample_hooks ! 3]
   \<and> precedes 1 0 (placement sample_hooks)
   \<and> precedes 2 0 (placement sample_hooks)
   \<and> precedes 2 1 (placement sample_hooks)
   \<and> \<not> acyclic (dep_edges cyclic_hooks)
   \<and> placement cyclic_hooks = [1, 0]
   \<and> Order cyclic_hooks = Some [cyclic_hooks ! 1, cyclic_hooks ! 0]
   \<and> items order_hooks (dependencies order_hooks) 0 = [1, 2, 2]
   \<and> spec_providers order_hooks 0 = [1, 2]
   \<and> placement order_hooks = [1, 2, 0]
   \<and> Order order_hooks = Some [order_hooks ! 1, order_hooks ! 2, order_hooks ! 0]
   \<and> Order plain_hooks = Some plain_hooks"
proof -
  have p: "placement sample_hooks = [2, 1, 0, 3]" by code_simp
  have c: "placement cyclic_hooks = [1, 0]" by code_simp
  have i: "items order_hooks (dependencies order_hooks) 0 = [1, 2, 2]" by code_simp
  have s: "spec_providers order_hooks 0 = [1, 2]" by code_simp
  have q: "placement order_hooks = [1, 2, 0]" by code_simp
  have so: "spec_Order order_hooks = Some [order_hooks ! 1, order_hooks ! 2, order_hooks ! 0]"
    by code_simp
  have sp: "spec_Order plain_hooks = Some plain_hooks" by code_simp
  note T = Order_places_providers_first [of sample_hooks]
  from T sample_acyclic
  have "\<forall>i j. (i, j) \<in> dep_edges sample_hooks \<longrightarrow> precedes j i (placement sample_hooks)"
    by blast
  then have "precedes 1 0 (placement sample_hooks)" "precedes 2 0 (placement sample_hooks)"
    "precedes 2 1 (placement sample_hooks)"
    by (simp_all add: sample_edges)
  moreover from T [THEN conjunct2, THEN conjunct1] have "Order sample_hooks
      = Some [sample_hooks ! 2, sample_hooks ! 1, sample_hooks ! 0, sample_hooks ! 3]"
    by (simp add: p)
  moreover from Order_places_providers_first [of cyclic_hooks, THEN conjunct2, THEN conjunct1]
  have "Order cyclic_hooks = Some [cyclic_hooks ! 1, cyclic_hooks ! 0]"
    by (simp add: c)
  moreover from Order_places_providers_first [of order_hooks, THEN conjunct1]
  have "Order order_hooks = Some [order_hooks ! 1, order_hooks ! 2, order_hooks ! 0]"
    by (simp add: so)
  moreover from Order_places_providers_first [of plain_hooks, THEN conjunct1]
  have "Order plain_hooks = Some plain_hooks"
    by (simp add: sp)
  ultimately show ?thesis
    using sample_acyclic sample_edges cyclic_not_acyclic p c i s q by blast
qed

end
